(* ===== verification/Prelude.thy ===== *)
theory Prelude
  imports Main "HOL-Library.Sublist"
begin


text \<open>
  Shared vocabulary of the development: how JavaScript values that the front end
  manipulates are represented in HOL, the semantics of the few JavaScript built-ins
  the code relies on (truthiness, \<open>a || b\<close>, \<open>String.prototype.substr\<close>,
  \<open>Array.prototype.splice\<close>, promise settlement), and the generic list lemmas
  the component theories share.
  \<^item> Library objects the code only passes around (an \<open>ApiPromise\<close>, a keyring, a
    contract handle, an error object) are object references: a \<open>nat\<close> naming the
    object's identity.
  \<^item> A JavaScript string is a \<open>string\<close> (a list of code units; every character
    the code inspects is ASCII).
  \<^item> A field that may be \<open>null\<close> or \<open>undefined\<close> is an \<open>option\<close>.
\<close>

named_theorems js_simps "evaluation rules of the JavaScript built-ins used by the model"

type_synonym obj_ref = nat

datatype js_error = Error string

subsection \<open>Truthiness and the \<open>||\<close> default idiom\<close>

text \<open>A string-or-undefined value is truthy when it is present and non-empty.\<close>

definition truthy_str :: "string option \<Rightarrow> bool" where
  "truthy_str v = (case v of None \<Rightarrow> False | Some s \<Rightarrow> s \<noteq> [])"

text \<open>\<open>v || d\<close> for a string-or-undefined \<open>v\<close> and a string default \<open>d\<close>.\<close>

definition js_or_str :: "string option \<Rightarrow> string \<Rightarrow> string" where
  "js_or_str v d = (case v of Some s \<Rightarrow> if s = [] then d else s | None \<Rightarrow> d)"

subsection \<open>\<open>String.prototype.substr\<close>\<close>

text \<open>
  ECMAScript B.2.3.1: the start is clamped into \<open>[0, size]\<close> (a negative start
  counts from the end), the end is \<open>min (start + length) size\<close>, and an empty
  range gives the empty string.
\<close>

definition substr :: "string \<Rightarrow> int \<Rightarrow> int \<Rightarrow> string" where
  "substr s start len =
     (let size = int (length s);
          intStart = (if start < 0 then max (size + start) 0 else min start size);
          intEnd = min (intStart + len) size
      in if intStart \<ge> intEnd then [] else take (nat (intEnd - intStart)) (drop (nat intStart) s))"

subsection \<open>Promises\<close>

text \<open>
  A promise is pending until its first settlement; later calls of \<open>resolve\<close> or
  \<open>reject\<close> have no effect.
\<close>

datatype 'a promise = Pending | Fulfilled 'a | Rejected js_error

definition resolve :: "'a \<Rightarrow> 'a promise \<Rightarrow> 'a promise" where
  "resolve v p = (case p of Pending \<Rightarrow> Fulfilled v | _ \<Rightarrow> p)"

definition reject :: "js_error \<Rightarrow> 'a promise \<Rightarrow> 'a promise" where
  "reject e p = (case p of Pending \<Rightarrow> Rejected e | _ \<Rightarrow> p)"

subsection \<open>JSON values\<close>

text \<open>
  The values \<open>JSON.parse\<close> produces and \<open>JSON.stringify\<close> consumes. A number is an
  integer (\<open>JNum\<close>) or a decimal with a fraction, \<open>JDec m e\<close> standing for
  \<open>m / 10^e\<close> in lowest terms (\<open>e > 0\<close>, \<open>m\<close> not a multiple of 10); the code only
  moves numbers between the chain and the forms, and writes two decimal literals.
\<close>

datatype json =
    JNull | JBool bool | JNum int | JDec int nat | JStr string | JArr "json list"
  | JObj "(string \<times> json) list"

text \<open>
  Truthiness of a JSON value or \<open>undefined\<close> (\<open>None\<close>), and the property read
  \<open>v.k\<close>: an object answers from its entries (the model builds objects with the newest
  entry first, so the first entry of a key is the live one), any other value has no
  such property, and reading a property of \<open>undefined\<close> or \<open>null\<close> throws a
  \<open>TypeError\<close>, which \<open>nullish\<close> detects.
\<close>

fun json_truthy :: "json option \<Rightarrow> bool" where
  "json_truthy None = False"
| "json_truthy (Some JNull) = False"
| "json_truthy (Some (JBool b)) = b"
| "json_truthy (Some (JNum n)) = (n \<noteq> 0)"
| "json_truthy (Some (JDec m e)) = (m \<noteq> 0)"
| "json_truthy (Some (JStr s)) = (s \<noteq> [])"
| "json_truthy (Some (JArr xs)) = True"
| "json_truthy (Some (JObj kvs)) = True"

fun json_get :: "json \<Rightarrow> string \<Rightarrow> json option" where
  "json_get (JObj kvs) k = map_of kvs k"
| "json_get _ k = None"

definition js_get :: "json option \<Rightarrow> string \<Rightarrow> json option" where
  "js_get v k = (case v of Some x \<Rightarrow> json_get x k | None \<Rightarrow> None)"

definition nullish :: "json option \<Rightarrow> bool" where
  "nullish v \<longleftrightarrow> v = None \<or> v = Some JNull"

definition type_error :: js_error where
  "type_error = Error ''TypeError: Cannot read properties of undefined''"

text \<open>
  The own enumerable properties \<open>{...x}\<close> copies. Only objects contribute entries the
  code reads; the index entries a string or array would contribute are left out. An
  exception object has no enumerable property: it is the empty object.
\<close>

fun spread_props :: "json option \<Rightarrow> (string \<times> json) list" where
  "spread_props (Some (JObj kvs)) = kvs"
| "spread_props _ = []"

text \<open>\<open>[...v]\<close> and \<open>for ... of\<close>: arrays and strings are iterable, anything else throws.\<close>

fun js_iter :: "json \<Rightarrow> json list option" where
  "js_iter (JArr xs) = Some xs"
| "js_iter (JStr cs) = Some (map (\<lambda>c. JStr [c]) cs)"
| "js_iter _ = None"

definition iter_error :: js_error where
  "iter_error = Error ''TypeError: object is not iterable''"

subsection \<open>\<open>Array.prototype.splice\<close>\<close>

text \<open>
  ECMAScript 23.1.3.31: \<open>xs.splice(start, deleteCount)\<close> clamps the start into
  \<open>[0, length]\<close> (a negative start counts from the end) and the count into
  \<open>[0, length - start]\<close>, removes that many elements, and returns the removed ones.
  The model returns the pair (returned array, array after the call).
\<close>

definition js_splice :: "'a list \<Rightarrow> int \<Rightarrow> int \<Rightarrow> 'a list \<times> 'a list" where
  "js_splice xs start deleteCount =
     (let len = int (length xs);
          actualStart = (if start < 0 then max (len + start) 0 else min start len);
          actualDeleteCount = min (max deleteCount 0) (len - actualStart);
          s = nat actualStart; d = nat actualDeleteCount
      in (take d (drop s xs), take s xs @ drop (s + d) xs))"

subsection \<open>Lemmas: Truthiness and the \<open>||\<close> default idiom\<close>

lemma truthy_str_simps [simp, js_simps]:
  "truthy_str None = False"
  "truthy_str (Some s) = (s \<noteq> [])"
  by (simp_all add: truthy_str_def)

lemma js_or_str_simps [simp, js_simps]:
  "js_or_str None d = d"
  "js_or_str (Some s) d = (if s = [] then d else s)"
  by (simp_all add: js_or_str_def)

lemma js_or_str_nonempty [intro]: "d \<noteq> [] \<Longrightarrow> js_or_str v d \<noteq> []"
  by (cases v) auto

subsection \<open>Lemmas: \<open>String.prototype.substr\<close>\<close>

lemma substr_in_range [js_simps]:
  assumes "i \<le> length s"
  shows "substr s (int i) len = take (nat len) (drop i s)"
proof (cases "len \<le> 0")
  case True
  with assms show ?thesis by (simp add: substr_def Let_def min_def)
next
  case False
  show ?thesis
  proof (cases "int i + len \<le> int (length s)")
    case True
    with False assms have "nat (int i + len) - i = nat len" by simp
    with True False assms show ?thesis by (simp add: substr_def Let_def min_def)
  next
    case no: False
    with False assms show ?thesis
      by (simp add: substr_def Let_def min_def nat_diff_distrib)
  qed
qed

lemma substr_empty_range [js_simps]:
  "i \<le> length s \<Longrightarrow> len \<le> 0 \<Longrightarrow> substr s (int i) len = []"
  by (simp add: substr_in_range)

subsection \<open>Lemmas: Promises\<close>

lemma resolve_simps [simp, js_simps]:
  "resolve v Pending = Fulfilled v"
  "resolve v (Fulfilled w) = Fulfilled w"
  "resolve v (Rejected e) = Rejected e"
  by (simp_all add: resolve_def)

lemma reject_simps [simp, js_simps]:
  "reject e Pending = Rejected e"
  "reject e (Fulfilled w) = Fulfilled w"
  "reject e (Rejected e') = Rejected e'"
  by (simp_all add: reject_def)

subsection \<open>Lemmas: JSON values\<close>

lemma js_get_simps [simp, js_simps]:
  "js_get None k = None" "js_get (Some JNull) k = None"
  "js_get (Some (JObj kvs)) k = map_of kvs k"
  by (simp_all add: js_get_def)

lemma nullish_simps [simp, js_simps]:
  "nullish None" "nullish (Some JNull)" "\<not> nullish (Some (JObj kvs))" "\<not> nullish (Some (JStr s))"
  by (simp_all add: nullish_def)

subsection \<open>Lemmas: \<open>Array.prototype.splice\<close>\<close>

lemma js_splice_one [js_simps]:
  "i < length xs \<Longrightarrow> js_splice xs (int i) 1 = ([xs ! i], take i xs @ drop (Suc i) xs)"
  by (simp add: js_splice_def Let_def min_def take_Suc_conv_app_nth)

subsection \<open>Generic list lemmas\<close>

lemma take_drop_infix [intro]: "sublist (take n (drop m xs)) xs"
  by (metis append_take_drop_id sublist_appendI)

lemma map_of_map_key [simp]:
  "map_of (map (\<lambda>x. (x, f x)) xs) k = Some v \<longleftrightarrow> k \<in> set xs \<and> v = f k"
  by (induction xs) auto

lemma map_sum_id_Inr [simp]: "map_sum id h x = Inr b \<longleftrightarrow> (\<exists>y. x = Inr y \<and> h y = b)"
  by (cases x) auto

lemma nth_takeWhile_fails:
  "length (takeWhile P xs) < length xs \<Longrightarrow> \<not> P (xs ! length (takeWhile P xs))"
  by (metis nth_length_takeWhile)


end
