(* ===== verification/Strings.thy ===== *)
theory Strings
  imports Prelude
begin

text \<open>
  Model of \<^verbatim>\<open>src/src/utils/strings.js\<close>: the function \<open>trim\<close>, which cuts the
  JSON text out of the byte buffer a contract query returns. It looks for the first
  \<open>[\<close> or \<open>{\<close> (the start point), then scans from the last index down to
  index 1 for the matching closing bracket (the end point, or the string's length
  when there is none), and returns \<open>input.substr(startPoint, endPoint - startPoint + 1)\<close>.
  The two \<open>for\<close> loops are the functions \<open>start_scan\<close> and \<open>end_scan\<close>;
  \<open>trim_ref\<close> is a reference definition by list operations, and
  \<open>trim_ref_correct\<close> shows that the loops compute it.
\<close>

definition is_open :: "char \<Rightarrow> bool" where
  "is_open x \<longleftrightarrow> x = CHR ''['' \<or> x = CHR ''{''"

definition close_of :: "char \<Rightarrow> char" where
  "close_of startChar = (if startChar = CHR ''['' then CHR '']'' else CHR ''}'')"

function start_scan :: "string \<Rightarrow> nat \<Rightarrow> (char \<times> nat) option" where
  "start_scan input i =
     (if i < length input then
        (if input ! i = CHR ''['' \<or> input ! i = CHR ''{'' then Some (input ! i, i)
         else start_scan input (Suc i))
      else None)"
  by pat_completeness auto
termination by (relation "measure (\<lambda>(input, i). length input - i)") auto

declare start_scan.simps [simp del]

fun end_scan :: "string \<Rightarrow> char option \<Rightarrow> nat \<Rightarrow> nat option" where
  "end_scan input endChar 0 = None"
| "end_scan input endChar (Suc i) =
     (if Some (input ! Suc i) = endChar then Some (Suc i) else end_scan input endChar i)"

definition trim :: "string \<Rightarrow> string" where
  "trim input =
     (if input = [] then []
      else
        let (startChar, startPoint) =
              (case start_scan input 0 of None \<Rightarrow> (None, 0) | Some (c, i) \<Rightarrow> (Some c, i));
            endChar = map_option close_of startChar;
            endPoint =
              (case end_scan input endChar (length input - 1) of None \<Rightarrow> length input | Some i \<Rightarrow> i)
        in substr input (int startPoint) (int endPoint - int startPoint + 1))"







definition trim_ref :: "string \<Rightarrow> string" where
  "trim_ref s =
     (case dropWhile (\<lambda>x. \<not> is_open x) s of
        [] \<Rightarrow> s
      | b # rest \<Rightarrow>
          (let c = close_of b; p = takeWhile (\<lambda>x. \<not> is_open x) s in
           if c \<in> set rest then b # rev (dropWhile (\<lambda>x. x \<noteq> c) (rev rest))
           else if c \<in> set (drop 1 p) then []
           else b # rest))"

lemma start_scan_takeWhile:
  "start_scan s i =
     (let k = i + length (takeWhile (\<lambda>x. \<not> is_open x) (drop i s))
      in if k < length s then Some (s ! k, k) else None)"
proof (induction s i rule: start_scan.induct)
  case (1 s i)
  show ?case
  proof (cases "i < length s")
    case True
    then obtain x xs where d: "drop i s = x # xs" and x: "x = s ! i"
      by (metis Cons_nth_drop_Suc)
    from True have dx: "drop (Suc i) s = xs" using d by (metis drop_Suc list.sel(3) tl_drop)
    show ?thesis
    proof (cases "is_open x")
      case True
      with \<open>i < length s\<close> x d show ?thesis
        by (subst start_scan.simps) (auto simp: is_open_def Let_def)
    next
      case False
      with "1.IH" \<open>i < length s\<close> x d dx show ?thesis
        by (subst start_scan.simps) (auto simp: is_open_def Let_def)
    qed
  next
    case False
    then show ?thesis by (subst start_scan.simps) (simp add: Let_def)
  qed
qed

lemma end_scan_None:
  "end_scan s (Some c) j = None \<longleftrightarrow> (\<forall>k. 0 < k \<and> k \<le> j \<longrightarrow> s ! k \<noteq> c)"
proof (induction j)
  case 0
  then show ?case by simp
next
  case (Suc j)
  then show ?case by (auto simp: le_Suc_eq)
qed

lemma end_scan_Some:
  assumes "0 < k" "k \<le> j" "s ! k = c" "\<forall>m. k < m \<and> m \<le> j \<longrightarrow> s ! m \<noteq> c"
  shows "end_scan s (Some c) j = Some k"
  using assms
proof (induction j)
  case 0
  then show ?case by simp
next
  case (Suc j)
  show ?case
  proof (cases "k = Suc j")
    case True
    with Suc.prems show ?thesis by simp
  next
    case False
    with Suc.prems have "k \<le> j" by simp
    with Suc show ?thesis by auto
  qed
qed

lemma end_scan_None_char: "end_scan s None j = None"
  by (induction j) auto

lemma end_scan_SomeD:
  "end_scan s c j = Some k \<Longrightarrow> 0 < k \<and> k \<le> j \<and> Some (s ! k) = c \<and> (\<forall>m. k < m \<and> m \<le> j \<longrightarrow> Some (s ! m) \<noteq> c)"
proof (induction j)
  case 0
  then show ?case by simp
next
  case (Suc j)
  then show ?case by (auto simp: le_Suc_eq split: if_splits)
qed

lemma close_of_not_open [simp]: "\<not> is_open (close_of x)"
  by (simp add: is_open_def close_of_def)

lemma trim_split:
  assumes p: "\<forall>x\<in>set p. \<not> is_open x" and b: "is_open b"
  shows "trim (p @ b # rest) =
           (case end_scan (p @ b # rest) (Some (close_of b)) (length p + length rest) of
              None \<Rightarrow> b # rest
            | Some k \<Rightarrow> take (Suc k - length p) (b # rest))"
proof -
  let ?s = "p @ b # rest"
  have tw: "takeWhile (\<lambda>x. \<not> is_open x) ?s = p" using p b by (simp add: takeWhile_append2)
  have ss: "start_scan ?s 0 = Some (b, length p)"
    by (simp add: start_scan_takeWhile tw)
  show ?thesis
  proof (cases "end_scan ?s (Some (close_of b)) (length p + length rest)")
    case None
    with ss show ?thesis by (simp add: trim_def substr_in_range)
  next
    case (Some k)
    have "nat (int k - int (length p) + 1) = Suc k - length p" by simp
    with ss Some show ?thesis by (simp add: trim_def substr_in_range)
  qed
qed

lemma trim_no_open:
  assumes "\<forall>x\<in>set s. \<not> is_open x"
  shows "trim s = s"
proof -
  have tw: "takeWhile (\<lambda>x. \<not> is_open x) s = s" using assms by simp
  have "start_scan s 0 = None" by (simp add: start_scan_takeWhile Let_def tw)
  moreover have "substr s 0 (int (length s) + 1) = s"
    using substr_in_range [of 0 s] by simp
  ultimately show ?thesis by (simp add: trim_def end_scan_None_char)
qed

lemma rev_dropWhile_last:
  "c \<notin> set q \<Longrightarrow> rev (dropWhile (\<lambda>x. x \<noteq> c) (rev q @ c # rev m)) = m @ [c]"
proof -
  assume "c \<notin> set q"
  then have "dropWhile (\<lambda>x. x \<noteq> c) (rev q @ c # rev m) = c # rev m"
    using dropWhile_append2 [of "rev q" "\<lambda>x. x \<noteq> c" "c # rev m"] by auto
  then show ?thesis by simp
qed

lemma open_ne_close [simp]: "is_open b \<Longrightarrow> close_of b \<noteq> b" "is_open b \<Longrightarrow> b \<noteq> close_of b"
  using close_of_not_open by metis+

lemma nth_at_open:
  "(p @ b # rest) ! (length p + d) = (if d = 0 then b else rest ! (d - 1))"
  by (cases d) (simp_all add: nth_append)

lemma nth_after_open [simp]: "(p @ b # rest) ! Suc (length p + e) = rest ! e"
  by (simp add: nth_append)

lemma close_not_at_or_after_open:
  assumes "is_open b" "close_of b \<notin> set rest" "d \<le> length rest"
  shows "(p @ b # rest) ! (length p + d) \<noteq> close_of b"
proof (cases d)
  case (Suc e)
  with assms have "rest ! e \<in> set rest" by simp
  with Suc assms show ?thesis by (metis nth_after_open add_Suc_right)
qed (simp add: assms nth_at_open)

lemma trim_close_in_rest:
  assumes p: "\<forall>x\<in>set p. \<not> is_open x" and b: "is_open b" and q: "close_of b \<notin> set q"
  shows "trim (p @ b # m @ close_of b # q) = b # m @ [close_of b]"
proof -
  let ?c = "close_of b" and ?k = "length p + Suc (length m)"
  let ?s = "p @ b # m @ ?c # q"
  have "end_scan ?s (Some ?c) (length p + length (m @ ?c # q)) = Some ?k"
  proof (rule end_scan_Some)
    show "?s ! ?k = ?c" by (simp add: nth_append)
    show "\<forall>i. ?k < i \<and> i \<le> length p + length (m @ ?c # q) \<longrightarrow> ?s ! i \<noteq> ?c"
    proof (intro allI impI)
      fix i assume i: "?k < i \<and> i \<le> length p + length (m @ ?c # q)"
      define d where "d = i - Suc ?k"
      have d: "i = Suc ?k + d" "d < length q" using i d_def by simp_all arith+
      then have "?s ! i = q ! d" by (simp add: nth_append)
      with d q show "?s ! i \<noteq> ?c" by (metis nth_mem)
    qed
  qed simp_all
  then show ?thesis using trim_split [OF p b, of "m @ ?c # q"] by simp
qed

lemma trim_close_in_prefix:
  assumes p: "\<forall>x\<in>set p. \<not> is_open x" and b: "is_open b"
    and rest: "close_of b \<notin> set rest" and pre: "close_of b \<in> set (drop 1 p)"
  shows "trim (p @ b # rest) = []"
proof -
  let ?c = "close_of b" and ?s = "p @ b # rest" and ?j = "length p + length rest"
  from pre obtain i where "i < length p - 1" "p ! Suc i = ?c"
    by (auto simp: in_set_conv_nth)
  then have i: "Suc i < length p" "p ! Suc i = ?c" by simp_all
  then have "end_scan ?s (Some ?c) ?j \<noteq> None"
    by (auto simp: end_scan_None nth_append intro!: exI [of _ "Suc i"])
  then obtain k where k: "end_scan ?s (Some ?c) ?j = Some k" by blast
  have "k < length p"
  proof (rule ccontr)
    assume "\<not> k < length p"
    then obtain d where d: "k = length p + d" by (metis le_iff_add not_less)
    from k end_scan_SomeD have "?s ! k = ?c" "k \<le> ?j" by auto
    with d b rest close_not_at_or_after_open [of b rest d p] show False by simp
  qed
  then show ?thesis using k trim_split [OF p b, of rest] by simp
qed

lemma trim_unclosed:
  assumes p: "\<forall>x\<in>set p. \<not> is_open x" and b: "is_open b"
    and rest: "close_of b \<notin> set rest" and pre: "close_of b \<notin> set (drop 1 p)"
  shows "trim (p @ b # rest) = b # rest"
proof -
  let ?c = "close_of b" and ?s = "p @ b # rest" and ?j = "length p + length rest"
  have "\<forall>k. 0 < k \<and> k \<le> ?j \<longrightarrow> ?s ! k \<noteq> ?c"
  proof (intro allI impI)
    fix k assume k: "0 < k \<and> k \<le> ?j"
    show "?s ! k \<noteq> ?c"
    proof (cases "k < length p")
      case True
      with k have "p ! k \<in> set (drop 1 p)"
        using nth_mem [of "k - 1" "drop 1 p"] by simp
      with True pre show ?thesis by (auto simp: nth_append)
    next
      case False
      then obtain d where d: "k = length p + d" by (metis le_iff_add not_less)
      with k b rest close_not_at_or_after_open [of b rest d p] show ?thesis by simp
    qed
  qed
  then have "end_scan ?s (Some ?c) ?j = None" by (simp add: end_scan_None)
  then show ?thesis using trim_split [OF p b, of rest] by simp
qed

lemma trim_ref_correct: "trim s = trim_ref s"
proof (cases "dropWhile (\<lambda>x. \<not> is_open x) s")
  case Nil
  then have "\<forall>x\<in>set s. \<not> is_open x" by (simp add: dropWhile_eq_Nil_conv)
  moreover have "trim_ref s = s" by (simp only: trim_ref_def Nil list.case)
  ultimately show ?thesis by (simp add: trim_no_open)
next
  case (Cons b rest)
  let ?p = "takeWhile (\<lambda>x. \<not> is_open x) s" and ?c = "close_of b"
  have s: "s = ?p @ b # rest" using Cons by (metis takeWhile_dropWhile_id)
  have p: "\<forall>x\<in>set ?p. \<not> is_open x" by (auto dest: set_takeWhileD)
  have b: "is_open b" using Cons by (auto simp: dropWhile_eq_Cons_conv)
  consider (in_rest) "?c \<in> set rest"
    | (in_pre) "?c \<notin> set rest" "?c \<in> set (drop 1 ?p)"
    | (none) "?c \<notin> set rest" "?c \<notin> set (drop 1 ?p)" by blast
  then show ?thesis
  proof cases
    case in_rest
    then obtain m q where r: "rest = m @ ?c # q" "?c \<notin> set q" by (metis split_list_last)
    have s': "s = ?p @ b # m @ ?c # q" using s r(1) by metis
    have "trim s = b # m @ [?c]"
      by (subst s') (rule trim_close_in_rest [OF p b r(2)])
    then show ?thesis using Cons in_rest r by (simp add: trim_ref_def rev_dropWhile_last Let_def)
  next
    case in_pre
    then have "trim s = []" using trim_close_in_prefix [OF p b] s by metis
    then show ?thesis using Cons in_pre by (simp add: trim_ref_def)
  next
    case none
    then have "trim s = b # rest" using trim_unclosed [OF p b] s by metis
    then show ?thesis using Cons none by (simp add: trim_ref_def)
  qed
qed


subsection \<open>Properties of trim\<close>

lemma trim_ref_cases:
  "trim_ref s = s \<or> trim_ref s = [] \<or>
   (\<exists>p b m. s = p @ b # m \<and> (\<forall>x\<in>set p. \<not> is_open x) \<and> is_open b \<and>
      close_of b \<notin> set m \<and> trim_ref s = b # m) \<or>
   (\<exists>p b m q. s = p @ b # m @ close_of b # q \<and> (\<forall>x\<in>set p. \<not> is_open x) \<and> is_open b \<and>
      close_of b \<notin> set q \<and> trim_ref s = b # m @ [close_of b])"
proof (cases "dropWhile (\<lambda>x. \<not> is_open x) s")
  case Nil
  then show ?thesis by (simp only: trim_ref_def list.case) simp
next
  case (Cons b rest)
  let ?p = "takeWhile (\<lambda>x. \<not> is_open x) s" and ?c = "close_of b"
  have s: "s = ?p @ b # rest" using Cons by (metis takeWhile_dropWhile_id)
  have p: "\<forall>x\<in>set ?p. \<not> is_open x" by (auto dest: set_takeWhileD)
  have b: "is_open b" using Cons by (auto simp: dropWhile_eq_Cons_conv)
  show ?thesis
  proof (cases "?c \<in> set rest")
    case True
    then obtain m q where r: "rest = m @ ?c # q" "?c \<notin> set q" by (metis split_list_last)
    then have "trim_ref s = b # m @ [?c]"
      using Cons by (simp add: trim_ref_def rev_dropWhile_last Let_def)
    with s p b r show ?thesis by blast
  next
    case False
    then have "trim_ref s = [] \<or> trim_ref s = b # rest"
      using Cons by (simp add: trim_ref_def Let_def)
    with s p b False show ?thesis by blast
  qed
qed

text \<open>
  Trimming is idempotent: a second \<open>trim\<close> of an already trimmed buffer
  leaves it unchanged.
\<close>

theorem trim_idempotent: "trim (trim s) = trim s"
proof -
  have ref: "trim_ref (trim_ref s) = trim_ref s"
    using trim_ref_cases [of s]
  proof (elim disjE exE conjE)
    fix p b m assume "trim_ref s = b # m" "is_open b" "close_of b \<notin> set m"
    then show ?thesis by (simp add: trim_ref_def)
  next
    fix p b m q assume "trim_ref s = b # m @ [close_of b]" "is_open b"
    then show ?thesis
      by (simp add: trim_ref_def Let_def rev_dropWhile_last [of _ "[]"])
  qed (simp_all add: trim_ref_def)
  then show ?thesis by (simp add: trim_ref_correct)
qed

text \<open>
  The result of \<open>trim\<close> is a contiguous piece of its input.
\<close>

theorem trim_sublist: "sublist (trim s) s"
  using trim_ref_cases [of s] unfolding trim_ref_correct [symmetric]
proof (elim disjE exE conjE)
  fix p b m assume "s = p @ b # m" "trim s = b # m"
  then show ?thesis unfolding sublist_def by (metis append_Nil2)
next
  fix p b m q assume "s = p @ b # m @ close_of b # q" "trim s = b # m @ [close_of b]"
  then show ?thesis by (metis append.assoc append_Cons append_Nil sublist_appendI)
qed auto

text \<open>
  C1: \<open>trim\<close> extracts the JSON text: when the buffer is junk without an opening
  bracket, then a \<open>[\<close> or \<open>{\<close>, then the text, then the matching closing bracket
  followed by junk that does not contain that closing bracket, \<open>trim\<close> returns exactly
  the bracketed text.
\<close>

theorem trim_extracts_bracketed:
  assumes "\<forall>x\<in>set p. \<not> is_open x" and "is_open b" and "close_of b \<notin> set q"
  shows "trim (p @ b # m @ close_of b # q) = b # m @ [close_of b]"
proof -
  have "close_of b \<in> set (m @ close_of b # q)" by simp
  moreover have "dropWhile (\<lambda>x. \<not> is_open x) (p @ b # m @ close_of b # q) = b # m @ close_of b # q"
    using assms(1,2) by (simp add: dropWhile_append2)
  ultimately show ?thesis
    using assms(3) by (simp add: trim_ref_correct trim_ref_def Let_def rev_dropWhile_last)
qed

lemma trim_extracts_bracketed_witness:
  "trim (''ab'' @ CHR ''{'' # ''x'' @ CHR ''}'' # ''\<newline>'') = CHR ''{'' # ''x'' @ [CHR ''}'']"
  using trim_extracts_bracketed [of "''ab''" "CHR ''{''" "''\<newline>''" "''x''"]
  by (simp add: is_open_def close_of_def)

text \<open>
  A buffer that already is a JSON object or array text (it starts with an opening
  bracket and ends with the matching closing one) is returned unchanged.
\<close>

theorem trim_json_text_id:
  assumes "is_open b"
  shows "trim (b # m @ [close_of b]) = b # m @ [close_of b]"
  using trim_close_in_rest [of "[]" b "[]" m] assms by simp

lemma trim_json_text_id_witness:
  "trim (CHR ''['' # ''1,2'' @ [CHR '']'']) = CHR ''['' # ''1,2'' @ [CHR '']'']"
  using trim_json_text_id [of "CHR ''[''" "''1,2''"] by (simp add: is_open_def close_of_def)

text \<open>
  When the only closing bracket that matches the first opening bracket stands
  before it (at an index of at least 1), \<open>trim\<close> returns the empty string, although
  a JSON text (possibly truncated) follows the opening bracket: the end scan is not
  restricted to indices after the start point.
\<close>

theorem trim_close_before_open_empty:
  assumes "\<forall>x\<in>set p. \<not> is_open x" and "is_open b"
    and "close_of b \<notin> set rest" and "close_of b \<in> set (drop 1 p)"
  shows "trim (p @ b # rest) = []"
  using assms by (simp add: trim_ref_correct trim_ref_def Let_def dropWhile_append2 takeWhile_append2)

lemma trim_close_before_open_empty_witness:
  "trim (''x]y'' @ CHR ''['' # ''1,2'') = []"
  using trim_close_before_open_empty [of "''x]y''" "CHR ''[''" "''1,2''"]
  by (simp add: is_open_def close_of_def)

end
