(* ===== verification/SubstrateState.thy ===== *)
theory SubstrateState
  imports Prelude
begin

text \<open>
  Model of \<^verbatim>\<open>src/src/substrate-lib/SubstrateContext.js\<close>: the connection state
  that the provider keeps with \<open>useReducer\<close> (\<open>INIT_STATE\<close>, the props merge of
  \<open>SubstrateContextProvider\<close>) and the \<open>reducer\<close> over its ten action types, with the
  \<open>throw new Error\<close> of an unknown type as an \<open>Inl\<close> value. The state strings
  (\<open>'READY'\<close>, \<open>'ERROR'\<close>, ...) are one datatype \<open>status\<close>, since the code compares
  all three state fields against the same literals. It also holds the screen choice of
  \<open>Main\<close> in \<^verbatim>\<open>src/src/App.js\<close>, which reads only this state.
\<close>

datatype status = CONNECTING | LOADING | READY | ERROR | NO_ACCOUNTS

record substrate_state =
  socket :: string
  jsonrpc :: obj_ref
  types :: obj_ref
  keyring :: "obj_ref option"
  keyringState :: "status option"
  api :: "obj_ref option"
  apiError :: "obj_ref option"
  apiState :: "status option"
  tokenContract :: "obj_ref option"
  tokenContractAbi :: "obj_ref option"
  tokenContractState :: "status option"
  accountAddress :: "string option"
  accountPair :: "obj_ref option"

text \<open>
  The payload of \<open>SET_CONTRACT_DATA\<close> is spread over the state: a key the payload
  has replaces the state's field, a key it lacks leaves the field alone. The code sends
  two payloads, \<open>{tokenContractAbi, tokenContract, tokenContractState: 'LOADING'}\<close>
  and \<open>{tokenContractState: 'READY'}\<close>; a missing key is \<open>None\<close>.
\<close>

record contract_data =
  cd_tokenContractAbi :: "obj_ref option"
  cd_tokenContract :: "obj_ref option"
  cd_tokenContractState :: "status option"

datatype substrate_action =
    RESET_SOCKET "string option"
  | CONNECT obj_ref
  | CONNECT_SUCCESS
  | CONNECT_ERROR obj_ref
  | SET_KEYRING obj_ref
  | KEYRING_ERROR
  | KEYRING_NO_ACCOUNTS
  | SET_CONTRACT_DATA contract_data
  | CONTRACT_ERROR
  | SET_ACCOUNT_ADDRESS "string option" "obj_ref option"
  | UnknownAction string \<comment> \<open>an action whose type is none of the ten above\<close>

subsection \<open>Initial state\<close>

text \<open>
  \<open>connectedSocket\<close> is \<open>parsedQuery.rpc || config.PROVIDER_SOCKET\<close>; the provider
  then overrides \<open>socket\<close> and \<open>types\<close> with the props that are not undefined.
\<close>

definition connectedSocket :: "string option \<Rightarrow> string \<Rightarrow> string" where
  "connectedSocket rpc PROVIDER_SOCKET = js_or_str rpc PROVIDER_SOCKET"

definition INIT_STATE :: "string \<Rightarrow> obj_ref \<Rightarrow> obj_ref \<Rightarrow> substrate_state" where
  "INIT_STATE sock rpcs customTypes =
     \<lparr>socket = sock, jsonrpc = rpcs, types = customTypes,
      keyring = None, keyringState = None, api = None, apiError = None, apiState = None,
      tokenContract = None, tokenContractAbi = None, tokenContractState = None,
      accountAddress = None, accountPair = None\<rparr>"

definition provider_init_state ::
  "string option \<Rightarrow> obj_ref option \<Rightarrow> substrate_state \<Rightarrow> substrate_state" where
  "provider_init_state propSocket propTypes initState =
     initState\<lparr>socket := (case propSocket of None \<Rightarrow> socket initState | Some s \<Rightarrow> s),
               types := (case propTypes of None \<Rightarrow> types initState | Some t \<Rightarrow> t)\<rparr>"

subsection \<open>The reducer\<close>

definition spread_opt :: "'a option \<Rightarrow> 'a option \<Rightarrow> 'a option" where
  "spread_opt new old = (case new of None \<Rightarrow> old | Some v \<Rightarrow> Some v)"

definition set_contract_data :: "contract_data \<Rightarrow> substrate_state \<Rightarrow> substrate_state" where
  "set_contract_data d state =
     state\<lparr>tokenContractAbi := spread_opt (cd_tokenContractAbi d) (tokenContractAbi state),
           tokenContract := spread_opt (cd_tokenContract d) (tokenContract state),
           tokenContractState := spread_opt (cd_tokenContractState d) (tokenContractState state)\<rparr>"

fun reducer :: "substrate_state \<Rightarrow> substrate_action \<Rightarrow> js_error + substrate_state" where
  "reducer state (RESET_SOCKET payload) =
     Inr (state\<lparr>socket := js_or_str payload (socket state), api := None, apiState := None\<rparr>)"
| "reducer state (CONNECT p) = Inr (state\<lparr>api := Some p, apiState := Some CONNECTING\<rparr>)"
| "reducer state CONNECT_SUCCESS = Inr (state\<lparr>apiState := Some READY\<rparr>)"
| "reducer state (CONNECT_ERROR e) = Inr (state\<lparr>apiState := Some ERROR, apiError := Some e\<rparr>)"
| "reducer state (SET_KEYRING k) = Inr (state\<lparr>keyring := Some k, keyringState := Some READY\<rparr>)"
| "reducer state KEYRING_ERROR = Inr (state\<lparr>keyring := None, keyringState := Some ERROR\<rparr>)"
| "reducer state KEYRING_NO_ACCOUNTS = Inr (state\<lparr>keyringState := Some NO_ACCOUNTS\<rparr>)"
| "reducer state (SET_CONTRACT_DATA d) = Inr (set_contract_data d state)"
| "reducer state CONTRACT_ERROR = Inr (state\<lparr>tokenContractState := Some ERROR\<rparr>)"
| "reducer state (SET_ACCOUNT_ADDRESS a p) = Inr (state\<lparr>accountAddress := a, accountPair := p\<rparr>)"
| "reducer state (UnknownAction t) = Inl (Error (''Unknown type: '' @ t))"

text \<open>
  \<open>dispatch\<close> is called once per action; a list of dispatches in one handler runs
  the reducer over them in order, and a throw stops the handler.
\<close>

fun run_reducer :: "substrate_state \<Rightarrow> substrate_action list \<Rightarrow> js_error + substrate_state" where
  "run_reducer state [] = Inr state"
| "run_reducer state (a # as) =
     (case reducer state a of Inl e \<Rightarrow> Inl e | Inr state' \<Rightarrow> run_reducer state' as)"

fun known_action :: "substrate_action \<Rightarrow> bool" where
  "known_action (UnknownAction _) = False"
| "known_action _ = True"

subsection \<open>The screen \<open>Main\<close> shows\<close>

datatype main_view =
    ApiErrorMessage | ConnectingLoader
  | KeyringErrorMessage | NoAccountsMessage | AccountsLoader
  | ContractErrorMessage | ContractLoader
  | Editors

definition main_view :: "substrate_state \<Rightarrow> main_view" where
  "main_view s =
     (if apiState s = Some ERROR then ApiErrorMessage
      else if apiState s \<noteq> Some READY then ConnectingLoader
      else if keyringState s = Some ERROR then KeyringErrorMessage
      else if keyringState s = Some NO_ACCOUNTS then NoAccountsMessage
      else if keyringState s \<noteq> Some READY then AccountsLoader
      else if tokenContractState s = Some ERROR then ContractErrorMessage
      else if tokenContractState s \<noteq> Some READY then ContractLoader
      else Editors)"

subsection \<open>Lemmas\<close>

lemma spread_opt_simps [simp]:
  "spread_opt None old = old" "spread_opt (Some v) old = Some v"
  by (simp_all add: spread_opt_def)

lemma run_reducer_append:
  "run_reducer s (as @ bs) =
     (case run_reducer s as of Inl e \<Rightarrow> Inl e | Inr s' \<Rightarrow> run_reducer s' bs)"
  by (induction as arbitrary: s) (auto split: sum.splits)

lemma reducer_known_Inr: "known_action a \<Longrightarrow> \<exists>s'. reducer s a = Inr s'"
  by (cases a) simp_all

lemma run_reducer_known:
  "\<forall>a\<in>set as. known_action a \<Longrightarrow> \<exists>s'. run_reducer s as = Inr s'"
proof (induction as arbitrary: s)
  case (Cons a as)
  then obtain s1 where "reducer s a = Inr s1" using reducer_known_Inr by fastforce
  with Cons show ?case by simp
qed simp

lemma main_view_Editors:
  "main_view s = Editors \<longleftrightarrow>
     apiState s = Some READY \<and> keyringState s = Some READY \<and> tokenContractState s = Some READY"
  by (auto simp: main_view_def)

text \<open>
  C8: the reducer throws exactly on the action types it does not know; every other
  action produces a new state.
\<close>

theorem reducer_error_iff_unknown:
  "(\<exists>e. reducer s a = Inl e) \<longleftrightarrow> \<not> known_action a"
  by (cases a) simp_all

text \<open>
  \<open>RESET_SOCKET\<close> switches to the new socket (or keeps the old one when the payload is
  missing or empty) and forgets the API connection, but keeps the contract handle, its
  ABI and its state and the keyring: a contract created over the old connection
  survives a socket reset.
\<close>

theorem reset_socket_keeps_contract:
  "reducer s (RESET_SOCKET p) = Inr s' \<Longrightarrow>
     socket s' = js_or_str p (socket s) \<and> api s' = None \<and> apiState s' = None \<and>
     tokenContract s' = tokenContract s \<and> tokenContractAbi s' = tokenContractAbi s \<and>
     tokenContractState s' = tokenContractState s \<and> keyringState s' = keyringState s"
  by auto

lemma reset_socket_keeps_contract_witness:
  "reducer (INIT_STATE ''ws://a'' 0 0\<lparr>tokenContract := Some 5\<rparr>) (RESET_SOCKET (Some ''ws://b'')) =
     Inr (INIT_STATE ''ws://b'' 0 0\<lparr>tokenContract := Some 5\<rparr>) \<and>
   tokenContract (INIT_STATE ''ws://b'' 0 0\<lparr>tokenContract := Some 5\<rparr>) = Some 5"
proof -
  have "reducer (INIT_STATE ''ws://a'' 0 0\<lparr>tokenContract := Some 5\<rparr>) (RESET_SOCKET (Some ''ws://b'')) =
     Inr (INIT_STATE ''ws://b'' 0 0\<lparr>tokenContract := Some 5\<rparr>)"
    by (simp add: INIT_STATE_def)
  with reset_socket_keeps_contract [OF this] show ?thesis by (simp add: INIT_STATE_def)
qed

end
