(* ===== verification/JsNumber.thy ===== *)
theory JsNumber
  imports Prelude
begin

text \<open>
  The JavaScript number conversions the front end relies on, as ECMAScript defines
  them: \<open>Number.parseInt(string)\<close> with no radix (used by \<open>loadContract\<close> on the
  contract's \<open>version\<close> output) and \<open>Number.prototype.toString()\<close> of a natural
  number (what \<open>res.output.toString()\<close> prints for an unsigned integer). \<open>NaN\<close> is
  \<open>None\<close>. Numbers are mathematical integers: the doubles of JavaScript agree with
  them below \<open>2^53\<close>, which covers a contract version number.
\<close>

text \<open>StrWhiteSpaceChar restricted to single-byte characters: TAB, LF, VT, FF, CR, space.\<close>

definition js_whitespace :: "char \<Rightarrow> bool" where
  "js_whitespace c \<longleftrightarrow> of_char c \<in> {9, 10, 11, 12, 13, 32 :: nat}"

definition digit_value :: "char \<Rightarrow> nat option" where
  "digit_value c =
     (let n = of_char c :: nat in
      if 48 \<le> n \<and> n \<le> 57 then Some (n - 48)
      else if 97 \<le> n \<and> n \<le> 122 then Some (n - 87)
      else if 65 \<le> n \<and> n \<le> 90 then Some (n - 55)
      else None)"

text \<open>The longest prefix of radix-\<open>R\<close> digits, as digit values.\<close>

fun digit_run :: "nat \<Rightarrow> string \<Rightarrow> nat list" where
  "digit_run R [] = []"
| "digit_run R (c # cs) =
     (case digit_value c of Some d \<Rightarrow> if d < R then d # digit_run R cs else [] | None \<Rightarrow> [])"

definition digits_to_nat :: "nat \<Rightarrow> nat list \<Rightarrow> nat" where
  "digits_to_nat R ds = foldl (\<lambda>acc d. acc * R + d) 0 ds"

definition js_parseInt :: "string \<Rightarrow> int option" where
  "js_parseInt str =
     (let s = dropWhile js_whitespace str;
          sign = (if s \<noteq> [] \<and> hd s = CHR ''-'' then -1 else (1::int));
          s1 = (if s \<noteq> [] \<and> (hd s = CHR ''+'' \<or> hd s = CHR ''-'') then tl s else s);
          (R, s2) = (if take 2 s1 = ''0x'' \<or> take 2 s1 = ''0X'' then (16, drop 2 s1) else (10, s1));
          ds = digit_run R s2
      in if ds = [] then None else Some (sign * int (digits_to_nat R ds)))"

text \<open>\<open>Number.prototype.toString()\<close> of a natural number: its decimal digits.\<close>

fun decimal_digits :: "nat \<Rightarrow> nat list" where
  "decimal_digits n = (if n < 10 then [n] else decimal_digits (n div 10) @ [n mod 10])"

declare decimal_digits.simps [simp del]

definition digit_char :: "nat \<Rightarrow> char" where
  "digit_char d = char_of (48 + d)"

definition decimal :: "nat \<Rightarrow> string" where
  "decimal n = map digit_char (decimal_digits n)"

subsection \<open>Lemmas\<close>

lemma digit_value_digit_char [simp]: "d < 10 \<Longrightarrow> digit_value (digit_char d) = Some d"
proof -
  assume d: "d < 10"
  then have "(of_char (char_of (48 + d) :: char) :: nat) = 48 + d"
    by (simp add: of_char_of)
  with d show ?thesis by (simp add: digit_value_def digit_char_def Let_def)
qed

lemma digit_run_digit_chars:
  "\<forall>d\<in>set ds. d < 10 \<Longrightarrow> digit_run 10 (map digit_char ds @ rest) = ds @ digit_run 10 rest"
  by (induction ds) auto

lemma decimal_digits_lt: "\<forall>d\<in>set (decimal_digits n). d < 10"
  by (induction n rule: decimal_digits.induct) (subst decimal_digits.simps, simp)

lemma decimal_digits_ne [simp]: "decimal_digits n \<noteq> []"
  by (subst decimal_digits.simps) simp

lemma digits_to_nat_decimal: "digits_to_nat 10 (decimal_digits n) = n"
proof (induction n rule: decimal_digits.induct)
  case (1 n)
  then show ?case
    by (subst decimal_digits.simps) (simp add: digits_to_nat_def)
qed

lemma decimal_hd_digit:
  "\<exists>d rest. decimal n = digit_char d # rest \<and> d < 10 \<and> (\<forall>e\<in>set rest. \<exists>d'. e = digit_char d' \<and> d' < 10)"
  using decimal_digits_lt [of n] decimal_digits_ne [of n]
  by (cases "decimal_digits n") (auto simp: decimal_def)

lemma digit_char_props [simp]:
  assumes "d < 10"
  shows "\<not> js_whitespace (digit_char d)" "digit_char d \<noteq> CHR ''-''" "digit_char d \<noteq> CHR ''+''"
    "digit_char d \<noteq> CHR ''x''" "digit_char d \<noteq> CHR ''X''"
proof -
  from assms have o: "(of_char (digit_char d) :: nat) = 48 + d"
    by (simp add: digit_char_def of_char_of)
  from o assms show "\<not> js_whitespace (digit_char d)" by (auto simp: js_whitespace_def)
  from o assms show "digit_char d \<noteq> CHR ''-''" "digit_char d \<noteq> CHR ''+''"
    "digit_char d \<noteq> CHR ''x''" "digit_char d \<noteq> CHR ''X''"
    by (auto dest: arg_cong [where f = "of_char :: char \<Rightarrow> nat"])
qed

lemma take2_decimal_not_hex:
  "take 2 (decimal n) \<noteq> ''0x'' \<and> take 2 (decimal n) \<noteq> ''0X''"
proof -
  obtain d rest where dec: "decimal n = digit_char d # rest" "d < 10"
    and rest: "\<forall>e\<in>set rest. \<exists>d'. e = digit_char d' \<and> d' < 10"
    using decimal_hd_digit by blast
  show ?thesis
  proof (cases rest)
    case (Cons e es)
    with rest obtain d' where "e = digit_char d'" "d' < 10" by auto
    with dec Cons show ?thesis by simp
  qed (simp add: dec)
qed

text \<open>
  \<open>Number.parseInt\<close> reads back the decimal text that \<open>toString\<close> prints for a
  natural number.
\<close>

lemma js_parseInt_decimal: "js_parseInt (decimal n) = Some (int n)"
proof -
  obtain d rest where dec: "decimal n = digit_char d # rest" "d < 10"
    using decimal_hd_digit by blast
  have ws: "dropWhile js_whitespace (decimal n) = decimal n" using dec by simp
  have run: "digit_run 10 (decimal n) = decimal_digits n"
    using digit_run_digit_chars [OF decimal_digits_lt, of n "[]"] by (simp add: decimal_def)
  have hd: "decimal n \<noteq> [] \<and> hd (decimal n) \<noteq> CHR ''-'' \<and> hd (decimal n) \<noteq> CHR ''+''"
    using dec by simp
  show ?thesis
    using hd ws run take2_decimal_not_hex [of n]
    by (simp add: js_parseInt_def Let_def digits_to_nat_decimal)
qed

end
