(* ===== verification/SubstrateHook.thy ===== *)
theory SubstrateHook
  imports SubstrateState JsNumber
begin

text \<open>
  Model of the connection lifecycle of \<^verbatim>\<open>src/src/contexts/useSubstrate.js\<close>: the
  three effects \<open>connect\<close>, \<open>loadAccounts\<close> and \<open>loadContract\<close>, the API event
  listeners \<open>connect\<close> registers, the version query \<open>loadContract\<close> sends, and
  \<open>setAccountAddress\<close>. Each handler is a function that returns the actions it
  dispatches, given the outcome of the library calls it awaits (the extension's account
  list, the keyring's \<open>getPair\<close>, the contract construction, the RPC answer); an
  exception the handler catches becomes the action of its \<open>catch\<close> branch.

  The interleaving of effects, library events and user input is the inductive relation
  \<open>hook_step\<close> over a \<open>hook_world\<close>: the provider's state plus what is in flight
  (listeners registered, \<open>isReady\<close> callbacks waiting, whether the one \<open>ready\<close>
  event has been emitted, the account request, the version request). The API emits
  \<open>ready\<close> once (the comment at line 31 notes it is not emitted on reconnection), so
  \<open>api_ready\<close> fires at most once; every later \<open>CONNECT_SUCCESS\<close> comes from an
  \<open>isReady\<close> callback that a \<open>connected\<close> event queued (\<open>api_is_ready\<close>). Its rules fire in any order, so they cover every scheduling of the
  promises; an effect whose guard passes may run again, which over-approximates React
  (it reruns an effect only when a dependency changes), so the safety theorems hold for
  the real schedule too. \<open>RESET_SOCKET\<close> is dispatched by no code of the repository
  and is not a step.
\<close>

subsection \<open>Accounts\<close>

record injected_account =
  address :: string
  meta_name :: string
  meta_source :: string

text \<open>\<open>allAccounts.map(...)\<close>: the name gets the source appended.\<close>

definition relabel :: "injected_account \<Rightarrow> injected_account" where
  "relabel a = a\<lparr>meta_name := meta_name a @ '' ('' @ meta_source a @ '')''\<rparr>"

text \<open>
  The variable \<open>account\<close> holds either an account object (from \<open>find\<close>) or, in the
  fallback branch, the string \<open>allAccounts[0].address\<close>; reading \<open>.address\<close> of a
  string yields \<open>undefined\<close>.
\<close>

datatype account_ref = AccountObj injected_account | AccountStr string

fun ref_address :: "account_ref \<Rightarrow> string option" where
  "ref_address (AccountObj a) = Some (address a)"
| "ref_address (AccountStr s) = None"

fun ref_truthy :: "account_ref \<Rightarrow> bool" where
  "ref_truthy (AccountObj a) = True"
| "ref_truthy (AccountStr s) = (s \<noteq> [])"

text \<open>\<open>keyring.getPair(address)\<close>: a pair, or an exception (unknown or undefined address).\<close>

type_synonym keyring_getPair = "string option \<Rightarrow> js_error + obj_ref"

definition select_account :: "injected_account list \<Rightarrow> account_ref" where
  "select_account allAccounts =
     (case find (\<lambda>a. meta_source a = ''polkadot-js'') allAccounts of
        Some a \<Rightarrow> AccountObj a
      | None \<Rightarrow> AccountStr (address (hd allAccounts)))"

definition loadAccounts ::
  "status option \<Rightarrow> js_error + injected_account list \<Rightarrow> keyring_getPair \<Rightarrow> obj_ref \<Rightarrow>
     substrate_action list" where
  "loadAccounts ks web3 getPair kr =
     (if ks \<noteq> None then []
      else case web3 of
        Inl e \<Rightarrow> [KEYRING_ERROR]
      | Inr accts \<Rightarrow>
          (let allAccounts = map relabel accts in
           if allAccounts \<noteq> [] then
             (let account = select_account allAccounts;
                  pair = (if ref_truthy account
                          then (case getPair (ref_address account) of
                                  Inl e \<Rightarrow> Inl e | Inr p \<Rightarrow> Inr (Some p))
                          else Inr None)
              in case pair of
                   Inl e \<Rightarrow> [KEYRING_ERROR]
                 | Inr p \<Rightarrow> [SET_ACCOUNT_ADDRESS (ref_address account) p, SET_KEYRING kr])
           else [KEYRING_NO_ACCOUNTS]))"

definition setAccountAddress ::
  "status option \<Rightarrow> keyring_getPair \<Rightarrow> string option \<Rightarrow> js_error + substrate_action" where
  "setAccountAddress ks getPair addr =
     (if \<not> truthy_str addr \<or> ks \<noteq> Some READY then Inr (SET_ACCOUNT_ADDRESS addr None)
      else case getPair addr of
        Inl e \<Rightarrow> Inl e
      | Inr p \<Rightarrow> Inr (SET_ACCOUNT_ADDRESS addr (Some p)))"

subsection \<open>Contract\<close>

text \<open>
  What constructing the contract access does: \<open>new Abi\<close> or \<open>new PromiseContract\<close>
  throws; or both succeed and building the version call throws; or the call is sent.
\<close>

datatype contract_init =
    InitThrows js_error
  | CallThrows obj_ref obj_ref js_error
  | CallSent obj_ref obj_ref

definition contract_loading :: "obj_ref \<Rightarrow> obj_ref \<Rightarrow> contract_data" where
  "contract_loading abi c =
     \<lparr>cd_tokenContractAbi = Some abi, cd_tokenContract = Some c, cd_tokenContractState = Some LOADING\<rparr>"

definition contract_ready :: contract_data where
  "contract_ready = \<lparr>cd_tokenContractAbi = None, cd_tokenContract = None, cd_tokenContractState = Some READY\<rparr>"

text \<open>The actions \<open>loadContract\<close> dispatches, and whether the version query is in flight.\<close>

definition loadContract :: "substrate_state \<Rightarrow> contract_init \<Rightarrow> substrate_action list \<times> bool" where
  "loadContract s init =
     (if tokenContract s \<noteq> None then ([], False)
      else if apiState s = Some READY \<and> keyringState s = Some READY \<and> truthy_str (accountAddress s)
      then (case init of
              InitThrows e \<Rightarrow> ([CONTRACT_ERROR], False)
            | CallThrows abi c e \<Rightarrow> ([SET_CONTRACT_DATA (contract_loading abi c), CONTRACT_ERROR], False)
            | CallSent abi c \<Rightarrow> ([SET_CONTRACT_DATA (contract_loading abi c)], True))
      else ([], False))"

text \<open>The answer to the version query: the RPC's output text, or its rejection.\<close>

definition version_response :: "js_error + string \<Rightarrow> substrate_action" where
  "version_response r =
     (case r of
        Inl e \<Rightarrow> CONTRACT_ERROR
      | Inr out \<Rightarrow>
          (case js_parseInt out of
             Some version \<Rightarrow> if version \<noteq> 0 then SET_CONTRACT_DATA contract_ready else CONTRACT_ERROR
           | None \<Rightarrow> CONTRACT_ERROR))"

subsection \<open>The lifecycle\<close>

record hook_world =
  substrate :: substrate_state
  listening :: bool
  readyWaits :: nat
  readyFired :: bool
  accountsPending :: bool
  versionPending :: bool

definition init_world :: "substrate_state \<Rightarrow> hook_world" where
  "init_world s = \<lparr>substrate = s, listening = False, readyWaits = 0, readyFired = False,
                   accountsPending = False, versionPending = False\<rparr>"

inductive hook_step :: "keyring_getPair \<Rightarrow> obj_ref \<Rightarrow> hook_world \<Rightarrow> hook_world \<Rightarrow> bool"
  for getPair :: keyring_getPair and kr :: obj_ref where
  connect_effect:
    "api (substrate w) = None \<Longrightarrow> \<not> listening w \<Longrightarrow>
     hook_step getPair kr w (w\<lparr>listening := True\<rparr>)"
| api_connected:
    "listening w \<Longrightarrow> run_reducer (substrate w) [CONNECT h] = Inr s' \<Longrightarrow>
     hook_step getPair kr w (w\<lparr>substrate := s', readyWaits := Suc (readyWaits w)\<rparr>)"
| api_is_ready:
    "readyWaits w = Suc n \<Longrightarrow> run_reducer (substrate w) [CONNECT_SUCCESS] = Inr s' \<Longrightarrow>
     hook_step getPair kr w (w\<lparr>substrate := s', readyWaits := n\<rparr>)"
| api_ready:
    "listening w \<Longrightarrow> \<not> readyFired w \<Longrightarrow> run_reducer (substrate w) [CONNECT_SUCCESS] = Inr s' \<Longrightarrow>
     hook_step getPair kr w (w\<lparr>substrate := s', readyFired := True\<rparr>)"
| api_error:
    "listening w \<Longrightarrow> run_reducer (substrate w) [CONNECT_ERROR e] = Inr s' \<Longrightarrow>
     hook_step getPair kr w (w\<lparr>substrate := s'\<rparr>)"
| accounts_effect:
    "keyringState (substrate w) = None \<Longrightarrow> \<not> accountsPending w \<Longrightarrow>
     hook_step getPair kr w (w\<lparr>accountsPending := True\<rparr>)"
| accounts_done:
    "accountsPending w \<Longrightarrow> run_reducer (substrate w) (loadAccounts None r getPair kr) = Inr s' \<Longrightarrow>
     hook_step getPair kr w (w\<lparr>substrate := s', accountsPending := False\<rparr>)"
| contract_effect:
    "loadContract (substrate w) init = (acts, sent) \<Longrightarrow> acts \<noteq> [] \<Longrightarrow>
     run_reducer (substrate w) acts = Inr s' \<Longrightarrow>
     hook_step getPair kr w (w\<lparr>substrate := s', versionPending := (versionPending w \<or> sent)\<rparr>)"
| version_done:
    "versionPending w \<Longrightarrow> run_reducer (substrate w) [version_response r] = Inr s' \<Longrightarrow>
     hook_step getPair kr w (w\<lparr>substrate := s', versionPending := False\<rparr>)"
| account_selected:
    "setAccountAddress (keyringState (substrate w)) getPair a = Inr act \<Longrightarrow>
     run_reducer (substrate w) [act] = Inr s' \<Longrightarrow>
     hook_step getPair kr w (w\<lparr>substrate := s'\<rparr>)"

inductive reachable :: "keyring_getPair \<Rightarrow> obj_ref \<Rightarrow> hook_world \<Rightarrow> bool"
  for getPair :: keyring_getPair and kr :: obj_ref where
  init: "reachable getPair kr (init_world (INIT_STATE sock rpcs customTypes))"
| step: "reachable getPair kr w \<Longrightarrow> hook_step getPair kr w w' \<Longrightarrow> reachable getPair kr w'"

definition hook_inv :: "hook_world \<Rightarrow> bool" where
  "hook_inv w \<longleftrightarrow>
     (let s = substrate w in
      (tokenContract s \<noteq> None \<longrightarrow> tokenContractAbi s \<noteq> None) \<and>
      (tokenContractState s = Some READY \<longrightarrow> tokenContract s \<noteq> None) \<and>
      (tokenContractState s = Some LOADING \<longrightarrow> tokenContract s \<noteq> None) \<and>
      (versionPending w \<longrightarrow> tokenContract s \<noteq> None) \<and>
      (keyringState s = Some READY \<longrightarrow> keyring s \<noteq> None) \<and>
      (accountsPending w \<longrightarrow> keyringState s = None))"

definition demo_account :: injected_account where
  "demo_account = \<lparr>address = ''5GrwvaEF'', meta_name = ''alice'', meta_source = ''polkadot-js''\<rparr>"

definition demo_getPair :: keyring_getPair where
  "demo_getPair addr = (case addr of None \<Rightarrow> Inl (Error ''Invalid empty address'') | Some a \<Rightarrow> Inr 7)"

subsection \<open>Lemmas\<close>

lemma loadAccounts_cases:
  "loadAccounts None r getPair kr \<in>
     {[KEYRING_ERROR], [KEYRING_NO_ACCOUNTS]} \<union>
     {[SET_ACCOUNT_ADDRESS a p, SET_KEYRING kr] | a p. True}"
  by (auto simp: loadAccounts_def Let_def split: sum.splits if_splits)

lemma loadContract_cases:
  "loadContract s init = (acts, sent) \<Longrightarrow> acts \<noteq> [] \<Longrightarrow>
     tokenContract s = None \<and>
     ((acts = [CONTRACT_ERROR] \<and> \<not> sent) \<or>
      (\<exists>abi c. acts = [SET_CONTRACT_DATA (contract_loading abi c), CONTRACT_ERROR] \<and> \<not> sent) \<or>
      (\<exists>abi c. acts = [SET_CONTRACT_DATA (contract_loading abi c)] \<and> sent))"
  by (auto simp: loadContract_def split: if_splits contract_init.splits)

lemma version_response_cases:
  "version_response r = CONTRACT_ERROR \<or> version_response r = SET_CONTRACT_DATA contract_ready"
  by (auto simp: version_response_def split: sum.splits option.splits)

lemma setAccountAddress_act:
  "setAccountAddress ks getPair a = Inr act \<Longrightarrow> \<exists>p. act = SET_ACCOUNT_ADDRESS a p"
  by (auto simp: setAccountAddress_def split: if_splits sum.splits)

lemma hook_inv_init: "hook_inv (init_world (INIT_STATE sock rpcs customTypes))"
  by (simp add: hook_inv_def init_world_def INIT_STATE_def)

lemma hook_step_inv: "hook_step getPair kr w w' \<Longrightarrow> hook_inv w \<Longrightarrow> hook_inv w'"
proof (induction rule: hook_step.induct)
  case (accounts_done w r s')
  then show ?case
    using loadAccounts_cases [of r getPair kr]
    by (elim UnE insertE CollectE exE conjE emptyE) (clarsimp simp: hook_inv_def Let_def)+
next
  case (contract_effect w init acts sent s')
  from loadContract_cases [OF contract_effect.hyps(1,2)] contract_effect show ?case
    by (elim conjE disjE exE)
       (clarsimp simp: hook_inv_def Let_def contract_loading_def set_contract_data_def)+
next
  case (version_done w r s')
  from version_response_cases [of r] version_done show ?case
    by (elim disjE) (clarsimp simp: hook_inv_def Let_def contract_ready_def set_contract_data_def)+
next
  case (account_selected a act w s')
  from setAccountAddress_act [OF account_selected.hyps(1)] account_selected show ?case
    by (elim exE) (clarsimp simp: hook_inv_def Let_def)
qed (clarsimp simp: hook_inv_def Let_def)+

lemma reachable_inv: "reachable getPair kr w \<Longrightarrow> hook_inv w"
  by (induction rule: reachable.induct) (auto intro: hook_inv_init hook_step_inv)

lemma relabel_simps [simp]:
  "meta_source (relabel a) = meta_source a" "address (relabel a) = address a"
  by (simp_all add: relabel_def)

lemma loadAccounts_polkadot_first:
  assumes "meta_source a = ''polkadot-js''" "getPair (Some (address a)) = Inr p"
  shows "loadAccounts None (Inr (a # rest)) getPair kr =
           [SET_ACCOUNT_ADDRESS (Some (address a)) (Some p), SET_KEYRING kr]"
  using assms by (simp add: loadAccounts_def select_account_def)

lemma version_response_decimal_iff:
  "version_response (Inr (decimal n)) = (if n = 0 then CONTRACT_ERROR else SET_CONTRACT_DATA contract_ready)"
  by (simp add: version_response_def js_parseInt_decimal)

text \<open>The run of the happy path: connection, accounts, contract and version, in this order.\<close>

lemma happy_path_reachable:
  fixes a :: injected_account and n :: nat
  assumes src: "meta_source a = ''polkadot-js''" and addr: "address a \<noteq> []"
    and pair: "getPair (Some (address a)) = Inr p" and ver: "0 < n"
  shows "\<exists>w. reachable getPair kr w \<and>
           substrate w = (INIT_STATE sock rpcs ty)\<lparr>api := Some h, apiState := Some READY,
              accountAddress := Some (address a), accountPair := Some p,
              keyring := Some kr, keyringState := Some READY,
              tokenContractAbi := Some abi, tokenContract := Some c,
              tokenContractState := Some READY\<rparr> \<and> listening w"
proof -
  define s0 where "s0 = INIT_STATE sock rpcs ty"
  define w1 where "w1 = (init_world s0)\<lparr>listening := True\<rparr>"
  define s2 where "s2 = s0\<lparr>api := Some h, apiState := Some CONNECTING\<rparr>"
  define w2 where "w2 = w1\<lparr>substrate := s2, readyWaits := Suc (readyWaits w1)\<rparr>"
  define s3 where "s3 = s2\<lparr>apiState := Some READY\<rparr>"
  define w3 where "w3 = w2\<lparr>substrate := s3, readyWaits := 0\<rparr>"
  define w4 where "w4 = w3\<lparr>accountsPending := True\<rparr>"
  define s5 where "s5 = s3\<lparr>accountAddress := Some (address a), accountPair := Some p,
                            keyring := Some kr, keyringState := Some READY\<rparr>"
  define w5 where "w5 = w4\<lparr>substrate := s5, accountsPending := False\<rparr>"
  define s6 where "s6 = s5\<lparr>tokenContractAbi := Some abi, tokenContract := Some c,
                            tokenContractState := Some LOADING\<rparr>"
  define w6 where "w6 = w5\<lparr>substrate := s6, versionPending := (versionPending w5 \<or> True)\<rparr>"
  define s7 where "s7 = s6\<lparr>tokenContractState := Some READY\<rparr>"
  define w7 where "w7 = w6\<lparr>substrate := s7, versionPending := False\<rparr>"
  note defs = s0_def w1_def s2_def w2_def s3_def w3_def w4_def s5_def w5_def s6_def w6_def
    s7_def w7_def init_world_def INIT_STATE_def
  have r0: "reachable getPair kr (init_world s0)" unfolding s0_def by (rule reachable.init)
  have h1: "hook_step getPair kr (init_world s0) w1"
    unfolding w1_def by (rule hook_step.connect_effect) (simp_all add: defs)
  have h2: "hook_step getPair kr w1 w2"
    unfolding w2_def by (rule hook_step.api_connected) (simp_all add: defs)
  have h3: "hook_step getPair kr w2 w3"
    unfolding w3_def by (rule hook_step.api_is_ready) (simp_all add: defs)
  have h4: "hook_step getPair kr w3 w4"
    unfolding w4_def by (rule hook_step.accounts_effect) (simp_all add: defs)
  have h5: "hook_step getPair kr w4 w5"
    unfolding w5_def
    by (rule hook_step.accounts_done [where r = "Inr [a]"])
       (simp_all add: defs loadAccounts_polkadot_first [of a getPair p, OF src pair])
  have h6: "hook_step getPair kr w5 w6"
    unfolding w6_def
    by (rule hook_step.contract_effect [where init = "CallSent abi c"
          and acts = "[SET_CONTRACT_DATA (contract_loading abi c)]" and sent = True])
       (simp_all add: defs loadContract_def addr contract_loading_def set_contract_data_def)
  have h7: "hook_step getPair kr w6 w7"
    unfolding w7_def
    by (rule hook_step.version_done [where r = "Inr (decimal n)"])
       (simp_all add: defs ver version_response_decimal_iff contract_ready_def set_contract_data_def)
  have "reachable getPair kr w7"
    using reachable.step [OF reachable.step [OF reachable.step [OF reachable.step
      [OF reachable.step [OF reachable.step [OF reachable.step [OF r0 h1] h2] h3] h4] h5] h6] h7] .
  moreover have "substrate w7 = (INIT_STATE sock rpcs ty)\<lparr>api := Some h, apiState := Some READY,
              accountAddress := Some (address a), accountPair := Some p,
              keyring := Some kr, keyringState := Some READY,
              tokenContractAbi := Some abi, tokenContract := Some c,
              tokenContractState := Some READY\<rparr>"
    by (simp add: defs)
  moreover have "listening w7" by (simp add: defs)
  ultimately show ?thesis by blast
qed

subsection \<open>Properties of the lifecycle\<close>

text \<open>
  C2: in every reachable state of the lifecycle, a \<open>READY\<close> or \<open>LOADING\<close> contract
  state has a contract handle, a handle has its ABI, an in-flight version query has a
  handle, a \<open>READY\<close> keyring state has a keyring, and while the account request is in
  flight the keyring state is still unset (so no second request starts).
\<close>

theorem hook_invariant: "reachable getPair kr w \<Longrightarrow> hook_inv w"
  by (rule reachable_inv)

lemma hook_invariant_witness: "hook_inv (init_world (INIT_STATE ''ws://127.0.0.1:9944'' 0 0))"
  using hook_invariant [OF reachable.init [of demo_getPair 1 "''ws://127.0.0.1:9944''" 0 0]] .

text \<open>
  C3: whenever \<open>Main\<close> renders the editors (API, keyring and contract all \<open>READY\<close>),
  the contract handle, its ABI and the keyring are set, so the editors' calls of
  \<open>tokenContract.call\<close> and \<open>tokenContractAbi.messages\<close> have an object to call.
\<close>

theorem editors_only_with_contract:
  assumes "reachable getPair kr w" and "main_view (substrate w) = Editors"
  shows "tokenContract (substrate w) \<noteq> None \<and> tokenContractAbi (substrate w) \<noteq> None \<and>
         keyring (substrate w) \<noteq> None"
  using reachable_inv [OF assms(1)] assms(2) by (auto simp: hook_inv_def Let_def main_view_Editors)

lemma editors_only_with_contract_witness:
  "\<exists>w. reachable demo_getPair 1 w \<and> main_view (substrate w) = Editors \<and>
       tokenContract (substrate w) \<noteq> None \<and> tokenContractAbi (substrate w) \<noteq> None \<and>
       keyring (substrate w) \<noteq> None"
proof -
  obtain w where w: "reachable demo_getPair 1 w"
    "substrate w = (INIT_STATE ''ws'' 0 0)\<lparr>api := Some 2, apiState := Some READY,
       accountAddress := Some (address demo_account), accountPair := Some 7,
       keyring := Some 1, keyringState := Some READY,
       tokenContractAbi := Some 3, tokenContract := Some 4, tokenContractState := Some READY\<rparr>"
    using happy_path_reachable [where a = demo_account and getPair = demo_getPair and p = 7
        and n = 1 and kr = 1 and sock = "''ws''" and rpcs = 0 and ty = 0 and h = 2 and abi = 3
        and c = 4]
    by (auto simp: demo_account_def demo_getPair_def)
  then have "main_view (substrate w) = Editors" by (simp add: main_view_def)
  with w editors_only_with_contract [OF w(1)] show ?thesis by blast
qed

text \<open>
  C30: the lifecycle can reach the editors: when the node connects and becomes ready,
  the extension offers an account from \<open>polkadot-js\<close> first, the keyring knows its
  address, and the contract answers a non-zero version, some run of the effects and
  events ends with \<open>Main\<close> rendering the editors.
\<close>

theorem editors_reachable:
  fixes a :: injected_account and n :: nat
  assumes "meta_source a = ''polkadot-js''" and "address a \<noteq> []"
    and "getPair (Some (address a)) = Inr p" and "0 < n"
  shows "\<exists>w. reachable getPair kr w \<and> main_view (substrate w) = Editors"
proof -
  from happy_path_reachable [where a = a and getPair = getPair and p = p and n = n and kr = kr
      and sock = "''ws''" and rpcs = 0 and ty = 0 and h = 0 and abi = 0 and c = 0, OF assms]
  obtain w where r: "reachable getPair kr w"
    and e: "substrate w = (INIT_STATE ''ws'' 0 0)\<lparr>api := Some 0, apiState := Some READY,
       accountAddress := Some (address a), accountPair := Some p,
       keyring := Some kr, keyringState := Some READY,
       tokenContractAbi := Some 0, tokenContract := Some 0, tokenContractState := Some READY\<rparr>"
    by blast
  from e have "main_view (substrate w) = Editors" by (simp add: main_view_def)
  with r show ?thesis by blast
qed

lemma editors_reachable_witness:
  "\<exists>w. reachable demo_getPair 1 w \<and> main_view (substrate w) = Editors"
  using editors_reachable [where a = demo_account and getPair = demo_getPair and p = 7 and n = 1
      and kr = 1]
  by (simp add: demo_account_def demo_getPair_def)

text \<open>
  C31: when no injected account comes from \<open>polkadot-js\<close>, \<open>loadAccounts\<close> does not
  select the first account: it stores the first address string in \<open>account\<close> and
  then reads \<open>account.address\<close>, which is undefined. The keyring is asked for the
  pair of \<open>undefined\<close>; if that throws, the keyring ends in \<open>ERROR\<close>, and otherwise
  the selected address is undefined.
\<close>

theorem loadAccounts_without_polkadot_js:
  assumes "accts \<noteq> []" and "\<forall>b\<in>set accts. meta_source b \<noteq> ''polkadot-js''"
    and "address (hd accts) \<noteq> []"
  shows "loadAccounts None (Inr accts) getPair kr =
           (case getPair None of
              Inl e \<Rightarrow> [KEYRING_ERROR]
            | Inr p \<Rightarrow> [SET_ACCOUNT_ADDRESS None (Some p), SET_KEYRING kr])"
proof -
  have "find (\<lambda>a. meta_source a = ''polkadot-js'') (map relabel accts) = None"
    using assms(2) by (simp add: find_None_iff)
  moreover have "address (hd (map relabel accts)) = address (hd accts)"
    using assms(1) by (simp add: hd_map)
  ultimately show ?thesis
    using assms(1,3) by (simp add: loadAccounts_def select_account_def split: sum.splits)
qed

lemma loadAccounts_without_polkadot_js_witness:
  "loadAccounts None (Inr [\<lparr>address = ''5FHneW46'', meta_name = ''bob'', meta_source = ''ledger''\<rparr>])
     demo_getPair 1 = [KEYRING_ERROR]"
  using loadAccounts_without_polkadot_js
    [of "[\<lparr>address = ''5FHneW46'', meta_name = ''bob'', meta_source = ''ledger''\<rparr>]" demo_getPair 1]
  by (simp add: demo_getPair_def)

text \<open>
  The version answer marks the contract \<open>READY\<close> exactly when
  \<open>Number.parseInt\<close> of its text is a number other than 0; a failed query, a text
  without leading digits and a zero version all give \<open>CONTRACT_ERROR\<close>.
\<close>

theorem version_ready_iff:
  "version_response r = SET_CONTRACT_DATA contract_ready \<longleftrightarrow>
     (\<exists>out v. r = Inr out \<and> js_parseInt out = Some v \<and> v \<noteq> 0)"
  by (auto simp: version_response_def split: sum.splits option.splits)

text \<open>
  Once a contract handle is set, no step of the lifecycle replaces or clears it:
  \<open>loadContract\<close> creates the contract access at most once.
\<close>

theorem tokenContract_stable:
  "hook_step getPair kr w w' \<Longrightarrow> tokenContract (substrate w) = Some c \<Longrightarrow>
     tokenContract (substrate w') = Some c"
proof (induction rule: hook_step.induct)
  case (accounts_done w r s')
  then show ?case using loadAccounts_cases [of r getPair kr] by auto
next
  case (contract_effect w init acts sent s')
  then show ?case using loadContract_cases [OF contract_effect.hyps(1,2)] by simp
next
  case (version_done w r s')
  then show ?case
    using version_response_cases [of r] by (auto simp: contract_ready_def set_contract_data_def)
next
  case (account_selected a act w s')
  then show ?case using setAccountAddress_act [OF account_selected.hyps(1)] by auto
qed auto

lemma tokenContract_stable_witness:
  "tokenContract (substrate ((init_world ((INIT_STATE ''ws'' 0 0)\<lparr>tokenContract := Some 5\<rparr>))
      \<lparr>listening := True, substrate := (INIT_STATE ''ws'' 0 0)\<lparr>tokenContract := Some 5,
        apiState := Some READY\<rparr>, readyFired := True\<rparr>)) = Some 5"
proof -
  let ?w = "(init_world ((INIT_STATE ''ws'' 0 0)\<lparr>tokenContract := Some 5\<rparr>))\<lparr>listening := True\<rparr>"
  have "hook_step demo_getPair 1 ?w (?w\<lparr>substrate := (INIT_STATE ''ws'' 0 0)\<lparr>tokenContract := Some 5,
        apiState := Some READY\<rparr>, readyFired := True\<rparr>)"
    by (rule hook_step.api_ready) (simp_all add: init_world_def INIT_STATE_def)
  from tokenContract_stable [OF this, of 5] show ?thesis by (simp add: init_world_def INIT_STATE_def)
qed

end
