(* ===== verification/ContractCalls.thy ===== *)
theory ContractCalls
  imports Strings JsNumber
begin

text \<open>
  Model of the contract wrappers of \<^verbatim>\<open>src/src/contexts/useSubstrate.js\<close>.
  \<^item> The six queries send an \<open>'rpc'\<close> call and turn its output into a value:
    \<open>getAccountMetadata\<close>, \<open>getTokenMetadata\<close> (default \<open>{}\<close>), \<open>getSupplyChain\<close>,
    \<open>getRoles\<close> (default \<open>[]\<close>) decode the output bytes as text, cut it with
    \<open>trim\<close> and parse it as JSON, falling back to the default on an empty text or a
    parse error; \<open>listAllTokens\<close> prints the elements; \<open>getTokenOwner\<close> prints the
    output. The answer of the RPC is an argument: its rejection (\<open>Inl\<close>) or the output
    already decoded by \<open>u8aToString\<close>. \<open>JSON.parse\<close> is an argument too (\<open>None\<close>
    when it throws), so that the lemmas hold for any parser.
  \<^item> The six transactions (\<open>updateAccountMetadata\<close>, \<open>updateSupplyChain\<close>,
    \<open>updateRoles\<close>, \<open>mintToken\<close>, \<open>updateTokenMetadata\<close>, \<open>transferToken\<close>)
    share one body: look up the extension's signer when the pair comes from
    \<open>polkadot-js\<close> (outside the \<open>try\<close>), submit the contract message with
    \<open>signAndSend\<close>, and resolve the returned promise with \<open>true\<close> on the first
    \<open>InBlock\<close> status, unsubscribing on \<open>Finalized\<close>. They differ only in the
    message, which is the datatype \<open>contract_message\<close>.
\<close>

subsection \<open>Queries\<close>

definition decode_json_output :: "(string \<Rightarrow> json option) \<Rightarrow> json \<Rightarrow> string \<Rightarrow> json" where
  "decode_json_output parse dflt jsonString =
     (if jsonString \<noteq> [] then (case parse (trim jsonString) of Some v \<Rightarrow> v | None \<Rightarrow> dflt)
      else dflt)"

definition json_query :: "(string \<Rightarrow> json option) \<Rightarrow> json \<Rightarrow> js_error + string \<Rightarrow> json promise" where
  "json_query parse dflt res =
     (case res of Inl e \<Rightarrow> Rejected e | Inr out \<Rightarrow> Fulfilled (decode_json_output parse dflt out))"

definition getAccountMetadata :: "(string \<Rightarrow> json option) \<Rightarrow> js_error + string \<Rightarrow> json promise" where
  "getAccountMetadata parse res = json_query parse (JObj []) res"

definition getSupplyChain :: "(string \<Rightarrow> json option) \<Rightarrow> js_error + string \<Rightarrow> json promise" where
  "getSupplyChain parse res = json_query parse (JArr []) res"

definition getRoles :: "(string \<Rightarrow> json option) \<Rightarrow> js_error + string \<Rightarrow> json promise" where
  "getRoles parse res = json_query parse (JArr []) res"

definition getTokenMetadata :: "(string \<Rightarrow> json option) \<Rightarrow> js_error + string \<Rightarrow> json promise" where
  "getTokenMetadata parse res = json_query parse (JObj []) res"

text \<open>\<open>res.output.elems\<close> is \<open>undefined\<close> (\<open>None\<close>) or a list of unsigned numbers.\<close>

definition listAllTokens :: "js_error + nat list option \<Rightarrow> string list promise" where
  "listAllTokens res =
     (case res of
        Inl e \<Rightarrow> Rejected e
      | Inr elems \<Rightarrow>
          (case elems of Some es \<Rightarrow> if es \<noteq> [] then Fulfilled (map decimal es) else Fulfilled []
           | None \<Rightarrow> Fulfilled []))"

text \<open>\<open>res.output.toString()\<close>: the printed output, or a throw (\<open>None\<close>) caught as \<open>''\<close>.\<close>

definition getTokenOwner :: "js_error + string option \<Rightarrow> string promise" where
  "getTokenOwner res =
     (case res of Inl e \<Rightarrow> Rejected e | Inr out \<Rightarrow> Fulfilled (case out of Some s \<Rightarrow> s | None \<Rightarrow> ''''))"

subsection \<open>Transactions\<close>

datatype contract_message =
    SetAccountMetadataOf string string
  | SetSupplyChain string
  | SetRoles string
  | Mint nat
  | SetTokenMetadataOf string string
  | Transfer string string

text \<open>The statuses of \<open>signAndSend\<close>'s subscription (ExtrinsicStatus).\<close>

datatype tx_status =
    Future | Ready | Broadcast | InBlock obj_ref | Retracted | FinalityTimeout
  | Finalized obj_ref | Usurped | Dropped | Invalid

record tx_obs =
  txPromise :: "bool promise"
  unsubscribed :: bool

fun on_status :: "tx_obs \<Rightarrow> tx_status \<Rightarrow> tx_obs" where
  "on_status ob (InBlock h) = ob\<lparr>txPromise := resolve True (txPromise ob)\<rparr>"
| "on_status ob (Finalized h) = ob\<lparr>unsubscribed := True\<rparr>"
| "on_status ob _ = ob"

definition tx_start :: tx_obs where
  "tx_start = \<lparr>txPromise = Pending, unsubscribed = False\<rparr>"

text \<open>
  A transaction, given the source of \<open>accountPair\<close> (\<open>None\<close> when the pair is not
  set, so reading \<open>accountPair.meta\<close> throws), the outcome of \<open>web3FromAddress\<close>,
  the outcome of submitting the message, and the statuses the subscription reports.
  A throw before the \<open>try\<close> rejects only the inner async function, whose promise no
  one awaits: the promise returned to the caller stays pending.
\<close>

definition send_tx ::
  "contract_message \<Rightarrow> string option \<Rightarrow> js_error + obj_ref \<Rightarrow> js_error + unit \<Rightarrow> tx_status list \<Rightarrow> tx_obs" where
  "send_tx msg pairSource injector submit statuses =
     (case pairSource of
        None \<Rightarrow> tx_start
      | Some src \<Rightarrow>
          if src = ''polkadot-js'' \<and> isl injector then tx_start
          else (case submit of
                  Inl e \<Rightarrow> tx_start\<lparr>txPromise := Rejected e\<rparr>
                | Inr u \<Rightarrow> foldl on_status tx_start statuses))"

text \<open>
  Each wrapper builds its message (the payload is \<open>JSON.stringify\<close> of its argument,
  an argument here) and runs the shared body.
\<close>

type_synonym tx_run = "string option \<Rightarrow> js_error + obj_ref \<Rightarrow> js_error + unit \<Rightarrow> tx_status list \<Rightarrow> tx_obs"

definition updateAccountMetadata_msg :: "(json \<Rightarrow> string) \<Rightarrow> string \<Rightarrow> json \<Rightarrow> contract_message" where
  "updateAccountMetadata_msg stringify targetAddress metadata =
     SetAccountMetadataOf targetAddress (stringify metadata)"

definition updateAccountMetadata :: "(json \<Rightarrow> string) \<Rightarrow> string \<Rightarrow> json \<Rightarrow> tx_run" where
  "updateAccountMetadata stringify targetAddress metadata =
     send_tx (updateAccountMetadata_msg stringify targetAddress metadata)"

definition updateSupplyChain :: "(json \<Rightarrow> string) \<Rightarrow> json \<Rightarrow> tx_run" where
  "updateSupplyChain stringify chainData = send_tx (SetSupplyChain (stringify chainData))"

definition updateRoles :: "(json \<Rightarrow> string) \<Rightarrow> json \<Rightarrow> tx_run" where
  "updateRoles stringify roles = send_tx (SetRoles (stringify roles))"

definition mintToken :: "nat \<Rightarrow> tx_run" where
  "mintToken tokenId = send_tx (Mint tokenId)"

definition updateTokenMetadata :: "(json \<Rightarrow> string) \<Rightarrow> string \<Rightarrow> json \<Rightarrow> tx_run" where
  "updateTokenMetadata stringify targetToken metadata =
     send_tx (SetTokenMetadataOf targetToken (stringify metadata))"

definition transferToken :: "string \<Rightarrow> string \<Rightarrow> tx_run" where
  "transferToken targetAddress targetToken = send_tx (Transfer targetAddress targetToken)"

definition demo_parse :: "string \<Rightarrow> json option" where
  "demo_parse s = (if s = ''{}'' then Some (JObj []) else if s = ''[]'' then Some (JArr []) else None)"

definition demo_stringify :: "json \<Rightarrow> string" where
  "demo_stringify j = (case j of JArr [] \<Rightarrow> ''[]'' | _ \<Rightarrow> ''{}'')"

subsection \<open>Lemmas\<close>

lemma resolve_resolve [simp]: "resolve v (resolve v p) = resolve v p"
  by (cases p) simp_all

lemma foldl_on_status_promise:
  "txPromise (foldl on_status ob ss) =
     (if \<exists>h. InBlock h \<in> set ss then resolve True (txPromise ob) else txPromise ob)"
proof (induction ss arbitrary: ob)
  case (Cons s ss)
  then show ?case by (cases s) auto
qed simp

lemma foldl_on_status_unsubscribed:
  "unsubscribed (foldl on_status ob ss) = (unsubscribed ob \<or> (\<exists>h. Finalized h \<in> set ss))"
proof (induction ss arbitrary: ob)
  case (Cons s ss)
  then show ?case by (cases s) auto
qed simp

lemma decode_json_text:
  assumes "parse (stringify v) = Some v" and "is_open b" and "stringify v = b # m @ [close_of b]"
    and "\<forall>x\<in>set p. \<not> is_open x" and "close_of b \<notin> set q"
  shows "decode_json_output parse dflt (p @ stringify v @ q) = v"
proof -
  have "trim (p @ stringify v @ q) = stringify v"
    using trim_close_in_rest [OF assms(4,2,5), of m] assms(3) by simp
  with assms(1,3) show ?thesis by (simp add: decode_json_output_def)
qed

subsection \<open>Properties of the queries and transactions\<close>

text \<open>
  C32: the text \<open>updateAccountMetadata\<close> sends is what \<open>getAccountMetadata\<close> returns:
  when the contract answers the query with the text the update stored, and
  \<open>JSON.stringify\<close> prints the metadata as an object or array text that
  \<open>JSON.parse\<close> reads back, the query yields the metadata that was written.
\<close>

theorem account_metadata_roundtrip:
  assumes "updateAccountMetadata_msg stringify addr v = SetAccountMetadataOf addr txt"
    and "parse (stringify v) = Some v" and "is_open b" and "stringify v = b # m @ [close_of b]"
  shows "getAccountMetadata parse (Inr txt) = Fulfilled v"
proof -
  from assms(1) have "txt = [] @ stringify v @ []" by (simp add: updateAccountMetadata_msg_def)
  with decode_json_text [where parse = parse and stringify = stringify and v = v and p = "[]"
      and q = "[]" and dflt = "JObj []", OF assms(2-4)] show ?thesis
    by (simp add: getAccountMetadata_def json_query_def)
qed

lemma account_metadata_roundtrip_witness:
  "getAccountMetadata demo_parse (Inr ''{}'') = Fulfilled (JObj [])"
  using account_metadata_roundtrip [of demo_stringify "''5Grw''" "JObj []" "''{}''" demo_parse
      "CHR ''{''" "[]"]
  by (simp add: updateAccountMetadata_msg_def demo_parse_def demo_stringify_def is_open_def close_of_def)

text \<open>
  The supply chain query tolerates padding around the JSON text: bytes before it
  without an opening bracket and bytes after it without its closing bracket are cut off
  by \<open>trim\<close> before parsing.
\<close>

theorem supply_chain_query_padding:
  assumes "parse (stringify v) = Some v" and "is_open b" and "stringify v = b # m @ [close_of b]"
    and "\<forall>x\<in>set p. \<not> is_open x" and "close_of b \<notin> set q"
  shows "getSupplyChain parse (Inr (p @ stringify v @ q)) = Fulfilled v"
  using decode_json_text [where parse = parse and stringify = stringify and v = v and dflt = "JArr []",
      OF assms] by (simp add: getSupplyChain_def json_query_def)

lemma supply_chain_query_padding_witness:
  "getSupplyChain demo_parse (Inr (''\<newline>'' @ ''[]'' @ ''\<newline>'')) = Fulfilled (JArr [])"
  using supply_chain_query_padding [of demo_parse demo_stringify "JArr []" "CHR ''[''" "[]"
      "''\<newline>''" "''\<newline>''"]
  by (simp add: demo_parse_def demo_stringify_def is_open_def close_of_def)

text \<open>
  The supply chain query returns the empty list exactly when the contract's text is
  empty, does not parse after trimming, or parses to the empty list; a rejected RPC
  rejects the returned promise with the same error.
\<close>

theorem supply_chain_query_default:
  "(getSupplyChain parse (Inr out) = Fulfilled (JArr [])) =
     (out = [] \<or> parse (trim out) = None \<or> parse (trim out) = Some (JArr [])) \<and>
   getSupplyChain parse (Inl e) = Rejected e"
  by (auto simp: getSupplyChain_def json_query_def decode_json_output_def split: option.splits)

text \<open>
  C4: once the message is submitted, the promise a transaction returns is fulfilled
  with \<open>true\<close> exactly when some status reports inclusion in a block; it is never
  rejected and never fulfilled with \<open>false\<close>. Statuses that end the transaction
  without inclusion (\<open>Dropped\<close>, \<open>Invalid\<close>, \<open>Usurped\<close>) leave it pending.
\<close>

theorem tx_promise_iff_in_block:
  assumes "pairSource = Some src" and "\<not> (src = ''polkadot-js'' \<and> isl injector)"
    and "submit = Inr u"
  shows "txPromise (send_tx msg pairSource injector submit statuses) =
           (if \<exists>h. InBlock h \<in> set statuses then Fulfilled True else Pending)"
  using assms by (auto simp: send_tx_def foldl_on_status_promise tx_start_def)

lemma tx_promise_iff_in_block_witness:
  "txPromise (send_tx (Mint 2) (Some ''ledger'') (Inl (Error ''no extension'')) (Inr ())
      [Ready, Broadcast, Invalid]) = Pending"
  using tx_promise_iff_in_block [of "Some ''ledger''" "''ledger''" "Inl (Error ''no extension'')"
      "Inr ()" "()" "Mint 2" "[Ready, Broadcast, Invalid]"]
  by simp

text \<open>
  C33: when the signing pair comes from the extension and \<open>web3FromAddress\<close> fails,
  or when no pair is selected, the transaction's promise never settles, whatever the
  chain reports: the failure happens before the \<open>try\<close> and is not passed to
  \<open>reject\<close>.
\<close>

theorem tx_extension_failure_pending:
  assumes "pairSource = None \<or> (pairSource = Some ''polkadot-js'' \<and> injector = Inl e)"
  shows "txPromise (send_tx msg pairSource injector submit statuses) = Pending"
  using assms by (auto simp: send_tx_def tx_start_def)

lemma tx_extension_failure_pending_witness:
  "txPromise (send_tx (SetRoles ''[]'') (Some ''polkadot-js'') (Inl (Error ''rejected'')) (Inr ())
      [InBlock 1, Finalized 1]) = Pending"
  using tx_extension_failure_pending [of "Some ''polkadot-js''" "Inl (Error ''rejected'')"
      "Error ''rejected''" "SetRoles ''[]''" "Inr ()" "[InBlock 1, Finalized 1]"]
  by simp

text \<open>
  A submitted transaction unsubscribes from its status updates exactly when a
  \<open>Finalized\<close> status arrives.
\<close>

theorem tx_unsubscribe_iff_finalized:
  assumes "pairSource = Some src" and "\<not> (src = ''polkadot-js'' \<and> isl injector)"
    and "submit = Inr u"
  shows "unsubscribed (send_tx msg pairSource injector submit statuses) =
           (\<exists>h. Finalized h \<in> set statuses)"
  using assms by (auto simp: send_tx_def foldl_on_status_unsubscribed tx_start_def)

lemma tx_unsubscribe_iff_finalized_witness:
  "unsubscribed (send_tx (Transfer ''5F'' ''3'') (Some ''ledger'') (Inr 1) (Inr ())
      [Ready, InBlock 4, Finalized 4])"
  using tx_unsubscribe_iff_finalized [of "Some ''ledger''" "''ledger''" "Inr 1" "Inr ()" "()"
      "Transfer ''5F'' ''3''" "[Ready, InBlock 4, Finalized 4]"]
  by simp

end
