(* ===== verification/AuthTypes.thy ===== *)
theory AuthTypes
  imports Prelude
begin

text \<open>
  Model of \<^verbatim>\<open>src/src/redux/types.js\<close>: the table of Redux action types of the
  authentication flows. The object lists 25 property names; a development build sets each
  property to its own name, a production build numbers them consecutively from a random
  start \<open>idx\<close> in \<open>[0, 1000)\<close>, in the order \<open>for ... in\<close> visits them (the order of
  declaration). A property the object does not declare reads as \<open>undefined\<close>: the
  table is a map, and \<open>None\<close> is \<open>undefined\<close>.
\<close>

datatype type_val = TStr string | TNum int

datatype build_mode = Development | Production nat

definition auth_type_names :: "string list" where
  "auth_type_names =
     [''SIGNUP_REQUEST'', ''SIGNUP_SUCCESS'', ''SIGNUP_FAIL'',
      ''LOGIN_REQUEST'', ''LOGIN_SUCCESS'', ''LOGIN_FAIL'',
      ''GET_ME_REQUEST'', ''GET_ME_SUCCESS'', ''GET_ME_FAIL'',
      ''LOGOUT_SUCCESS'',
      ''POST_REQUEST_RESEND_VERIFICATION_EMAIL_REQUEST'',
      ''POST_REQUEST_RESEND_VERIFICATION_EMAIL_SUCCESS'',
      ''POST_REQUEST_RESEND_VERIFICATION_EMAIL_FAIL'',
      ''POST_VERIFY_EMAIL_REQUEST'', ''POST_VERIFY_EMAIL_SUCCESS'', ''POST_VERIFY_EMAIL_FAIL'',
      ''POST_REQUEST_PWD_RESET_REQUEST'', ''POST_REQUEST_PWD_RESET_SUCCESS'',
      ''POST_REQUEST_PWD_RESET_FAIL'',
      ''POST_VERIFY_PWD_RESET_TOKEN_REQUEST'', ''POST_VERIFY_PWD_RESET_TOKEN_SUCCESS'',
      ''POST_VERIFY_PWD_RESET_TOKEN_FAIL'',
      ''POST_PWD_RESET_REQUEST'', ''POST_PWD_RESET_SUCCESS'', ''POST_PWD_RESET_FAIL'']"

type_synonym types_table = "string \<rightharpoonup> type_val"

definition types :: "build_mode \<Rightarrow> types_table" where
  "types mode =
     (case mode of
        Development \<Rightarrow> map_of (map (\<lambda>prop. (prop, TStr prop)) auth_type_names)
      | Production idx \<Rightarrow>
          map_of (zip auth_type_names (map (\<lambda>k. TNum (int idx + int k)) [0..<length auth_type_names])))"

subsection \<open>Lemmas\<close>

lemma distinct_auth_type_names: "distinct auth_type_names"
  by (simp add: auth_type_names_def)

lemma types_Development_Some:
  "types Development prop = Some v \<longleftrightarrow> prop \<in> set auth_type_names \<and> v = TStr prop"
  by (simp add: types_def)

lemma types_Production_Some:
  "types (Production idx) prop = Some v \<Longrightarrow>
     \<exists>k < length auth_type_names. auth_type_names ! k = prop \<and> v = TNum (int idx + int k)"
  by (auto simp: types_def in_set_zip dest!: map_of_SomeD)

lemma types_dom: "types mode prop \<noteq> None \<longleftrightarrow> prop \<in> set auth_type_names"
  by (cases mode) (auto simp: types_def dom_map_of_conv_image_fst [symmetric] map_of_eq_None_iff
      image_iff)

lemma types_None: "types mode prop = None \<longleftrightarrow> prop \<notin> set auth_type_names"
  using types_dom by blast

lemma types_Some_inj:
  assumes "types mode p = Some v" and "types mode q = Some v"
  shows "p = q"
proof (cases mode)
  case Development
  with assms show "p = q" by (simp add: types_Development_Some)
next
  case (Production idx)
  with assms obtain i j where
    "i < length auth_type_names" "auth_type_names ! i = p" "v = TNum (int idx + int i)"
    "j < length auth_type_names" "auth_type_names ! j = q" "v = TNum (int idx + int j)"
    by (metis types_Production_Some)
  then show "p = q" by simp
qed

lemma unsubscribe_not_listed:
  "''POST_UNSUBSCRIBE_REQUEST'' \<notin> set auth_type_names"
  "''POST_UNSUBSCRIBE_SUCCESS'' \<notin> set auth_type_names"
  "''POST_UNSUBSCRIBE_FAIL'' \<notin> set auth_type_names"
  by (simp_all add: auth_type_names_def)

text \<open>
  C34: in both builds two properties read the same value exactly when they are the same
  property or both are missing from the table (both \<open>undefined\<close>): a \<open>switch\<close> on the
  type tells the declared actions apart, and confuses the undeclared ones.
\<close>

theorem types_injective:
  "types mode p = types mode q \<longleftrightarrow>
     p = q \<or> (p \<notin> set auth_type_names \<and> q \<notin> set auth_type_names)"
proof
  assume eq: "types mode p = types mode q"
  show "p = q \<or> (p \<notin> set auth_type_names \<and> q \<notin> set auth_type_names)"
  proof (cases "types mode p")
    case None
    then show ?thesis using eq types_None [of mode p] types_None [of mode q] by simp
  next
    case (Some v)
    moreover have "types mode q = Some v" by (rule trans [OF eq [symmetric] Some])
    ultimately show ?thesis using types_Some_inj [of mode p v q] by blast
  qed
next
  assume "p = q \<or> (p \<notin> set auth_type_names \<and> q \<notin> set auth_type_names)"
  then show "types mode p = types mode q" using types_None [of mode p] types_None [of mode q] by auto
qed

lemma types_injective_witness:
  "types (Production 41) ''POST_UNSUBSCRIBE_FAIL'' = types (Production 41) ''LOGOUT_FAIL'' \<and>
   types (Production 41) ''LOGIN_FAIL'' = Some (TNum 46)"
proof -
  have "''POST_UNSUBSCRIBE_FAIL'' \<notin> set auth_type_names" "''LOGOUT_FAIL'' \<notin> set auth_type_names"
    by (simp_all add: auth_type_names_def)
  then have "types (Production 41) ''POST_UNSUBSCRIBE_FAIL'' = types (Production 41) ''LOGOUT_FAIL''"
    using types_injective [of "Production 41" "''POST_UNSUBSCRIBE_FAIL''" "''LOGOUT_FAIL''"] by simp
  moreover have "types (Production 41) ''LOGIN_FAIL'' = Some (TNum 46)"
    by (simp add: types_def auth_type_names_def)
  ultimately show ?thesis by simp
qed

text \<open>
  The table has no entry for the unsubscribe types the reducer and the
  \<open>unsubscribe\<close> action creator use: \<open>types.POST_UNSUBSCRIBE_REQUEST\<close>,
  \<open>..._SUCCESS\<close> and \<open>..._FAIL\<close> are all \<open>undefined\<close> in both builds.
\<close>

theorem unsubscribe_types_undefined:
  "types mode ''POST_UNSUBSCRIBE_REQUEST'' = None \<and> types mode ''POST_UNSUBSCRIBE_SUCCESS'' = None \<and>
   types mode ''POST_UNSUBSCRIBE_FAIL'' = None"
  using unsubscribe_not_listed by (simp add: types_None)

end
