(* ===== verification/AuthReducer.thy ===== *)
theory AuthReducer
  imports AuthTypes
begin

text \<open>
  Model of \<^verbatim>\<open>src/src/redux/reducers/auth.js\<close>. The reducer is a JavaScript
  \<open>switch (action.type)\<close> whose case labels are the expressions \<open>types.X\<close>: the
  labels are evaluated in order and the first one strictly equal to the action's type
  selects the body, cases without a body fall through to the next body, and no match
  returns the state unchanged. The model keeps exactly that: \<open>auth_cases\<close> lists the
  labels in source order with the body each one reaches, and \<open>auth_reducer\<close> takes the
  first label whose table value equals the action's type (\<open>undefined === undefined\<close>
  holds, so an undefined type matches the first undefined label). Values the state
  takes from the payload are JSON values (\<open>null\<close> is \<open>Some JNull\<close>, \<open>undefined\<close>
  is \<open>None\<close>); the payload is the action's \<open>payload\<close> property, and a body that reads
  a property of an undefined or null payload throws a \<open>TypeError\<close>, so the reducer
  returns \<open>js_error + auth_state\<close>.
\<close>

record auth_state =
  isPostingSignup :: bool
  isPostingLogin :: bool
  isFetchingMe :: bool
  accessToken :: "json option"
  user :: "json option"
  isPostingRequestResendVerificationEmail :: bool
  isPostingVerifyEmail :: bool
  isPostingPwdResetRequest :: bool
  isPostingVerifyPwdResetToken :: bool
  isPostingPwdReset :: bool
  isPostingUnsubscribe :: bool
  msg :: "json option"

definition INITIAL_STATE :: auth_state where
  "INITIAL_STATE =
     \<lparr>isPostingSignup = False, isPostingLogin = False, isFetchingMe = False,
      accessToken = Some (JStr []), user = Some JNull,
      isPostingRequestResendVerificationEmail = False, isPostingVerifyEmail = False,
      isPostingPwdResetRequest = False, isPostingVerifyPwdResetToken = False,
      isPostingPwdReset = False, isPostingUnsubscribe = False, msg = Some (JStr [])\<rparr>"

record auth_action =
  atype :: "type_val option"
  payload :: "json option"

text \<open>
  An action as the action creators build it: \<open>{type: types.X, payload}\<close>, or
  \<open>{type: types.X}\<close> (payload \<open>None\<close>).
\<close>

definition action_of :: "types_table \<Rightarrow> string \<Rightarrow> json option \<Rightarrow> auth_action" where
  "action_of tys name p = \<lparr>atype = tys name, payload = p\<rparr>"

datatype auth_case =
    SignupRequest | SignupDone
  | LoginRequest | LoginSuccess | LoginFail
  | GetMeRequest | GetMeSuccess | GetMeFail
  | LogoutSuccess
  | ResendRequest | ResendDone
  | VerifyEmailRequest | VerifyEmailDone
  | PwdResetRequestRequest | PwdResetRequestDone
  | VerifyTokenRequest | VerifyTokenDone
  | PwdResetRequest | PwdResetDone
  | UnsubscribeRequest | UnsubscribeDone

definition auth_cases :: "(string \<times> auth_case) list" where
  "auth_cases =
     [(''SIGNUP_REQUEST'', SignupRequest), (''SIGNUP_SUCCESS'', SignupDone),
      (''SIGNUP_FAIL'', SignupDone),
      (''LOGIN_REQUEST'', LoginRequest), (''LOGIN_SUCCESS'', LoginSuccess),
      (''LOGIN_FAIL'', LoginFail),
      (''GET_ME_REQUEST'', GetMeRequest), (''GET_ME_SUCCESS'', GetMeSuccess),
      (''GET_ME_FAIL'', GetMeFail),
      (''LOGOUT_SUCCESS'', LogoutSuccess),
      (''POST_REQUEST_RESEND_VERIFICATION_EMAIL_REQUEST'', ResendRequest),
      (''POST_REQUEST_RESEND_VERIFICATION_EMAIL_SUCCESS'', ResendDone),
      (''POST_REQUEST_RESEND_VERIFICATION_EMAIL_FAIL'', ResendDone),
      (''POST_VERIFY_EMAIL_REQUEST'', VerifyEmailRequest),
      (''POST_VERIFY_EMAIL_SUCCESS'', VerifyEmailDone), (''POST_VERIFY_EMAIL_FAIL'', VerifyEmailDone),
      (''POST_REQUEST_PWD_RESET_REQUEST'', PwdResetRequestRequest),
      (''POST_REQUEST_PWD_RESET_SUCCESS'', PwdResetRequestDone),
      (''POST_REQUEST_PWD_RESET_FAIL'', PwdResetRequestDone),
      (''POST_VERIFY_PWD_RESET_TOKEN_REQUEST'', VerifyTokenRequest),
      (''POST_VERIFY_PWD_RESET_TOKEN_SUCCESS'', VerifyTokenDone),
      (''POST_VERIFY_PWD_RESET_TOKEN_FAIL'', VerifyTokenDone),
      (''POST_PWD_RESET_REQUEST'', PwdResetRequest),
      (''POST_PWD_RESET_SUCCESS'', PwdResetDone), (''POST_PWD_RESET_FAIL'', PwdResetDone),
      (''POST_UNSUBSCRIBE_REQUEST'', UnsubscribeRequest),
      (''POST_UNSUBSCRIBE_SUCCESS'', UnsubscribeDone), (''POST_UNSUBSCRIBE_FAIL'', UnsubscribeDone)]"

fun auth_case_body :: "auth_case \<Rightarrow> auth_state \<Rightarrow> json option \<Rightarrow> auth_state" where
  "auth_case_body SignupRequest s p = s\<lparr>isPostingSignup := True, msg := Some (JStr [])\<rparr>"
| "auth_case_body SignupDone s p = s\<lparr>isPostingSignup := False, msg := js_get p ''msg''\<rparr>"
| "auth_case_body LoginRequest s p = s\<lparr>isPostingLogin := True, msg := Some (JStr [])\<rparr>"
| "auth_case_body LoginSuccess s p =
     s\<lparr>isPostingLogin := False, accessToken := js_get p ''accessToken'', msg := js_get p ''msg'',
       user := (if json_truthy (js_get p ''user'') then js_get p ''user'' else user s)\<rparr>"
| "auth_case_body LoginFail s p =
     s\<lparr>isPostingLogin := False, accessToken := Some (JStr []), msg := js_get p ''msg''\<rparr>"
| "auth_case_body GetMeRequest s p = s\<lparr>isFetchingMe := True, msg := Some (JStr [])\<rparr>"
| "auth_case_body GetMeSuccess s p =
     s\<lparr>isFetchingMe := False, user := js_get p ''user'', msg := Some (JStr [])\<rparr>"
| "auth_case_body GetMeFail s p = s\<lparr>isFetchingMe := False, user := Some JNull, msg := js_get p ''msg''\<rparr>"
| "auth_case_body LogoutSuccess s p =
     s\<lparr>user := Some JNull, accessToken := Some (JStr []), msg := js_get p ''msg''\<rparr>"
| "auth_case_body ResendRequest s p = s\<lparr>isPostingRequestResendVerificationEmail := True\<rparr>"
| "auth_case_body ResendDone s p = s\<lparr>isPostingRequestResendVerificationEmail := False\<rparr>"
| "auth_case_body VerifyEmailRequest s p = s\<lparr>isPostingVerifyEmail := True\<rparr>"
| "auth_case_body VerifyEmailDone s p = s\<lparr>isPostingVerifyEmail := False\<rparr>"
| "auth_case_body PwdResetRequestRequest s p = s\<lparr>isPostingPwdResetRequest := True\<rparr>"
| "auth_case_body PwdResetRequestDone s p = s\<lparr>isPostingPwdResetRequest := False\<rparr>"
| "auth_case_body VerifyTokenRequest s p = s\<lparr>isPostingVerifyPwdResetToken := True\<rparr>"
| "auth_case_body VerifyTokenDone s p = s\<lparr>isPostingVerifyPwdResetToken := False\<rparr>"
| "auth_case_body PwdResetRequest s p = s\<lparr>isPostingPwdReset := True\<rparr>"
| "auth_case_body PwdResetDone s p = s\<lparr>isPostingPwdReset := False\<rparr>"
| "auth_case_body UnsubscribeRequest s p = s\<lparr>isPostingUnsubscribe := True\<rparr>"
| "auth_case_body UnsubscribeDone s p = s\<lparr>isPostingUnsubscribe := False\<rparr>"

text \<open>The bodies that read \<open>action.payload\<close>.\<close>

fun reads_payload :: "auth_case \<Rightarrow> bool" where
  "reads_payload SignupDone = True"
| "reads_payload LoginSuccess = True"
| "reads_payload LoginFail = True"
| "reads_payload GetMeSuccess = True"
| "reads_payload GetMeFail = True"
| "reads_payload LogoutSuccess = True"
| "reads_payload _ = False"

definition auth_reducer :: "types_table \<Rightarrow> auth_state \<Rightarrow> auth_action \<Rightarrow> js_error + auth_state" where
  "auth_reducer tys state action =
     (case find (\<lambda>(label, c). tys label = atype action) auth_cases of
        None \<Rightarrow> Inr state
      | Some (label, c) \<Rightarrow>
          if reads_payload c \<and> nullish (payload action) then Inl type_error
          else Inr (auth_case_body c state (payload action)))"

text \<open>
  Redux's \<open>dispatch\<close> refuses an action whose type is \<open>undefined\<close> with an exception
  before any reducer runs; otherwise the store's new state is the reducer's result.
\<close>

definition redux_dispatch :: "types_table \<Rightarrow> auth_state \<Rightarrow> auth_action \<Rightarrow> js_error + auth_state" where
  "redux_dispatch tys s a =
     (if atype a = None then Inl (Error ''Actions may not have an undefined type property.'')
      else auth_reducer tys s a)"

subsection \<open>The in-flight flags\<close>

datatype auth_flag =
    FSignup | FLogin | FGetMe | FResend | FVerifyEmail | FPwdResetRequest | FVerifyToken
  | FPwdReset | FUnsubscribe

fun flag :: "auth_flag \<Rightarrow> auth_state \<Rightarrow> bool" where
  "flag FSignup s = isPostingSignup s"
| "flag FLogin s = isPostingLogin s"
| "flag FGetMe s = isFetchingMe s"
| "flag FResend s = isPostingRequestResendVerificationEmail s"
| "flag FVerifyEmail s = isPostingVerifyEmail s"
| "flag FPwdResetRequest s = isPostingPwdResetRequest s"
| "flag FVerifyToken s = isPostingVerifyPwdResetToken s"
| "flag FPwdReset s = isPostingPwdReset s"
| "flag FUnsubscribe s = isPostingUnsubscribe s"

fun request_type :: "auth_flag \<Rightarrow> string" where
  "request_type FSignup = ''SIGNUP_REQUEST''"
| "request_type FLogin = ''LOGIN_REQUEST''"
| "request_type FGetMe = ''GET_ME_REQUEST''"
| "request_type FResend = ''POST_REQUEST_RESEND_VERIFICATION_EMAIL_REQUEST''"
| "request_type FVerifyEmail = ''POST_VERIFY_EMAIL_REQUEST''"
| "request_type FPwdResetRequest = ''POST_REQUEST_PWD_RESET_REQUEST''"
| "request_type FVerifyToken = ''POST_VERIFY_PWD_RESET_TOKEN_REQUEST''"
| "request_type FPwdReset = ''POST_PWD_RESET_REQUEST''"
| "request_type FUnsubscribe = ''POST_UNSUBSCRIBE_REQUEST''"

fun success_type :: "auth_flag \<Rightarrow> string" where
  "success_type FSignup = ''SIGNUP_SUCCESS''"
| "success_type FLogin = ''LOGIN_SUCCESS''"
| "success_type FGetMe = ''GET_ME_SUCCESS''"
| "success_type FResend = ''POST_REQUEST_RESEND_VERIFICATION_EMAIL_SUCCESS''"
| "success_type FVerifyEmail = ''POST_VERIFY_EMAIL_SUCCESS''"
| "success_type FPwdResetRequest = ''POST_REQUEST_PWD_RESET_SUCCESS''"
| "success_type FVerifyToken = ''POST_VERIFY_PWD_RESET_TOKEN_SUCCESS''"
| "success_type FPwdReset = ''POST_PWD_RESET_SUCCESS''"
| "success_type FUnsubscribe = ''POST_UNSUBSCRIBE_SUCCESS''"

fun fail_type :: "auth_flag \<Rightarrow> string" where
  "fail_type FSignup = ''SIGNUP_FAIL''"
| "fail_type FLogin = ''LOGIN_FAIL''"
| "fail_type FGetMe = ''GET_ME_FAIL''"
| "fail_type FResend = ''POST_REQUEST_RESEND_VERIFICATION_EMAIL_FAIL''"
| "fail_type FVerifyEmail = ''POST_VERIFY_EMAIL_FAIL''"
| "fail_type FPwdResetRequest = ''POST_REQUEST_PWD_RESET_FAIL''"
| "fail_type FVerifyToken = ''POST_VERIFY_PWD_RESET_TOKEN_FAIL''"
| "fail_type FPwdReset = ''POST_PWD_RESET_FAIL''"
| "fail_type FUnsubscribe = ''POST_UNSUBSCRIBE_FAIL''"

subsection \<open>Lemmas\<close>

lemma find_fst_map_of:
  "find (\<lambda>(k, v). k = x) xs = map_option (\<lambda>v. (x, v)) (map_of xs x)"
  by (induction xs) auto

text \<open>A declared type selects the body its own label reaches.\<close>

lemma auth_reducer_known:
  assumes "name \<in> set auth_type_names"
  shows "auth_reducer (types m) s (action_of (types m) name p) =
           (case map_of auth_cases name of
              None \<Rightarrow> Inr s
            | Some c \<Rightarrow> if reads_payload c \<and> nullish p then Inl type_error
                        else Inr (auth_case_body c s p))"
proof -
  have "\<And>label. (types m label = types m name) = (label = name)"
    using assms types_Some_inj [of m] types_dom [of m]
    by (metis option.exhaust)
  then show ?thesis
    by (auto simp: auth_reducer_def action_of_def find_fst_map_of split: option.split)
qed

lemma flag_types_known:
  "f \<noteq> FUnsubscribe \<Longrightarrow>
     request_type f \<in> set auth_type_names \<and> success_type f \<in> set auth_type_names \<and>
     fail_type f \<in> set auth_type_names"
  by (cases f) (simp_all add: auth_type_names_def)

lemma auth_login_types_known:
  "''LOGIN_SUCCESS'' \<in> set auth_type_names" "''LOGIN_FAIL'' \<in> set auth_type_names"
  "''LOGOUT_SUCCESS'' \<in> set auth_type_names"
  by (simp_all add: auth_type_names_def)

lemma types_undefined_unsubscribe:
  "types m (request_type FUnsubscribe) = None" "types m (success_type FUnsubscribe) = None"
  "types m (fail_type FUnsubscribe) = None"
  using unsubscribe_not_listed by (simp_all add: types_None)

lemma find_undefined_label:
  "find (\<lambda>(label, c). types m label = None) auth_cases =
     Some (''POST_UNSUBSCRIBE_REQUEST'', UnsubscribeRequest)"
  by (simp add: types_None auth_cases_def auth_type_names_def)

text \<open>The flag each request kind's three actions set or clear, the others kept.\<close>

lemma flag_transitions:
  assumes "f \<noteq> FUnsubscribe" and "\<not> nullish p"
  shows "map_sum id (flag g) (auth_reducer (types m) s (action_of (types m) (request_type f) q)) =
           Inr (g = f \<or> flag g s) \<and>
         map_sum id (flag g) (auth_reducer (types m) s (action_of (types m) (success_type f) p)) =
           Inr (g \<noteq> f \<and> flag g s) \<and>
         map_sum id (flag g) (auth_reducer (types m) s (action_of (types m) (fail_type f) p)) =
           Inr (g \<noteq> f \<and> flag g s)"
  using assms flag_types_known [OF assms(1)]
  by (cases f; simp add: auth_reducer_known auth_cases_def; cases g; simp)

lemma redux_dispatch_declared:
  "name \<in> set auth_type_names \<Longrightarrow>
     redux_dispatch (types m) s (action_of (types m) name p) = auth_reducer (types m) s (action_of (types m) name p)"
  by (simp add: redux_dispatch_def action_of_def types_None)

text \<open>
  C5: through the store, for every request kind except unsubscribing, the \<open>_REQUEST\<close>
  action (whatever its payload) raises its in-flight flag and the \<open>_SUCCESS\<close> and
  \<open>_FAIL\<close> actions with a payload lower it, in both build modes, and none of them
  touches another kind's flag.
\<close>

theorem request_flags:
  assumes "f \<noteq> FUnsubscribe" and "\<not> nullish p"
  shows "map_sum id (flag g) (redux_dispatch (types m) s (action_of (types m) (request_type f) q)) =
           Inr (g = f \<or> flag g s) \<and>
         map_sum id (flag g) (redux_dispatch (types m) s (action_of (types m) (success_type f) p)) =
           Inr (g \<noteq> f \<and> flag g s) \<and>
         map_sum id (flag g) (redux_dispatch (types m) s (action_of (types m) (fail_type f) p)) =
           Inr (g \<noteq> f \<and> flag g s)"
  using flag_transitions [OF assms, of g m s q] flag_types_known [OF assms(1)]
  by (simp only: redux_dispatch_declared)

lemma request_flags_witness:
  "map_sum id (flag FLogin)
     (redux_dispatch (types Development) INITIAL_STATE (action_of (types Development) ''LOGIN_REQUEST'' None)) =
   Inr True"
  using request_flags [of FLogin "Some (JObj [])" FLogin Development INITIAL_STATE None] by simp

text \<open>
  The three unsubscribe action types are missing from the type table, so their
  actions carry an undefined type. The switch then matches the first undefined label,
  \<open>types.POST_UNSUBSCRIBE_REQUEST\<close>: the success and failure actions raise the flag
  instead of lowering it, and through the store every one of the three is refused by
  Redux's \<open>dispatch\<close>.
\<close>

theorem unsubscribe_misrouted:
  "auth_reducer (types m) s (action_of (types m) (success_type FUnsubscribe) p) =
     Inr (s\<lparr>isPostingUnsubscribe := True\<rparr>) \<and>
   auth_reducer (types m) s (action_of (types m) (fail_type FUnsubscribe) p) =
     Inr (s\<lparr>isPostingUnsubscribe := True\<rparr>) \<and>
   (\<exists>e. redux_dispatch (types m) s (action_of (types m) (request_type FUnsubscribe) p) = Inl e) \<and>
   (\<exists>e. redux_dispatch (types m) s (action_of (types m) (success_type FUnsubscribe) p) = Inl e) \<and>
   (\<exists>e. redux_dispatch (types m) s (action_of (types m) (fail_type FUnsubscribe) p) = Inl e)"
  using types_undefined_unsubscribe [of m] find_undefined_label [of m]
  by (simp add: auth_reducer_def action_of_def redux_dispatch_def)

text \<open>
  A failed login forgets the access token and lowers the login flag; a logout
  forgets both the user and the token.
\<close>

theorem login_fail_logout_clear:
  assumes "\<not> nullish p"
  shows "map_sum id (\<lambda>s'. (accessToken s', isPostingLogin s'))
           (auth_reducer (types m) s (action_of (types m) ''LOGIN_FAIL'' p)) =
           Inr (Some (JStr []), False) \<and>
         map_sum id (\<lambda>s'. (user s', accessToken s'))
           (auth_reducer (types m) s (action_of (types m) ''LOGOUT_SUCCESS'' p)) =
           Inr (Some JNull, Some (JStr []))"
  using assms auth_login_types_known by (simp add: auth_reducer_known auth_cases_def)

lemma login_fail_logout_clear_witness:
  "map_sum id (\<lambda>s'. (user s', accessToken s'))
     (auth_reducer (types (Production 7)) INITIAL_STATE
        (action_of (types (Production 7)) ''LOGOUT_SUCCESS'' (Some (JObj [(''msg'', JStr ''bye'')])))) =
   Inr (Some JNull, Some (JStr []))"
  using login_fail_logout_clear [of "Some (JObj [(''msg'', JStr ''bye'')])" "Production 7" INITIAL_STATE]
  by simp

text \<open>
  An action whose type is defined but is no value of the type table (the store's
  own initialisation actions, the actions of other reducers) reaches the \<open>default\<close>
  branch and leaves the state unchanged.
\<close>

theorem foreign_action_ignored:
  assumes "atype a = Some v" and "\<forall>name. types m name \<noteq> Some v"
  shows "auth_reducer (types m) s a = Inr s"
proof -
  have "find (\<lambda>(label, c). types m label = atype a) auth_cases = None"
    using assms by (auto simp: find_None_iff)
  then show ?thesis by (simp add: auth_reducer_def)
qed

lemma foreign_action_ignored_witness:
  "auth_reducer (types Development) INITIAL_STATE
     \<lparr>atype = Some (TStr ''@@redux/INIT''), payload = None\<rparr> = Inr INITIAL_STATE"
proof -
  have "''@@redux/INIT'' \<notin> set auth_type_names" by (simp add: auth_type_names_def)
  then have "\<forall>name. types Development name \<noteq> Some (TStr ''@@redux/INIT'')"
    by (auto simp: types_Development_Some)
  then show ?thesis
    using foreign_action_ignored [where a = "\<lparr>atype = Some (TStr ''@@redux/INIT''), payload = None\<rparr>"]
    by simp
qed

end
