(* ===== verification/Notifier.thy ===== *)
theory Notifier
  imports Prelude
begin

text \<open>
  Model of \<^verbatim>\<open>src/src/utils/notifier.js\<close>: a module object with a \<open>timer\<close> field
  (6 seconds) and two methods that pass a notification to antd. A notification is the
  record of the options the methods build; the pages and thunks keep the list of
  notifications shown. No code of the repository calls \<open>setTimer\<close>, so every
  notification is built with the initial module state \<open>notifier_init\<close>.
\<close>

record notifier =
  timer :: json

definition notifier_init :: notifier where
  "notifier_init = \<lparr>timer = JNum 6\<rparr>"

definition setTimer :: "json \<Rightarrow> notifier \<Rightarrow> notifier" where
  "setTimer sec nt = nt\<lparr>timer := sec\<rparr>"

record notification =
  ntype :: string
  message :: "json option"
  description :: json
  className :: string
  duration :: json

text \<open>
  \<open>success(msg, desc, time)\<close> and \<open>error(msg, desc, time)\<close>: an absent or falsy
  description becomes \<open>''\<close> with the class \<open>notifier-no-content\<close>; an undefined
  duration is the module's \<open>timer\<close>.
\<close>

definition notify :: "string \<Rightarrow> json option \<Rightarrow> json option \<Rightarrow> json option \<Rightarrow> notifier \<Rightarrow> notification" where
  "notify kind msg desc time nt =
     \<lparr>ntype = kind, message = msg,
      description = (case desc of Some d \<Rightarrow> if json_truthy desc then d else JStr [] | None \<Rightarrow> JStr []),
      className = (if json_truthy desc then ''notifier-content'' else ''notifier-no-content''),
      duration = (case time of Some t \<Rightarrow> t | None \<Rightarrow> timer nt)\<rparr>"

definition notifier_success :: "json option \<Rightarrow> notification" where
  "notifier_success msg = notify ''success'' msg None None notifier_init"

definition notifier_error :: "json option \<Rightarrow> notification" where
  "notifier_error msg = notify ''error'' msg None None notifier_init"

end
