(* ===== verification/AuthActions.thy ===== *)
theory AuthActions
  imports AuthReducer JsNumber Notifier
begin

text \<open>
  Model of the Redux thunks of \<^verbatim>\<open>src/src/redux/actions/auth.js\<close> and of
  \<^verbatim>\<open>src/src/utils/setApiAuthHeader.js\<close>. A thunk acts on an explicit environment
  \<open>auth_env\<close>: the auth slice of the store (\<open>getState().rootReducer.auth\<close>),
  \<open>localStorage\<close>, the axios default \<open>authorization\<close> header, the notifications shown
  and the history entries pushed. The REST module \<open>../api\<close> is not part of the
  repository: what its promise settles with is a parameter \<open>api_outcome\<close>.

  A request thunk runs in two phases, as the code does: \<open>thunk_start\<close> is the
  synchronous part (the in-flight guard, which answers \<open>Promise.reject()\<close>, and the
  \<open>_REQUEST\<close> dispatch), the \<open>*_settle\<close> functions are the \<open>.then\<close>/\<open>.catch\<close>
  chain run when the API answers. A throw inside \<open>.then\<close> (a dispatch Redux refuses)
  goes to the \<open>.catch\<close> handler, as promise chaining does; a throw inside \<open>.catch\<close>
  rejects the returned promise. \<open>JSON.parse\<close> and \<open>JSON.stringify\<close> are parameters.
\<close>

record auth_env =
  auth :: auth_state
  storage :: "string \<rightharpoonup> string"
  authHeader :: "string option"
  notices :: "notification list"
  history :: "string list"

datatype api_outcome = ApiResolves "json option" | ApiRejects "json option"

text \<open>
  What a thunk call gives its caller: a promise fulfilled or rejected with a value, a
  promise rejected with an exception thrown inside a handler, an exception thrown
  synchronously by the call itself, or (for \<open>logout\<close>) nothing.
\<close>

datatype thunk_ret =
    Fulfills "json option" | Rejects "json option" | RejectsErr js_error | Throws js_error
  | Done

subsection \<open>JavaScript values the thunks build\<close>

fun join_with :: "string \<Rightarrow> string list \<Rightarrow> string" where
  "join_with sep [] = []"
| "join_with sep [x] = x"
| "join_with sep (x # y # zs) = x @ sep @ join_with sep (y # zs)"

text \<open>\<open>String(v)\<close>, as a property assignment on \<open>localStorage\<close> and a template literal apply it.\<close>

fun js_String :: "json \<Rightarrow> string" where
  "js_String JNull = ''null''"
| "js_String (JBool b) = (if b then ''true'' else ''false'')"
| "js_String (JNum n) = (if n < 0 then CHR ''-'' # decimal (nat (- n)) else decimal (nat n))"
| "js_String (JDec m e) =
     (let ds = decimal (nat \<bar>m\<bar>); ds' = replicate (Suc e - length ds) CHR ''0'' @ ds;
          k = length ds' - e
      in (if m < 0 then ''-'' else []) @ take k ds' @ ''.'' @ drop k ds')"
| "js_String (JStr s) = s"
| "js_String (JArr xs) = join_with '','' (map (\<lambda>x. if x = JNull then [] else js_String x) xs)"
| "js_String (JObj kvs) = ''[object Object]''"

definition js_String_opt :: "json option \<Rightarrow> string" where
  "js_String_opt v = (case v of None \<Rightarrow> ''undefined'' | Some x \<Rightarrow> js_String x)"

text \<open>An exception object has no enumerable property and no \<open>response\<close>: it is the empty object.\<close>

definition error_obj :: "js_error \<Rightarrow> json option" where
  "error_obj e = Some (JObj [])"

text \<open>\<open>{...x, msg}\<close>: the new \<open>msg\<close> entry is the live one.\<close>

definition with_msg :: "json option \<Rightarrow> json \<Rightarrow> json" where
  "with_msg x m = JObj ((''msg'', m) # spread_props x)"

text \<open>\<open>(data && data.msg) || dflt\<close>\<close>

definition ok_msg :: "json option \<Rightarrow> string \<Rightarrow> json" where
  "ok_msg data dflt =
     (case js_get data ''msg'' of
        Some m \<Rightarrow> if json_truthy data \<and> json_truthy (Some m) then m else JStr dflt
      | None \<Rightarrow> JStr dflt)"

text \<open>
  \<open>(err.response && err.response.data && err.response.data.msg) || dflt\<close>; reading
  \<open>err.response\<close> throws when \<open>err\<close> is undefined or null.
\<close>

definition err_msg :: "json option \<Rightarrow> string \<Rightarrow> js_error + json" where
  "err_msg err dflt =
     (if nullish err then Inl type_error
      else let r = js_get err ''response''; d = js_get r ''data''; m = js_get d ''msg'' in
           Inr (case m of
                  Some v \<Rightarrow> if json_truthy r \<and> json_truthy d \<and> json_truthy m then v else JStr dflt
                | None \<Rightarrow> JStr dflt))"

subsection \<open>Effects on the environment\<close>

text \<open>\<open>dispatch\<close> through the store: Redux's check, then the auth reducer.\<close>

definition auth_dispatch :: "types_table \<Rightarrow> auth_action \<Rightarrow> auth_env \<Rightarrow> js_error + auth_env" where
  "auth_dispatch tys a e =
     (case redux_dispatch tys (auth e) a of Inl x \<Rightarrow> Inl x | Inr s \<Rightarrow> Inr (e\<lparr>auth := s\<rparr>))"

text \<open>\<open>setApiAuthHeader(accessToken = null)\<close>\<close>

definition setApiAuthHeader :: "json option \<Rightarrow> auth_env \<Rightarrow> auth_env" where
  "setApiAuthHeader tok e =
     e\<lparr>authHeader := (if json_truthy tok then Some (js_String_opt tok) else None)\<rparr>"

definition store_token :: "json option \<Rightarrow> auth_env \<Rightarrow> auth_env" where
  "store_token tok e = e\<lparr>storage := (storage e)(''accessToken'' \<mapsto> js_String_opt tok)\<rparr>"

text \<open>\<open>localStorage.clear(); setApiAuthHeader();\<close>\<close>

definition clear_session :: "auth_env \<Rightarrow> auth_env" where
  "clear_session e = setApiAuthHeader None (e\<lparr>storage := Map.empty\<rparr>)"

subsection \<open>The request thunks\<close>

text \<open>
  The synchronous part shared by every request thunk: \<open>Inr (e, False)\<close> is the
  guard's \<open>Promise.reject()\<close>, \<open>Inr (e', True)\<close> an API call under way, \<open>Inl\<close>
  a dispatch Redux refused (the thunk call throws).
\<close>

definition thunk_start :: "types_table \<Rightarrow> auth_flag \<Rightarrow> auth_env \<Rightarrow> js_error + auth_env \<times> bool" where
  "thunk_start tys f e =
     (if flag f (auth e) then Inr (e, False)
      else case auth_dispatch tys (action_of tys (request_type f) None) e of
             Inl x \<Rightarrow> Inl x
           | Inr e' \<Rightarrow> Inr (e', True))"

text \<open>The \<open>.catch\<close> handler shared by the request thunks.\<close>

definition catch_fail ::
  "types_table \<Rightarrow> auth_flag \<Rightarrow> string \<Rightarrow> json option \<Rightarrow> auth_env \<Rightarrow> auth_env \<times> thunk_ret" where
  "catch_fail tys f dflt err e =
     (case err_msg err dflt of
        Inl x \<Rightarrow> (e, RejectsErr x)
      | Inr m \<Rightarrow>
          (case auth_dispatch tys (action_of tys (fail_type f) (Some (with_msg err m))) e of
             Inl x \<Rightarrow> (e, RejectsErr x)
           | Inr e' \<Rightarrow> (e', Rejects (Some (with_msg err m)))))"

text \<open>The \<open>.then\<close>/\<open>.catch\<close> chain of the thunks that only report a message.\<close>

definition settle_simple ::
  "types_table \<Rightarrow> auth_flag \<Rightarrow> string \<Rightarrow> string \<Rightarrow> api_outcome \<Rightarrow> auth_env \<Rightarrow> auth_env \<times> thunk_ret" where
  "settle_simple tys f okdflt faildflt r e =
     (case r of
        ApiResolves data \<Rightarrow>
          (let payload = with_msg data (ok_msg data okdflt) in
           case auth_dispatch tys (action_of tys (success_type f) (Some payload)) e of
             Inr e' \<Rightarrow> (e', Fulfills (Some payload))
           | Inl x \<Rightarrow> catch_fail tys f faildflt (error_obj x) e)
      | ApiRejects err \<Rightarrow> catch_fail tys f faildflt err e)"

definition signup_settle :: "types_table \<Rightarrow> api_outcome \<Rightarrow> auth_env \<Rightarrow> auth_env \<times> thunk_ret" where
  "signup_settle tys = settle_simple tys FSignup ''Signup success!'' ''Signup failed!''"

definition requestResendVerificationEmail_settle ::
  "types_table \<Rightarrow> api_outcome \<Rightarrow> auth_env \<Rightarrow> auth_env \<times> thunk_ret" where
  "requestResendVerificationEmail_settle tys = settle_simple tys FResend ''Request successful!'' ''Request failed''"

definition verifyEmail_settle :: "types_table \<Rightarrow> api_outcome \<Rightarrow> auth_env \<Rightarrow> auth_env \<times> thunk_ret" where
  "verifyEmail_settle tys =
     settle_simple tys FVerifyEmail ''Email verified successfully'' ''Email verification failed''"

definition requestPwdReset_settle :: "types_table \<Rightarrow> api_outcome \<Rightarrow> auth_env \<Rightarrow> auth_env \<times> thunk_ret" where
  "requestPwdReset_settle tys = settle_simple tys FPwdResetRequest ''Request successful!'' ''Request failed''"

definition verifyPwdResetToken_settle :: "types_table \<Rightarrow> api_outcome \<Rightarrow> auth_env \<Rightarrow> auth_env \<times> thunk_ret" where
  "verifyPwdResetToken_settle tys = settle_simple tys FVerifyToken ''Token verified!'' ''Token invalid''"

definition resetPwd_settle :: "types_table \<Rightarrow> api_outcome \<Rightarrow> auth_env \<Rightarrow> auth_env \<times> thunk_ret" where
  "resetPwd_settle tys = settle_simple tys FPwdReset ''Password changed!'' ''Password change failed''"

definition unsubscribe_settle :: "types_table \<Rightarrow> api_outcome \<Rightarrow> auth_env \<Rightarrow> auth_env \<times> thunk_ret" where
  "unsubscribe_settle tys = settle_simple tys FUnsubscribe ''Unsubscribe successful'' ''Unsubscribe failed''"

text \<open>
  \<open>login\<close>: a response without a truthy \<open>accessToken\<close> is turned into a rejection
  with the payload, which the \<open>.catch\<close> handler reports as a failed login; otherwise
  the token goes to \<open>localStorage\<close> and the auth header before \<open>LOGIN_SUCCESS\<close>.
\<close>

definition login_settle :: "types_table \<Rightarrow> api_outcome \<Rightarrow> auth_env \<Rightarrow> auth_env \<times> thunk_ret" where
  "login_settle tys r e =
     (case r of
        ApiResolves data \<Rightarrow>
          (let payload = with_msg data (ok_msg data ''Login success!'');
               tok = json_get payload ''accessToken'' in
           if \<not> json_truthy tok then catch_fail tys FLogin ''Login failed!'' (Some payload) e
           else let e1 = setApiAuthHeader tok (store_token tok e) in
             case auth_dispatch tys (action_of tys ''LOGIN_SUCCESS'' (Some payload)) e1 of
               Inr e' \<Rightarrow> (e', Fulfills (Some payload))
             | Inl x \<Rightarrow> catch_fail tys FLogin ''Login failed!'' (error_obj x) e1)
      | ApiRejects err \<Rightarrow> catch_fail tys FLogin ''Login failed!'' err e)"

text \<open>
  \<open>getMe\<close>: the user goes to \<open>localStorage\<close> as JSON text (\<open>JSON.stringify(undefined)\<close>
  is \<open>undefined\<close>, stored as the text \<open>undefined\<close>); a failure clears the session
  after \<open>GET_ME_FAIL\<close>. The payload \<open>{user: data}\<close> has no \<open>user\<close> entry when
  \<open>data\<close> is undefined, which reads the same.
\<close>

definition getMe_catch :: "types_table \<Rightarrow> json option \<Rightarrow> auth_env \<Rightarrow> auth_env \<times> thunk_ret" where
  "getMe_catch tys err e =
     (case err_msg err ''Get failed!'' of
        Inl x \<Rightarrow> (e, RejectsErr x)
      | Inr m \<Rightarrow>
          (case auth_dispatch tys (action_of tys ''GET_ME_FAIL'' (Some (with_msg err m))) e of
             Inl x \<Rightarrow> (e, RejectsErr x)
           | Inr e' \<Rightarrow> (clear_session e', Rejects (Some (with_msg err m)))))"

definition getMe_settle ::
  "types_table \<Rightarrow> (json \<Rightarrow> string) \<Rightarrow> api_outcome \<Rightarrow> auth_env \<Rightarrow> auth_env \<times> thunk_ret" where
  "getMe_settle tys stringify r e =
     (case r of
        ApiResolves data \<Rightarrow>
          (let e1 = e\<lparr>storage := (storage e)(''user'' \<mapsto>
                        (case data of None \<Rightarrow> ''undefined'' | Some d \<Rightarrow> stringify d))\<rparr>;
               payload = JObj (case data of None \<Rightarrow> [] | Some d \<Rightarrow> [(''user'', d)]) in
           case auth_dispatch tys (action_of tys ''GET_ME_SUCCESS'' (Some payload)) e1 of
             Inr e' \<Rightarrow> (e', Fulfills data)
           | Inl x \<Rightarrow> getMe_catch tys (error_obj x) e1)
      | ApiRejects err \<Rightarrow> getMe_catch tys err e)"

text \<open>The settle phase of the thunk of each request kind.\<close>

fun settle ::
  "types_table \<Rightarrow> (json \<Rightarrow> string) \<Rightarrow> auth_flag \<Rightarrow> api_outcome \<Rightarrow> auth_env \<Rightarrow> auth_env \<times> thunk_ret" where
  "settle tys stringify FSignup = signup_settle tys"
| "settle tys stringify FLogin = login_settle tys"
| "settle tys stringify FGetMe = getMe_settle tys stringify"
| "settle tys stringify FResend = requestResendVerificationEmail_settle tys"
| "settle tys stringify FVerifyEmail = verifyEmail_settle tys"
| "settle tys stringify FPwdResetRequest = requestPwdReset_settle tys"
| "settle tys stringify FVerifyToken = verifyPwdResetToken_settle tys"
| "settle tys stringify FPwdReset = resetPwd_settle tys"
| "settle tys stringify FUnsubscribe = unsubscribe_settle tys"

subsection \<open>The synchronous thunks\<close>

text \<open>
  \<open>loginWithToken(accessToken, user)\<close>: everything happens before the call returns;
  \<open>JSON.parse(user)\<close> runs after \<open>LOGIN_REQUEST\<close> and the token writes, and its
  \<open>SyntaxError\<close> ends the call there. An undefined \<open>user\<close> is parsed as the text
  \<open>undefined\<close>; an undefined token gives the payload no \<open>accessToken\<close> entry.
\<close>

definition loginWithToken ::
  "types_table \<Rightarrow> (string \<Rightarrow> json option) \<Rightarrow> json option \<Rightarrow> string option \<Rightarrow> auth_env \<Rightarrow>
     auth_env \<times> thunk_ret" where
  "loginWithToken tys parse tok usr e =
     (if isPostingLogin (auth e) then (e, Rejects None)
      else case auth_dispatch tys (action_of tys ''LOGIN_REQUEST'' None) e of
        Inl x \<Rightarrow> (e, Throws x)
      | Inr e1 \<Rightarrow>
          (let e2 = setApiAuthHeader tok (store_token tok e1) in
           case parse (case usr of None \<Rightarrow> ''undefined'' | Some u \<Rightarrow> u) of
             None \<Rightarrow> (e2, Throws (Error ''SyntaxError: JSON.parse''))
           | Some u \<Rightarrow>
               (let payload = JObj ([(''msg'', JStr ''Login with token'')] @
                                    (case tok of None \<Rightarrow> [] | Some t \<Rightarrow> [(''accessToken'', t)]) @
                                    [(''user'', u)]) in
                case auth_dispatch tys (action_of tys ''LOGIN_SUCCESS'' (Some payload)) e2 of
                  Inl x \<Rightarrow> (e2, Throws x)
                | Inr e3 \<Rightarrow> (e3, Fulfills (Some payload)))))"

text \<open>
  \<open>logout()\<close>: the REST call is fired and not awaited (its outcome changes nothing the
  model holds); the session is cleared before \<open>LOGOUT_SUCCESS\<close>.
\<close>

definition logout :: "types_table \<Rightarrow> auth_env \<Rightarrow> auth_env \<times> thunk_ret" where
  "logout tys e =
     (let e1 = clear_session e in
      case auth_dispatch tys (action_of tys ''LOGOUT_SUCCESS'' (Some (JObj [(''msg'', JStr ''Logout success!'')]))) e1 of
        Inl x \<Rightarrow> (e1, Throws x)
      | Inr e2 \<Rightarrow> (e2\<lparr>notices := notices e2 @ [notifier_success (Some (JStr ''You have been logged out.''))],
                       history := history e2 @ [''/'']\<rparr>, Done))"

end
