(* ===== verification/AuthSession.thy ===== *)
theory AuthSession
  imports AuthActions
begin

text \<open>
  The auth flows of a running page as a transition system over the environment of
  \<^verbatim>\<open>src/src/redux/actions/auth.js\<close>. A state is the environment and the list of
  request kinds whose REST call is under way. A step is one thunk's synchronous part
  that starts a call (\<open>thunk_start\<close>), the answer to one call under way (its
  \<open>settle\<close> phase), a \<open>loginWithToken\<close> call or a \<open>logout\<close> call, in any order:
  the browser runs these callbacks one at a time in whatever order the user and the
  network produce. Calls the guard refuses or Redux throws on change nothing and are
  left out. The REST module is axios-based and rejects with error objects, so an
  answer never rejects with \<open>undefined\<close> or \<open>null\<close> (\<open>axios_outcome\<close>).
\<close>

record auth_sys =
  env :: auth_env
  inflight :: "auth_flag list"

definition axios_outcome :: "api_outcome \<Rightarrow> bool" where
  "axios_outcome r \<longleftrightarrow> (case r of ApiRejects v \<Rightarrow> \<not> nullish v | ApiResolves v \<Rightarrow> True)"

inductive auth_step ::
  "types_table \<Rightarrow> (string \<Rightarrow> json option) \<Rightarrow> (json \<Rightarrow> string) \<Rightarrow> auth_sys \<Rightarrow> auth_sys \<Rightarrow> bool"
  for tys parse stringify where
  start:
    "thunk_start tys f (env S) = Inr (e', True) \<Longrightarrow>
     auth_step tys parse stringify S (S\<lparr>env := e', inflight := f # inflight S\<rparr>)"
| respond:
    "f \<in> set (inflight S) \<Longrightarrow> axios_outcome r \<Longrightarrow> settle tys stringify f r (env S) = (e', ret) \<Longrightarrow>
     auth_step tys parse stringify S (S\<lparr>env := e', inflight := remove1 f (inflight S)\<rparr>)"
| with_token:
    "loginWithToken tys parse tok usr (env S) = (e', ret) \<Longrightarrow>
     auth_step tys parse stringify S (S\<lparr>env := e'\<rparr>)"
| logout_call:
    "logout tys (env S) = (e', ret) \<Longrightarrow> auth_step tys parse stringify S (S\<lparr>env := e'\<rparr>)"

text \<open>A page starts with the initial auth state and whatever an earlier visit left in storage.\<close>

definition page_start :: "(string \<rightharpoonup> string) \<Rightarrow> string option \<Rightarrow> auth_sys" where
  "page_start st h =
     \<lparr>env = \<lparr>auth = INITIAL_STATE, storage = st, authHeader = h, notices = [], history = []\<rparr>,
      inflight = []\<rparr>"

inductive auth_reachable ::
  "types_table \<Rightarrow> (string \<Rightarrow> json option) \<Rightarrow> (json \<Rightarrow> string) \<Rightarrow> auth_sys \<Rightarrow> bool"
  for tys parse stringify where
  init: "auth_reachable tys parse stringify (page_start st h)"
| step: "auth_reachable tys parse stringify S \<Longrightarrow> auth_step tys parse stringify S S' \<Longrightarrow>
         auth_reachable tys parse stringify S'"

text \<open>
  The in-flight flags mirror the calls under way: no kind has two calls at once, a
  kind with a call under way has its flag set, and a set flag other than the login
  flag means a call under way.
\<close>

definition auth_inv :: "auth_sys \<Rightarrow> bool" where
  "auth_inv S \<longleftrightarrow>
     distinct (inflight S) \<and> FUnsubscribe \<notin> set (inflight S) \<and>
     (\<forall>f\<in>set (inflight S). flag f (auth (env S))) \<and>
     (\<forall>f. f \<noteq> FLogin \<longrightarrow> flag f (auth (env S)) \<longrightarrow> f \<in> set (inflight S))"

subsection \<open>Dispatch and the in-flight flags\<close>

lemma auth_dispatch_map:
  "auth_dispatch tys a e = map_sum id (\<lambda>s. e\<lparr>auth := s\<rparr>) (redux_dispatch tys (auth e) a)"
  by (simp add: auth_dispatch_def split: sum.split)

lemma dispatch_env_flags:
  assumes "\<And>g. map_sum id (flag g) (auth_reducer (types m) (auth e) (action_of (types m) name p)) = Inr (F g)"
    and "name \<in> set auth_type_names"
  shows "\<exists>s'. auth_dispatch (types m) (action_of (types m) name p) e = Inr (e\<lparr>auth := s'\<rparr>) \<and>
              (\<forall>g. flag g s' = F g)"
proof -
  obtain s' where s': "auth_reducer (types m) (auth e) (action_of (types m) name p) = Inr s'"
    using assms(1) [of FLogin] by auto
  then have "\<forall>g. flag g s' = F g" using assms(1) by (metis map_sum_id_Inr sum.inject(2))
  with s' assms(2) show ?thesis
    by (intro exI [of _ s']) (simp add: auth_dispatch_map redux_dispatch_declared)
qed

lemma err_msg_Inr: "\<not> nullish err \<Longrightarrow> \<exists>v. err_msg err d = Inr v"
  by (simp add: err_msg_def Let_def)

lemma with_msg_not_nullish [simp]: "\<not> nullish (Some (with_msg x m))"
  by (simp add: with_msg_def)

lemma flag_dispatch_request:
  assumes "f \<noteq> FUnsubscribe"
  shows "\<exists>s'. auth_dispatch (types m) (action_of (types m) (request_type f) q) e = Inr (e\<lparr>auth := s'\<rparr>) \<and>
              (\<forall>g. flag g s' = (g = f \<or> flag g (auth e)))"
  using assms flag_transitions [OF assms, of "Some (JObj [])"] flag_types_known [OF assms]
  by (intro dispatch_env_flags) simp_all

lemma flag_dispatch_success:
  assumes "f \<noteq> FUnsubscribe" and "\<not> nullish p"
  shows "\<exists>s'. auth_dispatch (types m) (action_of (types m) (success_type f) p) e = Inr (e\<lparr>auth := s'\<rparr>) \<and>
              (\<forall>g. flag g s' = (g \<noteq> f \<and> flag g (auth e)))"
  using flag_transitions [OF assms] flag_types_known [OF assms(1)]
  by (intro dispatch_env_flags) simp_all

lemma flag_dispatch_fail:
  assumes "f \<noteq> FUnsubscribe" and "\<not> nullish p"
  shows "\<exists>s'. auth_dispatch (types m) (action_of (types m) (fail_type f) p) e = Inr (e\<lparr>auth := s'\<rparr>) \<and>
              (\<forall>g. flag g s' = (g \<noteq> f \<and> flag g (auth e)))"
  using flag_transitions [OF assms] flag_types_known [OF assms(1)]
  by (intro dispatch_env_flags) simp_all

lemma catch_fail_flags:
  assumes "f \<noteq> FUnsubscribe" and "\<not> nullish err"
    and "catch_fail (types m) f d err e = (e', ret)"
  shows "\<forall>g. flag g (auth e') = (g \<noteq> f \<and> flag g (auth e))"
proof -
  obtain v where v: "err_msg err d = Inr v" using err_msg_Inr [OF assms(2)] by blast
  obtain s' where d: "auth_dispatch (types m) (action_of (types m) (fail_type f) (Some (with_msg err v))) e =
      Inr (e\<lparr>auth := s'\<rparr>)" and fl: "\<forall>g. flag g s' = (g \<noteq> f \<and> flag g (auth e))"
    using flag_dispatch_fail [OF assms(1) with_msg_not_nullish] by blast
  from v d assms(3) have "e' = e\<lparr>auth := s'\<rparr>" by (simp add: catch_fail_def)
  with fl show ?thesis by simp
qed

lemma settle_simple_flags:
  assumes "f \<noteq> FUnsubscribe" and "axios_outcome r"
    and "settle_simple (types m) f a b r e = (e', ret)"
  shows "\<forall>g. flag g (auth e') = (g \<noteq> f \<and> flag g (auth e))"
proof (cases r)
  case (ApiResolves data)
  obtain s' where d: "auth_dispatch (types m) (action_of (types m) (success_type f)
        (Some (with_msg data (ok_msg data a)))) e = Inr (e\<lparr>auth := s'\<rparr>)"
      and fl: "\<forall>g. flag g s' = (g \<noteq> f \<and> flag g (auth e))"
    using flag_dispatch_success [OF assms(1) with_msg_not_nullish] by blast
  from ApiResolves d assms(3) have "e' = e\<lparr>auth := s'\<rparr>" by (simp add: settle_simple_def Let_def)
  with fl show ?thesis by simp
next
  case (ApiRejects err)
  with assms(2,3) have "\<not> nullish err" "catch_fail (types m) f b err e = (e', ret)"
    by (simp_all add: settle_simple_def axios_outcome_def)
  then show ?thesis by (rule catch_fail_flags [OF assms(1)])
qed


lemma auth_store_header [simp]:
  "auth (setApiAuthHeader tok e) = auth e" "auth (store_token tok e) = auth e"
  "auth (clear_session e) = auth e"
  by (simp_all add: setApiAuthHeader_def store_token_def clear_session_def)

lemma rejects_flags:
  assumes "f \<noteq> FUnsubscribe" and "axios_outcome (ApiRejects err)"
    and "catch_fail (types m) f d err e = (e', ret)"
  shows "\<forall>g. flag g (auth e') = (g \<noteq> f \<and> flag g (auth e))"
  using assms by (intro catch_fail_flags) (simp_all add: axios_outcome_def)

lemma login_settle_flags:
  assumes "axios_outcome r" and "login_settle (types m) r e = (e', ret)"
  shows "\<forall>g. flag g (auth e') = (g \<noteq> FLogin \<and> flag g (auth e))"
proof (cases r)
  case (ApiResolves data)
  define payload where "payload = with_msg data (ok_msg data ''Login success!'')"
  define tok where "tok = json_get payload ''accessToken''"
  show ?thesis
  proof (cases "json_truthy tok")
    case False
    then have c: "catch_fail (types m) FLogin ''Login failed!'' (Some payload) e = (e', ret)"
      using assms(2) ApiResolves by (simp add: login_settle_def payload_def tok_def Let_def)
    show ?thesis by (rule catch_fail_flags [OF _ _ c]) (simp_all add: payload_def)
  next
    case True
    define e1 where "e1 = setApiAuthHeader tok (store_token tok e)"
    have "\<exists>s'. auth_dispatch (types m) (action_of (types m) (success_type FLogin) (Some payload)) e1 =
                Inr (e1\<lparr>auth := s'\<rparr>) \<and> (\<forall>g. flag g s' = (g \<noteq> FLogin \<and> flag g (auth e1)))"
      by (rule flag_dispatch_success) (simp_all add: payload_def)
    then obtain s' where d: "auth_dispatch (types m) (action_of (types m) ''LOGIN_SUCCESS'' (Some payload)) e1 =
        Inr (e1\<lparr>auth := s'\<rparr>)" and fl: "\<forall>g. flag g s' = (g \<noteq> FLogin \<and> flag g (auth e))"
      by (auto simp: e1_def)
    from d True ApiResolves assms(2) have "e' = e1\<lparr>auth := s'\<rparr>"
      by (simp add: login_settle_def payload_def [symmetric] tok_def [symmetric] e1_def [symmetric] Let_def)
    with fl show ?thesis by simp
  qed
next
  case (ApiRejects err)
  with assms show ?thesis by (intro rejects_flags [of FLogin err]) (simp_all add: login_settle_def)
qed

lemma getMe_catch_flags:
  assumes "\<not> nullish err" and "getMe_catch (types m) err e = (e', ret)"
  shows "\<forall>g. flag g (auth e') = (g \<noteq> FGetMe \<and> flag g (auth e))"
proof -
  obtain v where v: "err_msg err ''Get failed!'' = Inr v" using err_msg_Inr [OF assms(1)] by blast
  have "\<exists>s'. auth_dispatch (types m) (action_of (types m) (fail_type FGetMe) (Some (with_msg err v))) e =
              Inr (e\<lparr>auth := s'\<rparr>) \<and> (\<forall>g. flag g s' = (g \<noteq> FGetMe \<and> flag g (auth e)))"
    by (rule flag_dispatch_fail) simp_all
  then obtain s' where d: "auth_dispatch (types m) (action_of (types m) ''GET_ME_FAIL'' (Some (with_msg err v))) e =
      Inr (e\<lparr>auth := s'\<rparr>)" and fl: "\<forall>g. flag g s' = (g \<noteq> FGetMe \<and> flag g (auth e))"
    by auto
  from v d assms(2) have "e' = clear_session (e\<lparr>auth := s'\<rparr>)" by (simp add: getMe_catch_def)
  with fl show ?thesis by simp
qed

lemma getMe_settle_flags:
  assumes "axios_outcome r" and "getMe_settle (types m) str r e = (e', ret)"
  shows "\<forall>g. flag g (auth e') = (g \<noteq> FGetMe \<and> flag g (auth e))"
proof (cases r)
  case (ApiResolves data)
  define e1 where "e1 = e\<lparr>storage := (storage e)(''user'' \<mapsto> (case data of None \<Rightarrow> ''undefined'' | Some d \<Rightarrow> str d))\<rparr>"
  define payload where "payload = JObj (case data of None \<Rightarrow> [] | Some d \<Rightarrow> [(''user'', d)])"
  have "\<exists>s'. auth_dispatch (types m) (action_of (types m) (success_type FGetMe) (Some payload)) e1 =
              Inr (e1\<lparr>auth := s'\<rparr>) \<and> (\<forall>g. flag g s' = (g \<noteq> FGetMe \<and> flag g (auth e1)))"
    by (rule flag_dispatch_success) (simp_all add: payload_def)
  then obtain s' where d: "auth_dispatch (types m) (action_of (types m) ''GET_ME_SUCCESS'' (Some payload)) e1 =
      Inr (e1\<lparr>auth := s'\<rparr>)" and fl: "\<forall>g. flag g s' = (g \<noteq> FGetMe \<and> flag g (auth e))"
    by (auto simp: e1_def)
  from d ApiResolves assms(2) have "e' = e1\<lparr>auth := s'\<rparr>"
    by (simp add: getMe_settle_def payload_def [symmetric] e1_def [symmetric] Let_def)
  with fl show ?thesis by simp
next
  case (ApiRejects err)
  with assms show ?thesis
    by (intro getMe_catch_flags [of err]) (simp_all add: getMe_settle_def axios_outcome_def)
qed


lemma settle_simple_kinds:
  "f \<noteq> FLogin \<Longrightarrow> f \<noteq> FGetMe \<Longrightarrow> \<exists>a b. settle tys str f = settle_simple tys f a b"
  by (cases f) (auto simp: signup_settle_def requestResendVerificationEmail_settle_def
      verifyEmail_settle_def requestPwdReset_settle_def verifyPwdResetToken_settle_def
      resetPwd_settle_def unsubscribe_settle_def)

lemma settle_flags:
  assumes "f \<noteq> FUnsubscribe" and "axios_outcome r" and "settle (types m) str f r e = (e', ret)"
  shows "\<forall>g. flag g (auth e') = (g \<noteq> f \<and> flag g (auth e))"
proof -
  consider "f = FLogin" | "f = FGetMe" | "f \<noteq> FLogin" "f \<noteq> FGetMe" by blast
  then show ?thesis
  proof cases
    case 1
    with assms(3) have "login_settle (types m) r e = (e', ret)" by simp
    with 1 show ?thesis using login_settle_flags [OF assms(2)] by simp
  next
    case 2
    with assms(3) have "getMe_settle (types m) str r e = (e', ret)" by simp
    with 2 show ?thesis using getMe_settle_flags [OF assms(2)] by simp
  next
    case 3
    then obtain a b where "settle (types m) str f = settle_simple (types m) f a b"
      using settle_simple_kinds by blast
    with assms show ?thesis using settle_simple_flags [OF assms(1,2)] by simp
  qed
qed

lemma unsubscribe_start:
  "thunk_start (types m) FUnsubscribe e =
     (if isPostingUnsubscribe (auth e) then Inr (e, False)
      else Inl (Error ''Actions may not have an undefined type property.''))"
  using types_undefined_unsubscribe [of m]
  by (simp add: thunk_start_def auth_dispatch_def redux_dispatch_def action_of_def)

lemma start_flags:
  assumes "thunk_start (types m) f e = Inr (e', True)"
  shows "f \<noteq> FUnsubscribe \<and> \<not> flag f (auth e) \<and> (\<forall>g. flag g (auth e') = (g = f \<or> flag g (auth e)))"
proof -
  have f: "f \<noteq> FUnsubscribe" using assms unsubscribe_start [of m e] by (auto split: if_splits)
  have nf: "\<not> flag f (auth e)" using assms by (auto simp: thunk_start_def)
  obtain s' where d: "auth_dispatch (types m) (action_of (types m) (request_type f) None) e = Inr (e\<lparr>auth := s'\<rparr>)"
      and fl: "\<forall>g. flag g s' = (g = f \<or> flag g (auth e))"
    using flag_dispatch_request [OF f] by blast
  from assms nf d have "e' = e\<lparr>auth := s'\<rparr>" by (simp add: thunk_start_def)
  with f nf fl show ?thesis by simp
qed

lemma login_success_frame:
  assumes "\<not> nullish p"
  shows "\<exists>s'. auth_dispatch (types m) (action_of (types m) ''LOGIN_SUCCESS'' p) e = Inr (e\<lparr>auth := s'\<rparr>) \<and>
              (\<forall>g. flag g s' = (g \<noteq> FLogin \<and> flag g (auth e)))"
  using flag_dispatch_success [of FLogin p m e] assms by simp

lemma with_token_flags:
  assumes "loginWithToken (types m) parse tok usr e = (e', ret)"
  shows "(isPostingLogin (auth e) \<longrightarrow> e' = e) \<and> (\<forall>g. g \<noteq> FLogin \<longrightarrow> flag g (auth e') = flag g (auth e))"
proof (cases "isPostingLogin (auth e)")
  case True
  with assms show ?thesis by (simp add: loginWithToken_def)
next
  case False
  obtain s1 where d1: "auth_dispatch (types m) (action_of (types m) ''LOGIN_REQUEST'' None) e = Inr (e\<lparr>auth := s1\<rparr>)"
      and fl1: "\<forall>g. flag g s1 = (g = FLogin \<or> flag g (auth e))"
    using flag_dispatch_request [of FLogin m None e] by auto
  define e2 where "e2 = setApiAuthHeader tok (store_token tok (e\<lparr>auth := s1\<rparr>))"
  have a2: "auth e2 = s1" by (simp add: e2_def)
  show ?thesis
  proof (cases "parse (case usr of None \<Rightarrow> ''undefined'' | Some u \<Rightarrow> u)")
    case None
    with assms False d1 have "e' = e2" by (simp add: loginWithToken_def e2_def Let_def)
    with False a2 fl1 show ?thesis by simp
  next
    case (Some u)
    define payload where "payload = JObj ((''msg'', JStr ''Login with token'') #
        (case tok of None \<Rightarrow> [] | Some t \<Rightarrow> [(''accessToken'', t)]) @ [(''user'', u)])"
    obtain s3 where d3: "auth_dispatch (types m) (action_of (types m) ''LOGIN_SUCCESS'' (Some payload)) e2 =
        Inr (e2\<lparr>auth := s3\<rparr>)" and fl3: "\<forall>g. flag g s3 = (g \<noteq> FLogin \<and> flag g (auth e2))"
      using login_success_frame [of "Some payload" m e2] by (auto simp: payload_def)
    from assms False d1 Some d3 have "e' = e2\<lparr>auth := s3\<rparr>"
      by (simp add: loginWithToken_def e2_def [symmetric] payload_def [symmetric] Let_def)
    with False a2 fl1 fl3 show ?thesis by simp
  qed
qed

lemma logout_eq:
  "logout (types m) e =
     (let e1 = clear_session e in
      (e1\<lparr>auth := (auth e)\<lparr>user := Some JNull, accessToken := Some (JStr []),
                             msg := Some (JStr ''Logout success!'')\<rparr>,
          notices := notices e1 @ [notifier_success (Some (JStr ''You have been logged out.''))], history := history e1 @ [''/'']\<rparr>, Done))"
  using auth_login_types_known(3)
  by (simp add: logout_def auth_dispatch_map redux_dispatch_declared auth_reducer_known auth_cases_def Let_def)

lemma logout_flags:
  "logout (types m) e = (e', ret) \<Longrightarrow> flag g (auth e') = flag g (auth e)"
  by (cases g) (auto simp: logout_eq Let_def)


subsection \<open>The invariant, one lemma per kind of step\<close>

lemma no_flag_initial: "\<not> flag f INITIAL_STATE"
  by (cases f) (simp_all add: INITIAL_STATE_def)

lemma auth_inv_init: "auth_inv (page_start st h)"
  by (simp add: auth_inv_def page_start_def no_flag_initial)

lemma inv_start:
  assumes "auth_inv S" and "thunk_start (types m) f (env S) = Inr (e', True)"
  shows "auth_inv (S\<lparr>env := e', inflight := f # inflight S\<rparr>)"
proof -
  have f: "f \<noteq> FUnsubscribe" and nf: "\<not> flag f (auth (env S))"
    and fl: "\<And>g. flag g (auth e') = (g = f \<or> flag g (auth (env S)))"
    using start_flags [OF assms(2)] by blast+
  have d: "distinct (inflight S)" and u: "FUnsubscribe \<notin> set (inflight S)"
    and a: "\<forall>g\<in>set (inflight S). flag g (auth (env S))"
    and b: "\<forall>g. g \<noteq> FLogin \<longrightarrow> flag g (auth (env S)) \<longrightarrow> g \<in> set (inflight S)"
    using assms(1) by (simp_all add: auth_inv_def)
  have "f \<notin> set (inflight S)" using a nf by blast
  then have "distinct (f # inflight S)" "FUnsubscribe \<notin> set (f # inflight S)" using d f u by simp_all
  moreover have "\<forall>g\<in>set (f # inflight S). flag g (auth e')" using a fl by simp
  moreover have "\<forall>g. g \<noteq> FLogin \<longrightarrow> flag g (auth e') \<longrightarrow> g \<in> set (f # inflight S)" using b fl by simp
  ultimately show ?thesis by (simp add: auth_inv_def)
qed

lemma inv_respond:
  assumes "auth_inv S" and "f \<in> set (inflight S)" and "axios_outcome r"
    and "settle (types m) str f r (env S) = (e', ret)"
  shows "auth_inv (S\<lparr>env := e', inflight := remove1 f (inflight S)\<rparr>)"
proof -
  have d: "distinct (inflight S)" and u: "FUnsubscribe \<notin> set (inflight S)"
    and a: "\<forall>g\<in>set (inflight S). flag g (auth (env S))"
    and b: "\<forall>g. g \<noteq> FLogin \<longrightarrow> flag g (auth (env S)) \<longrightarrow> g \<in> set (inflight S)"
    using assms(1) by (simp_all add: auth_inv_def)
  have f: "f \<noteq> FUnsubscribe" using assms(2) u by blast
  have fl: "\<And>g. flag g (auth e') = (g \<noteq> f \<and> flag g (auth (env S)))"
    using settle_flags [OF f assms(3,4)] by blast
  have r: "set (remove1 f (inflight S)) = set (inflight S) - {f}" using d by simp
  have "distinct (remove1 f (inflight S))" "FUnsubscribe \<notin> set (remove1 f (inflight S))"
    using d u r by simp_all
  moreover have "\<forall>g\<in>set (remove1 f (inflight S)). flag g (auth e')" using a fl r by simp
  moreover have "\<forall>g. g \<noteq> FLogin \<longrightarrow> flag g (auth e') \<longrightarrow> g \<in> set (remove1 f (inflight S))"
    using b fl r by simp
  ultimately show ?thesis by (simp add: auth_inv_def)
qed

lemma inv_with_token:
  assumes "auth_inv S" and "loginWithToken (types m) parse tok usr (env S) = (e', ret)"
  shows "auth_inv (S\<lparr>env := e'\<rparr>)"
proof (cases "isPostingLogin (auth (env S))")
  case True
  with with_token_flags [OF assms(2)] assms(1) show ?thesis by simp
next
  case False
  have d: "distinct (inflight S)" and u: "FUnsubscribe \<notin> set (inflight S)"
    and a: "\<forall>g\<in>set (inflight S). flag g (auth (env S))"
    and b: "\<forall>g. g \<noteq> FLogin \<longrightarrow> flag g (auth (env S)) \<longrightarrow> g \<in> set (inflight S)"
    using assms(1) by (simp_all add: auth_inv_def)
  have nl: "FLogin \<notin> set (inflight S)" using a False by auto
  have w: "\<And>g. g \<noteq> FLogin \<Longrightarrow> flag g (auth e') = flag g (auth (env S))"
    using with_token_flags [OF assms(2)] by blast
  have a': "\<forall>g\<in>set (inflight S). flag g (auth e')" using a w nl by metis
  have b': "\<forall>g. g \<noteq> FLogin \<longrightarrow> flag g (auth e') \<longrightarrow> g \<in> set (inflight S)" using b w by metis
  have sel: "env (S\<lparr>env := e'\<rparr>) = e'" "inflight (S\<lparr>env := e'\<rparr>) = inflight S" by simp_all
  show ?thesis unfolding auth_inv_def sel using d u a' b' by blast
qed

lemma inv_logout:
  assumes "auth_inv S" and "logout (types m) (env S) = (e', ret)"
  shows "auth_inv (S\<lparr>env := e'\<rparr>)"
proof -
  have w: "\<And>g. flag g (auth e') = flag g (auth (env S))" using logout_flags [OF assms(2)] .
  have sel: "env (S\<lparr>env := e'\<rparr>) = e'" "inflight (S\<lparr>env := e'\<rparr>) = inflight S" by simp_all
  show ?thesis using assms(1) unfolding auth_inv_def sel w .
qed

lemma auth_step_inv:
  "auth_step (types m) parse str S S' \<Longrightarrow> auth_inv S \<Longrightarrow> auth_inv S'"
  by (induction rule: auth_step.induct) (auto intro: inv_start inv_respond inv_with_token inv_logout)

lemma auth_reachable_inv: "auth_reachable (types m) parse str S \<Longrightarrow> auth_inv S"
  by (induction rule: auth_reachable.induct) (auto intro: auth_inv_init auth_step_inv)


subsection \<open>Evaluating the thunks\<close>

lemma auth_dispatch_known:
  "name \<in> set auth_type_names \<Longrightarrow>
     auth_dispatch (types m) (action_of (types m) name p) e =
       map_sum id (\<lambda>s. e\<lparr>auth := s\<rparr>)
         (case map_of auth_cases name of
            None \<Rightarrow> Inr (auth e)
          | Some c \<Rightarrow> if reads_payload c \<and> nullish p then Inl type_error
                      else Inr (auth_case_body c (auth e) p))"
  by (simp add: auth_dispatch_map redux_dispatch_declared auth_reducer_known)

lemma json_get_with_msg [simp]:
  "json_get (with_msg x m) ''msg'' = Some m"
  "k \<noteq> ''msg'' \<Longrightarrow> json_get (with_msg x m) k = js_get x k"
proof -
  have "map_of (spread_props x) k = js_get x k" for k
    by (cases x rule: spread_props.cases) (simp_all add: js_get_def)
  then show "json_get (with_msg x m) ''msg'' = Some m"
    "k \<noteq> ''msg'' \<Longrightarrow> json_get (with_msg x m) k = js_get x k"
    by (simp_all add: with_msg_def)
qed

lemma types_known_login [simp]:
  "''LOGIN_REQUEST'' \<in> set auth_type_names" "''LOGIN_SUCCESS'' \<in> set auth_type_names"
  "''LOGIN_FAIL'' \<in> set auth_type_names" "''GET_ME_FAIL'' \<in> set auth_type_names"
  "''GET_ME_SUCCESS'' \<in> set auth_type_names" "''SIGNUP_REQUEST'' \<in> set auth_type_names"
  by (simp_all add: auth_type_names_def)


subsection \<open>Properties of the flows\<close>

lemma stuck_step:
  assumes "auth_reachable (types m) parse str S" and "auth_step (types m) parse str S S'"
    and "isPostingLogin (auth (env S))" and "FLogin \<notin> set (inflight S)"
  shows "isPostingLogin (auth (env S')) \<and> FLogin \<notin> set (inflight S')"
  using assms(2,1,3,4)
proof (cases rule: auth_step.cases)
  case (start f e')
  note st = start_flags [OF start(2)]
  then have "f \<noteq> FLogin" using assms(3) by auto
  moreover have "flag FLogin (auth e') = (FLogin = f \<or> flag FLogin (auth (env S)))" using st by blast
  ultimately show ?thesis using start(1) assms(3,4) by simp
next
  case (respond f r e' ret)
  have "FUnsubscribe \<notin> set (inflight S)" using auth_reachable_inv [OF assms(1)] by (simp add: auth_inv_def)
  with respond assms(4) have f: "f \<noteq> FUnsubscribe" "f \<noteq> FLogin" by auto
  moreover have "flag FLogin (auth e') = (FLogin \<noteq> f \<and> flag FLogin (auth (env S)))"
    using settle_flags [OF f(1) respond(3,4)] by blast
  moreover have "set (remove1 f (inflight S)) \<subseteq> set (inflight S)" by (rule set_remove1_subset)
  ultimately show ?thesis using respond(1) assms(3,4) by auto
next
  case (with_token tok usr e' ret)
  with with_token_flags [of m parse tok usr "env S" e' ret] assms(3,4) show ?thesis by simp
next
  case (logout_call e' ret)
  with logout_flags [of m "env S" e' ret FLogin] assms(3,4) show ?thesis by simp
qed

lemma stuck_star:
  assumes "(auth_step (types m) parse str)\<^sup>*\<^sup>* S S'" and "auth_reachable (types m) parse str S"
    and "isPostingLogin (auth (env S))" and "FLogin \<notin> set (inflight S)"
  shows "auth_reachable (types m) parse str S' \<and> isPostingLogin (auth (env S')) \<and> FLogin \<notin> set (inflight S')"
  using assms
proof (induction rule: rtranclp_induct)
  case (step y z)
  then show ?case using stuck_step [of m parse str y z] auth_reachable.step by blast
qed simp

lemma login_request_start:
  "\<exists>s'. auth_dispatch (types m) (action_of (types m) ''LOGIN_REQUEST'' None) e = Inr (e\<lparr>auth := s'\<rparr>) \<and>
        (\<forall>g. flag g s' = (g = FLogin \<or> flag g (auth e)))"
  using flag_dispatch_request [of FLogin m None e] by simp

lemma with_token_parse_error:
  assumes "\<not> isPostingLogin (auth e)" and "parse u = None"
  shows "\<exists>e'. loginWithToken (types m) parse tok (Some u) e = (e', Throws (Error ''SyntaxError: JSON.parse'')) \<and>
              isPostingLogin (auth e')"
proof -
  obtain s' where d: "auth_dispatch (types m) (action_of (types m) ''LOGIN_REQUEST'' None) e = Inr (e\<lparr>auth := s'\<rparr>)"
      and fl: "\<forall>g. flag g s' = (g = FLogin \<or> flag g (auth e))"
    using login_request_start by blast
  have "isPostingLogin s'" using fl [rule_format, of FLogin] by simp
  with assms d show ?thesis by (simp add: loginWithToken_def Let_def)
qed

lemma with_token_stuck_state:
  assumes "parse u = None"
  shows "\<exists>S. auth_reachable (types m) parse str S \<and> isPostingLogin (auth (env S)) \<and> FLogin \<notin> set (inflight S)"
proof -
  let ?S0 = "page_start Map.empty None"
  have "\<not> isPostingLogin (auth (env ?S0))" by (simp add: page_start_def INITIAL_STATE_def)
  then obtain e' where l: "loginWithToken (types m) parse None (Some u) (env ?S0) =
      (e', Throws (Error ''SyntaxError: JSON.parse''))" and p: "isPostingLogin (auth e')"
    using with_token_parse_error [of "env ?S0" parse u m None] assms by blast
  have r: "auth_reachable (types m) parse str (?S0\<lparr>env := e'\<rparr>)"
    using auth_reachable.step [OF auth_reachable.init auth_step.with_token [OF l]] .
  have "FLogin \<notin> set (inflight (?S0\<lparr>env := e'\<rparr>))" by (simp add: page_start_def)
  with r p show ?thesis by auto
qed

text \<open>
  C6: in every reachable state of the auth flows no request kind has two REST calls
  under way, the unsubscribe call is never under way, a kind with a call under way
  shows its in-flight flag, and every in-flight flag other than the login flag belongs
  to a call under way.
\<close>

theorem auth_session_invariant:
  assumes "auth_reachable (types m) parse str S"
  shows "distinct (inflight S) \<and> FUnsubscribe \<notin> set (inflight S) \<and>
         (\<forall>f\<in>set (inflight S). flag f (auth (env S))) \<and>
         (\<forall>f. f \<noteq> FLogin \<longrightarrow> flag f (auth (env S)) \<longrightarrow> f \<in> set (inflight S))"
  using auth_reachable_inv [OF assms] unfolding auth_inv_def .

lemma auth_session_invariant_witness:
  "distinct (inflight (page_start Map.empty None)) \<and> FUnsubscribe \<notin> set (inflight (page_start Map.empty None))"
  using auth_session_invariant [OF auth_reachable.init [of "types Development" "\<lambda>_. None" "\<lambda>_. []" Map.empty None]]
  by simp

text \<open>
  C7: while a request of some kind is under way, calling its thunk again is refused by
  the guard with \<open>Promise.reject()\<close> and changes nothing.
\<close>

theorem second_request_refused:
  assumes "auth_reachable (types m) parse str S" and "f \<in> set (inflight S)"
  shows "thunk_start (types m) f (env S) = Inr (env S, False)"
proof -
  have "flag f (auth (env S))" using auth_reachable_inv [OF assms(1)] assms(2) by (simp add: auth_inv_def)
  then show ?thesis by (simp add: thunk_start_def)
qed

lemma second_request_refused_witness:
  "\<exists>S. auth_reachable (types Development) (\<lambda>_. None) (\<lambda>_. []) S \<and> inflight S = [FSignup] \<and>
       thunk_start (types Development) FSignup (env S) = Inr (env S, False)"
proof -
  let ?S0 = "page_start Map.empty None"
  obtain s' where d: "auth_dispatch (types Development) (action_of (types Development) (request_type FSignup) None) (env ?S0) =
      Inr ((env ?S0)\<lparr>auth := s'\<rparr>)" and fl: "\<forall>g. flag g s' = (g = FSignup \<or> flag g (auth (env ?S0)))"
    using flag_dispatch_request [of FSignup Development None "env ?S0"] by auto
  have "thunk_start (types Development) FSignup (env ?S0) = Inr ((env ?S0)\<lparr>auth := s'\<rparr>, True)"
    using d by (simp add: thunk_start_def page_start_def no_flag_initial)
  then have r: "auth_reachable (types Development) (\<lambda>_. None) (\<lambda>_. []) (?S0\<lparr>env := (env ?S0)\<lparr>auth := s'\<rparr>, inflight := [FSignup]\<rparr>)"
    using auth_reachable.step [OF auth_reachable.init auth_step.start] by (simp add: page_start_def)
  show ?thesis using second_request_refused [OF r] r by (intro exI) auto
qed

text \<open>
  C17: \<open>loginWithToken\<close> with a \<open>user\<close> text that \<open>JSON.parse\<close> rejects dispatches
  \<open>LOGIN_REQUEST\<close> and then throws, leaving \<open>isPostingLogin\<close> set with no call under
  way; from there no interleaving of the flows ever lowers it, and every later
  \<open>login\<close> and \<open>loginWithToken\<close> is refused by its guard.
\<close>

theorem login_with_token_deadlock:
  assumes "parse u = None"
  shows "\<exists>S. auth_reachable (types m) parse str S \<and>
            (\<forall>S'. (auth_step (types m) parse str)\<^sup>*\<^sup>* S S' \<longrightarrow>
                  isPostingLogin (auth (env S')) \<and> FLogin \<notin> set (inflight S') \<and>
                  thunk_start (types m) FLogin (env S') = Inr (env S', False) \<and>
                  loginWithToken (types m) parse tok usr (env S') = (env S', Rejects None))"
proof -
  obtain S where r: "auth_reachable (types m) parse str S" and p: "isPostingLogin (auth (env S))"
    and n: "FLogin \<notin> set (inflight S)"
    using with_token_stuck_state [where parse = parse and u = u, OF assms] by blast
  show ?thesis
  proof (rule exI [of _ S], rule conjI [OF r], intro allI impI)
    fix S' assume "(auth_step (types m) parse str)\<^sup>*\<^sup>* S S'"
    from stuck_star [OF this r p n] have l: "isPostingLogin (auth (env S'))" and f: "FLogin \<notin> set (inflight S')"
      by auto
    from l f show "isPostingLogin (auth (env S')) \<and> FLogin \<notin> set (inflight S') \<and>
        thunk_start (types m) FLogin (env S') = Inr (env S', False) \<and>
        loginWithToken (types m) parse tok usr (env S') = (env S', Rejects None)"
      by (simp add: thunk_start_def loginWithToken_def)
  qed
qed

lemma login_with_token_deadlock_witness:
  "\<exists>S. auth_reachable (types Development) (\<lambda>_. None) (\<lambda>_. []) S \<and> isPostingLogin (auth (env S)) \<and>
       thunk_start (types Development) FLogin (env S) = Inr (env S, False)"
  using login_with_token_deadlock [of "\<lambda>_. None" "''{''" Development "\<lambda>_. []" None None] by blast


text \<open>
  A login answer without a truthy \<open>accessToken\<close> (and without a \<open>response\<close>
  entry) is reported as \<open>LOGIN_FAIL\<close> with the message \<open>Login failed!\<close>: the
  server's own \<open>msg\<close> is dropped, the token is cleared, and neither \<open>localStorage\<close>
  nor the auth header is touched.
\<close>

theorem login_without_token_fails:
  assumes "\<not> json_truthy (js_get data ''accessToken'')" and "\<not> json_truthy (js_get data ''response'')"
  shows "login_settle (types m) (ApiResolves data) e =
           (e\<lparr>auth := (auth e)\<lparr>isPostingLogin := False, accessToken := Some (JStr []),
                                 msg := Some (JStr ''Login failed!'')\<rparr>\<rparr>,
            Rejects (Some (with_msg (Some (with_msg data (ok_msg data ''Login success!'')))
                                    (JStr ''Login failed!''))))"
  using assms
  by (simp add: login_settle_def catch_fail_def err_msg_def js_get_def [of "Some _"] auth_dispatch_known
                auth_cases_def Let_def split: option.split)

lemma login_without_token_fails_witness:
  "msg (auth (fst (login_settle (types Development)
      (ApiResolves (Some (JObj [(''msg'', JStr ''Wrong password'')]))) (env (page_start Map.empty None))))) =
   Some (JStr ''Login failed!'')"
  using login_without_token_fails [of "Some (JObj [(''msg'', JStr ''Wrong password'')])" Development
      "env (page_start Map.empty None)"]
  by simp

text \<open>
  When \<open>getMe\<close> fails with an error object, the thunk reports \<open>GET_ME_FAIL\<close>,
  forgets the user, lowers its flag, empties \<open>localStorage\<close> and drops the auth header,
  and its promise rejects with the failure payload.
\<close>

theorem getMe_failure_clears_session:
  assumes "\<not> nullish err" and "getMe_settle (types m) str (ApiRejects err) e = (e', r)"
  shows "storage e' = Map.empty \<and> authHeader e' = None \<and> user (auth e') = Some JNull \<and>
         \<not> isFetchingMe (auth e') \<and> (\<exists>v. r = Rejects (Some v))"
proof -
  obtain v where v: "err_msg err ''Get failed!'' = Inr v" using err_msg_Inr [OF assms(1)] by blast
  with assms(2) show ?thesis
    by (auto simp: getMe_settle_def getMe_catch_def auth_dispatch_known auth_cases_def
                   clear_session_def setApiAuthHeader_def)
qed

lemma getMe_failure_clears_session_witness:
  "storage (fst (getMe_settle (types Development) (\<lambda>_. []) (ApiRejects (Some (JObj [])))
      (env (page_start [''accessToken'' \<mapsto> ''t''] (Some ''t''))))) = Map.empty"
proof -
  let ?x = "getMe_settle (types Development) (\<lambda>_. []) (ApiRejects (Some (JObj [])))
      (env (page_start [''accessToken'' \<mapsto> ''t''] (Some ''t'')))"
  have x: "?x = (fst ?x, snd ?x)" by (rule prod.collapse [symmetric])
  have "\<not> nullish (Some (JObj []))" by simp
  from getMe_failure_clears_session [OF this x] show ?thesis by (rule conjunct1)
qed

text \<open>
  In every reachable state of the flows, calling \<open>unsubscribe\<close> throws: its
  \<open>POST_UNSUBSCRIBE_REQUEST\<close> action has an undefined type, which Redux refuses, and
  the guard never stops it first because the unsubscribe flag is never set.
\<close>

theorem unsubscribe_always_throws:
  assumes "auth_reachable (types m) parse str S"
  shows "thunk_start (types m) FUnsubscribe (env S) =
           Inl (Error ''Actions may not have an undefined type property.'')"
proof -
  have "\<not> isPostingUnsubscribe (auth (env S))"
    using auth_reachable_inv [OF assms] by (auto simp: auth_inv_def)
  then show ?thesis by (simp add: unsubscribe_start)
qed

lemma unsubscribe_always_throws_witness:
  "thunk_start (types (Production 500)) FUnsubscribe (env (page_start Map.empty None)) =
     Inl (Error ''Actions may not have an undefined type property.'')"
  using unsubscribe_always_throws [OF auth_reachable.init [of "types (Production 500)" "\<lambda>_. None" "\<lambda>_. []"]] .


lemma login_answer_writes_token:
  assumes "t \<noteq> []"
  shows "\<exists>e' ret. settle (types m) str FLogin (ApiResolves (Some (JObj [(''accessToken'', JStr t)]))) e = (e', ret) \<and>
           authHeader e' = Some t \<and> storage e' ''accessToken'' = Some t"
proof -
  define data where "data = Some (JObj [(''accessToken'', JStr t)])"
  define payload where "payload = with_msg data (ok_msg data ''Login success!'')"
  define e3 where "e3 = setApiAuthHeader (Some (JStr t)) (store_token (Some (JStr t)) e)"
  obtain s3 where d3: "auth_dispatch (types m) (action_of (types m) ''LOGIN_SUCCESS'' (Some payload)) e3 =
      Inr (e3\<lparr>auth := s3\<rparr>)"
    using login_success_frame [of "Some payload" m e3] by (auto simp: payload_def)
  have "json_get payload ''accessToken'' = Some (JStr t)" by (simp add: payload_def data_def)
  then have "settle (types m) str FLogin (ApiResolves data) e = (e3\<lparr>auth := s3\<rparr>, Fulfills (Some payload))"
    using d3 assms by (simp add: login_settle_def payload_def [symmetric] e3_def [symmetric] Let_def)
  moreover have "authHeader e3 = Some t" "storage e3 ''accessToken'' = Some t"
    using assms by (simp_all add: e3_def setApiAuthHeader_def store_token_def js_String_opt_def)
  ultimately show ?thesis by (simp add: data_def)
qed

text \<open>
  C18: a login answer that arrives after a logout still installs its token: with a
  login call under way, \<open>logout\<close> empties \<open>localStorage\<close>, drops the auth header and
  navigates to \<open>/\<close>, and the late answer then writes the token back into both.
\<close>

theorem stale_login_after_logout:
  "\<exists>S1 S2 S3. auth_step (types m) parse str (page_start st h) S1 \<and> auth_step (types m) parse str S1 S2 \<and>
      auth_step (types m) parse str S2 S3 \<and>
      inflight S1 = [FLogin] \<and> inflight S2 = [FLogin] \<and> history (env S2) = [''/''] \<and>
      storage (env S2) = Map.empty \<and> authHeader (env S2) = None \<and>
      inflight S3 = [] \<and> authHeader (env S3) = Some ''tok'' \<and> storage (env S3) ''accessToken'' = Some ''tok''"
proof -
  let ?S0 = "page_start st h"
  obtain s1 where d1: "auth_dispatch (types m) (action_of (types m) ''LOGIN_REQUEST'' None) (env ?S0) =
      Inr ((env ?S0)\<lparr>auth := s1\<rparr>)"
    using login_request_start by blast
  define S1 where "S1 = ?S0\<lparr>env := (env ?S0)\<lparr>auth := s1\<rparr>, inflight := [FLogin]\<rparr>"
  have step1: "auth_step (types m) parse str ?S0 S1"
    using auth_step.start [of "types m" FLogin ?S0] d1
    by (simp add: S1_def thunk_start_def page_start_def INITIAL_STATE_def)
  define S2 where "S2 = S1\<lparr>env := fst (logout (types m) (env S1))\<rparr>"
  have step2: "auth_step (types m) parse str S1 S2"
    using auth_step.logout_call [of "types m" S1 _ Done parse str] by (simp add: S2_def logout_eq Let_def)
  obtain e3 ret where e3: "settle (types m) str FLogin (ApiResolves (Some (JObj [(''accessToken'', JStr ''tok'')]))) (env S2) = (e3, ret)"
      "authHeader e3 = Some ''tok''" "storage e3 ''accessToken'' = Some ''tok''"
    using login_answer_writes_token [of "''tok''"] by blast
  have step3: "auth_step (types m) parse str S2 (S2\<lparr>env := e3, inflight := []\<rparr>)"
    using auth_step.respond [OF _ _ e3(1)] by (simp add: S2_def S1_def axios_outcome_def)
  show ?thesis
    using step1 step2 step3 e3(2,3)
    by (intro exI [of _ S1] exI [of _ S2] exI [of _ "S2\<lparr>env := e3, inflight := []\<rparr>"])
       (simp add: S2_def S1_def logout_eq Let_def page_start_def clear_session_def setApiAuthHeader_def)
qed

end
