(* ===== verification/SupplyChainEditor.thy ===== *)
theory SupplyChainEditor
  imports ContractCalls SubstrateState
begin

text \<open>
  Model of \<^verbatim>\<open>src/src/components/SupplyChainEditor/index.js\<close>. The component's
  \<open>useState\<close> hooks are the record \<open>sc_editor\<close>; each handler is a function on it,
  with the JavaScript exceptions of spreading or splicing a value that is not an array
  as \<open>Inl\<close>. The two asynchronous handlers, \<open>getSupplyChainOnContractReady\<close> (run by
  the effect and by the Reset button) and \<open>onSaveSupplyChain\<close>, are split at their
  \<open>await\<close>: the part before it starts a call, the part after it runs when the call's
  promise settles. \<open>sc_step\<close> interleaves the user's handlers with the settlement of
  the calls under way, in any order; a promise that never settles never resumes its
  handler.
\<close>

record sc_editor =
  supplyChainData :: json
  isEdited :: bool
  isEditorLoading :: bool
  isAddModalOpen :: bool
  addModalData :: json

definition sc_init :: sc_editor where
  "sc_init =
     \<lparr>supplyChainData = JArr [], isEdited = False, isEditorLoading = False, isAddModalOpen = False,
      addModalData = JObj [(''name'', JStr []), (''writer'', JStr [])]\<rparr>"

subsection \<open>Handlers\<close>

text \<open>\<open>{name: '', writer: accountAddress}\<close>; an undefined address leaves no \<open>writer\<close> entry.\<close>

definition onOpenAddModal :: "string option \<Rightarrow> sc_editor \<Rightarrow> sc_editor" where
  "onOpenAddModal acct s =
     s\<lparr>addModalData := JObj ((''name'', JStr []) #
                             (case acct of None \<Rightarrow> [] | Some a \<Rightarrow> [(''writer'', JStr a)])),
       isAddModalOpen := True\<rparr>"

text \<open>\<open>{...addModalData, [field]: target.value}\<close>\<close>

definition onChangeAddModalData :: "string \<Rightarrow> string \<Rightarrow> sc_editor \<Rightarrow> sc_editor" where
  "onChangeAddModalData field v s =
     s\<lparr>addModalData := JObj ((field, JStr v) # spread_props (Some (addModalData s)))\<rparr>"

text \<open>\<open>[...supplyChainData, addModalData]\<close>\<close>

definition onAddNode :: "sc_editor \<Rightarrow> js_error + sc_editor" where
  "onAddNode s =
     (case js_iter (supplyChainData s) of
        None \<Rightarrow> Inl iter_error
      | Some xs \<Rightarrow> Inr (s\<lparr>supplyChainData := JArr (xs @ [addModalData s]), isEdited := True,
                           isAddModalOpen := False\<rparr>))"

text \<open>
  \<open>setSupplyChainData(supplyChainData.splice(id, 1))\<close>: the state becomes the array
  \<open>splice\<close> returns, the removed elements. Only arrays have \<open>splice\<close>.
\<close>

definition onRemoveNode :: "nat \<Rightarrow> sc_editor \<Rightarrow> js_error + sc_editor" where
  "onRemoveNode i s =
     (case supplyChainData s of
        JArr xs \<Rightarrow> Inr (s\<lparr>supplyChainData := JArr (fst (js_splice xs (int i) 1))\<rparr>)
      | _ \<Rightarrow> Inl (Error ''TypeError: supplyChainData.splice is not a function''))"

text \<open>
  \<open>getSupplyChainOnContractReady\<close>: nothing unless the contract is \<open>READY\<close>; then the
  loading flag is raised and \<open>getSupplyChain()\<close> is awaited. Its answer replaces the
  data (a rejection empties it) and clears both flags.
\<close>

definition fetch_start :: "status option \<Rightarrow> sc_editor \<Rightarrow> sc_editor \<times> bool" where
  "fetch_start tcs s =
     (if tcs = Some READY then (s\<lparr>isEditorLoading := True\<rparr>, True) else (s, False))"

definition fetch_done :: "json promise \<Rightarrow> sc_editor \<Rightarrow> sc_editor" where
  "fetch_done p s =
     (case p of
        Pending \<Rightarrow> s
      | Fulfilled d \<Rightarrow> s\<lparr>isEdited := False, supplyChainData := d, isEditorLoading := False\<rparr>
      | Rejected e \<Rightarrow> s\<lparr>isEdited := False, supplyChainData := JArr [], isEditorLoading := False\<rparr>)"

text \<open>
  \<open>onSaveSupplyChain\<close>: nothing unless edited; then the loading flag is raised and
  \<open>updateSupplyChain(supplyChainData)\<close> is awaited with the data of that moment. Success
  clears the edited flag; both outcomes clear the loading flag.
\<close>

definition save_start :: "sc_editor \<Rightarrow> sc_editor \<times> bool" where
  "save_start s = (if \<not> isEdited s then (s, False) else (s\<lparr>isEditorLoading := True\<rparr>, True))"

definition save_done :: "bool promise \<Rightarrow> sc_editor \<Rightarrow> sc_editor" where
  "save_done p s =
     (case p of
        Pending \<Rightarrow> s
      | Fulfilled b \<Rightarrow> s\<lparr>isEdited := False, isEditorLoading := False\<rparr>
      | Rejected e \<Rightarrow> s\<lparr>isEditorLoading := False\<rparr>)"

subsection \<open>The component over time\<close>

datatype sc_call = FetchCall | SaveCall json

record sc_world =
  ed :: sc_editor
  calls :: "sc_call list"

inductive sc_step :: "status option \<Rightarrow> string option \<Rightarrow> sc_world \<Rightarrow> sc_world \<Rightarrow> bool"
  for tcs :: "status option" and acct :: "string option" where
  fetch:
    "fetch_start tcs (ed w) = (s', True) \<Longrightarrow>
     sc_step tcs acct w (w\<lparr>ed := s', calls := FetchCall # calls w\<rparr>)"
| fetched:
    "FetchCall \<in> set (calls w) \<Longrightarrow> p \<noteq> Pending \<Longrightarrow>
     sc_step tcs acct w (w\<lparr>ed := fetch_done p (ed w), calls := remove1 FetchCall (calls w)\<rparr>)"
| open_modal: "sc_step tcs acct w (w\<lparr>ed := onOpenAddModal acct (ed w)\<rparr>)"
| change: "sc_step tcs acct w (w\<lparr>ed := onChangeAddModalData field v (ed w)\<rparr>)"
| close_modal: "sc_step tcs acct w (w\<lparr>ed := (ed w)\<lparr>isAddModalOpen := False\<rparr>\<rparr>)"
| add: "onAddNode (ed w) = Inr s' \<Longrightarrow> sc_step tcs acct w (w\<lparr>ed := s'\<rparr>)"
| remove: "onRemoveNode i (ed w) = Inr s' \<Longrightarrow> sc_step tcs acct w (w\<lparr>ed := s'\<rparr>)"
| save:
    "save_start (ed w) = (s', True) \<Longrightarrow>
     sc_step tcs acct w (w\<lparr>ed := s', calls := SaveCall (supplyChainData (ed w)) # calls w\<rparr>)"
| saved:
    "SaveCall d \<in> set (calls w) \<Longrightarrow> p \<noteq> Pending \<Longrightarrow>
     sc_step tcs acct w (w\<lparr>ed := save_done p (ed w), calls := remove1 (SaveCall d) (calls w)\<rparr>)"

inductive sc_reachable :: "status option \<Rightarrow> string option \<Rightarrow> sc_world \<Rightarrow> bool"
  for tcs :: "status option" and acct :: "string option" where
  init: "sc_reachable tcs acct \<lparr>ed = sc_init, calls = []\<rparr>"
| step: "sc_reachable tcs acct w \<Longrightarrow> sc_step tcs acct w w' \<Longrightarrow> sc_reachable tcs acct w'"

text \<open>The loading dimmer is only shown while a call is under way.\<close>

definition sc_loading_inv :: "sc_world \<Rightarrow> bool" where
  "sc_loading_inv w \<longleftrightarrow> (isEditorLoading (ed w) \<longrightarrow> calls w \<noteq> [])"

subsection \<open>Lemmas\<close>

text \<open>The handlers that are not calls keep the loading flag.\<close>

lemma handlers_keep_loading:
  "isEditorLoading (onOpenAddModal acct s) = isEditorLoading s"
  "isEditorLoading (onChangeAddModalData field v s) = isEditorLoading s"
  "onAddNode s = Inr s' \<Longrightarrow> isEditorLoading s' = isEditorLoading s"
  "onRemoveNode i s = Inr s' \<Longrightarrow> isEditorLoading s' = isEditorLoading s"
  by (auto simp: onOpenAddModal_def onChangeAddModalData_def onAddNode_def onRemoveNode_def
           split: option.splits json.splits)

lemma settled_clears_loading:
  "p \<noteq> Pending \<Longrightarrow> \<not> isEditorLoading (fetch_done p s)"
  "p \<noteq> Pending \<Longrightarrow> \<not> isEditorLoading (save_done q s) \<or> q = Pending"
  by (cases p; simp add: fetch_done_def) (cases q; simp add: save_done_def)

lemma starts_raise_loading:
  "fetch_start tcs s = (s', True) \<Longrightarrow> isEditorLoading s'"
  "save_start s = (s', True) \<Longrightarrow> isEditorLoading s'"
  by (auto simp: fetch_start_def save_start_def split: if_splits)

lemma sc_step_loading_inv:
  "sc_step tcs acct w w' \<Longrightarrow> sc_loading_inv w \<Longrightarrow> sc_loading_inv w'"
proof (induction rule: sc_step.induct)
  case (saved d w p)
  then show ?case by (cases p) (simp_all add: sc_loading_inv_def save_done_def)
qed (auto simp: sc_loading_inv_def handlers_keep_loading starts_raise_loading settled_clears_loading(1))

lemma sc_reachable_loading_inv: "sc_reachable tcs acct w \<Longrightarrow> sc_loading_inv w"
  by (induction rule: sc_reachable.induct)
     (simp add: sc_loading_inv_def sc_init_def, blast intro: sc_step_loading_inv)

text \<open>
  C9: the editor shows its loading dimmer only while a fetch or a save is under way.
\<close>

theorem sc_loading_only_with_call:
  assumes "sc_reachable tcs acct w" and "isEditorLoading (ed w)"
  shows "calls w \<noteq> []"
  using sc_reachable_loading_inv [OF assms(1)] assms(2) by (simp add: sc_loading_inv_def)

lemma sc_loading_only_with_call_witness:
  "isEditorLoading (sc_init\<lparr>isEditorLoading := True\<rparr>) \<and> [FetchCall] \<noteq> []"
proof -
  let ?w0 = "\<lparr>ed = sc_init, calls = []\<rparr>"
  let ?w1 = "?w0\<lparr>ed := sc_init\<lparr>isEditorLoading := True\<rparr>, calls := [FetchCall]\<rparr>"
  have r: "sc_reachable (Some READY) None ?w1"
    using sc_reachable.step [OF sc_reachable.init sc_step.fetch [of "Some READY" ?w0 "sc_init\<lparr>isEditorLoading := True\<rparr>" None]]
    by (simp add: fetch_start_def)
  have "calls ?w1 \<noteq> []" using sc_loading_only_with_call [OF r] by simp
  then show ?thesis by simp
qed

text \<open>
  C19: removing node \<open>i\<close> replaces the data with the one-element array that
  \<open>splice\<close> returns, so only the removed node is left, and the edited flag is not set,
  so Save stays disabled.
\<close>

theorem remove_node_keeps_removed:
  assumes "supplyChainData s = JArr xs" and "i < length xs"
  shows "onRemoveNode i s = Inr (s\<lparr>supplyChainData := JArr [xs ! i]\<rparr>)"
  using assms by (simp add: onRemoveNode_def js_splice_one)

lemma remove_node_keeps_removed_witness:
  "onRemoveNode 1 (sc_init\<lparr>supplyChainData := JArr [JStr ''farm'', JStr ''mill'', JStr ''shop'']\<rparr>) =
     Inr (sc_init\<lparr>supplyChainData := JArr [JStr ''mill'']\<rparr>)"
  using remove_node_keeps_removed [of "sc_init\<lparr>supplyChainData := JArr [JStr ''farm'', JStr ''mill'', JStr ''shop'']\<rparr>"
      "[JStr ''farm'', JStr ''mill'', JStr ''shop'']" 1]
  by simp

text \<open>
  C23: a fetch that completes while a save is under way replaces the edited data by the
  chain's answer and clears both the edited and the loading flag: the node being saved
  disappears from the editor and the dimmer is gone although the save has not finished.
\<close>

theorem fetch_during_save:
  "\<exists>w d. sc_reachable (Some READY) acct w \<and> calls w = [SaveCall d] \<and>
         d \<noteq> supplyChainData (ed w) \<and> \<not> isEdited (ed w) \<and> \<not> isEditorLoading (ed w)"
proof -
  let ?w0 = "\<lparr>ed = sc_init, calls = []\<rparr>"
  let ?s1 = "sc_init\<lparr>isEditorLoading := True\<rparr>"
  let ?w1 = "?w0\<lparr>ed := ?s1, calls := [FetchCall]\<rparr>"
  have r1: "sc_reachable (Some READY) acct ?w1"
    using sc_reachable.step [OF sc_reachable.init sc_step.fetch [of "Some READY" ?w0 ?s1 acct]]
    by (simp add: fetch_start_def)
  let ?s2 = "?s1\<lparr>supplyChainData := JArr [addModalData sc_init], isEdited := True, isAddModalOpen := False\<rparr>"
  have "onAddNode ?s1 = Inr ?s2" by (simp add: onAddNode_def sc_init_def)
  then have r2: "sc_reachable (Some READY) acct (?w1\<lparr>ed := ?s2\<rparr>)"
    using sc_reachable.step [OF r1 sc_step.add] by simp
  let ?d = "JArr [addModalData sc_init]"
  have "save_start ?s2 = (?s2, True)" by (simp add: save_start_def)
  then have r3: "sc_reachable (Some READY) acct (?w1\<lparr>ed := ?s2, calls := [SaveCall ?d, FetchCall]\<rparr>)"
    using sc_reachable.step [OF r2 sc_step.save [of "?w1\<lparr>ed := ?s2\<rparr>" ?s2]] by simp
  let ?w3 = "?w1\<lparr>ed := ?s2, calls := [SaveCall ?d, FetchCall]\<rparr>"
  have r4: "sc_reachable (Some READY) acct (?w3\<lparr>ed := fetch_done (Fulfilled (JArr [])) ?s2,
                                                 calls := [SaveCall ?d]\<rparr>)"
    using sc_reachable.step [OF r3 sc_step.fetched [of ?w3 "Fulfilled (JArr [])"]] by simp
  show ?thesis
    by (rule exI, rule exI [of _ ?d], rule conjI [OF r4]) (simp add: fetch_done_def sc_init_def)
qed

end
