(* ===== verification/RolesManager.thy ===== *)
theory RolesManager
  imports ContractCalls SubstrateState
begin

text \<open>
  Model of \<^verbatim>\<open>src/src/components/RolesManager/index.js\<close>. The component keeps the
  role table read from the contract (\<open>rolesData\<close>, a JSON value that is an array of
  \<open>{address, name, role}\<close> objects when the contract holds one), a modal to add or edit
  an entry, and a selected address with its role and metadata. The handlers are
  functions on the record \<open>roles_mgr\<close>; an exception a handler throws after it queued
  state updates is returned beside the updated state, since React still applies them.
  The asynchronous handlers are split at their \<open>await\<close>s: the two effects
  \<open>getRolesOnContractReady\<close> (\<open>roles_fetch_start\<close>, \<open>roles_fetch_done\<close>) and
  \<open>getAddressDetailsOnSelect\<close> (\<open>metadata_start\<close>, \<open>metadata_done\<close>), and the
  \<open>setTimeout\<close> callback of \<open>onModalFinish\<close>, which awaits \<open>updateRoles\<close>
  (\<open>modalFinish_updated\<close>) and then the refetch (\<open>modalFinish_refetched\<close>).
  \<open>rm_step\<close> interleaves the handlers with the settlement of the calls under way.

  Addresses are compared with \<open>===\<close>: primitive values by value; the model treats two
  arrays or objects as different references.
\<close>

record roles_modal =
  isEdit :: bool
  m_address :: json
  m_name :: json
  m_role :: json

record roles_mgr =
  rolesData :: json
  isRolesDataLoading :: bool
  isModalOpen :: bool
  modalData :: roles_modal
  selectedAddress :: "json option"
  selectedAddressRole :: "json option"
  addressSearchValue :: "json option"
  accountMetadata :: json
  isAccountMetadataLoading :: "bool option"

definition rm_init :: roles_mgr where
  "rm_init =
     \<lparr>rolesData = JArr [], isRolesDataLoading = False, isModalOpen = False,
      modalData = \<lparr>isEdit = False, m_address = JStr [], m_name = JStr [], m_role = JStr []\<rparr>,
      selectedAddress = Some (JStr []), selectedAddressRole = Some (JStr []), addressSearchValue = Some (JStr []),
      accountMetadata = JNull, isAccountMetadataLoading = None\<rparr>"

subsection \<open>Lookup by address\<close>

fun js_primitive :: "json \<Rightarrow> bool" where
  "js_primitive (JArr xs) = False"
| "js_primitive (JObj kvs) = False"
| "js_primitive _ = True"

text \<open>\<open>item.address === a\<close>; \<open>undefined === undefined\<close> holds.\<close>

definition address_is :: "json option \<Rightarrow> json \<Rightarrow> bool" where
  "address_is a item \<longleftrightarrow>
     (case a of None \<Rightarrow> json_get item ''address'' = None
      | Some v \<Rightarrow> js_primitive v \<and> json_get item ''address'' = Some v)"

text \<open>
  \<open>rolesData.findIndex(item => item.address === a)\<close>: the callback reads
  \<open>item.address\<close>, which throws on a \<open>null\<close> entry; \<open>None\<close> is the answer \<open>-1\<close>.
\<close>

fun js_findIndex_address :: "json option \<Rightarrow> json list \<Rightarrow> js_error + nat option" where
  "js_findIndex_address a [] = Inr None"
| "js_findIndex_address a (item # rest) =
     (if item = JNull then Inl type_error
      else if address_is a item then Inr (Some 0)
      else (case js_findIndex_address a rest of Inl e \<Rightarrow> Inl e | Inr r \<Rightarrow> Inr (map_option Suc r)))"

text \<open>\<open>rolesData.find(item => item.address === a)\<close>\<close>

definition js_find_address :: "json option \<Rightarrow> json list \<Rightarrow> js_error + json option" where
  "js_find_address a rs = (case js_findIndex_address a rs of Inl e \<Rightarrow> Inl e | Inr r \<Rightarrow> Inr (map_option ((!) rs) r))"

definition role_entry :: "roles_modal \<Rightarrow> json" where
  "role_entry md = JObj [(''address'', m_address md), (''name'', m_name md), (''role'', m_role md)]"

text \<open>The table update of \<open>onModalFinish\<close>: replace the entry with the modal's address, or append.\<close>

definition roles_upsert :: "json list \<Rightarrow> roles_modal \<Rightarrow> js_error + json list" where
  "roles_upsert rs md =
     (case js_findIndex_address (Some (m_address md)) rs of
        Inl e \<Rightarrow> Inl e
      | Inr (Some i) \<Rightarrow> Inr (rs[i := role_entry md])
      | Inr None \<Rightarrow> Inr (rs @ [role_entry md]))"

text \<open>
  What the table means: the entry each address finds first, as a map. This is the
  specification \<open>roles_upsert\<close> implements.
\<close>

definition roles_map :: "json list \<Rightarrow> json \<rightharpoonup> json" where
  "roles_map rs = map_of [(a, item). item \<leftarrow> rs, a \<leftarrow> (case json_get item ''address'' of
                                                        Some a \<Rightarrow> if js_primitive a then [a] else []
                                                      | None \<Rightarrow> [])]"

text \<open>The addresses the table holds, one per entry with a primitive address, in order.\<close>

definition role_key :: "json \<Rightarrow> json list" where
  "role_key item = (case json_get item ''address'' of
                      Some a \<Rightarrow> if js_primitive a then [a] else [] | None \<Rightarrow> [])"

definition role_keys :: "json list \<Rightarrow> json list" where
  "role_keys rs = concat (map role_key rs)"

subsection \<open>Effects\<close>

text \<open>
  \<open>getRolesOnContractReady\<close>: nothing unless the contract is \<open>READY\<close>; then the
  loading flag is raised and \<open>getRoles()\<close> awaited. Its answer replaces the table (a
  rejection empties it) and the flag is lowered.
\<close>

definition roles_fetch_start :: "status option \<Rightarrow> roles_mgr \<Rightarrow> roles_mgr \<times> bool" where
  "roles_fetch_start tcs s =
     (if tcs = Some READY then (s\<lparr>isRolesDataLoading := True\<rparr>, True) else (s, False))"

definition roles_fetch_done :: "json promise \<Rightarrow> roles_mgr \<Rightarrow> roles_mgr" where
  "roles_fetch_done p s =
     (case p of
        Pending \<Rightarrow> s
      | Fulfilled d \<Rightarrow> s\<lparr>rolesData := d, isRolesDataLoading := False\<rparr>
      | Rejected e \<Rightarrow> s\<lparr>rolesData := JArr [], isRolesDataLoading := False\<rparr>)"

text \<open>
  \<open>getAddressDetailsOnSelect\<close>, run whenever \<open>selectedAddress\<close> changes: the flag is
  raised and \<open>getAccountMetadata(selectedAddress)\<close> awaited; its answer (or \<open>null\<close> on a
  rejection) becomes the metadata shown, and the flag is lowered.
\<close>

definition metadata_start :: "roles_mgr \<Rightarrow> roles_mgr" where
  "metadata_start s = s\<lparr>isAccountMetadataLoading := Some True\<rparr>"

definition metadata_done :: "json promise \<Rightarrow> roles_mgr \<Rightarrow> roles_mgr" where
  "metadata_done p s =
     (case p of
        Pending \<Rightarrow> s
      | Fulfilled m \<Rightarrow> s\<lparr>accountMetadata := m, isAccountMetadataLoading := Some False\<rparr>
      | Rejected e \<Rightarrow> s\<lparr>accountMetadata := JNull, isAccountMetadataLoading := Some False\<rparr>)"

subsection \<open>Handlers\<close>

definition rm_onViewDetails :: "nat \<Rightarrow> roles_mgr \<Rightarrow> js_error + roles_mgr" where
  "rm_onViewDetails index s =
     (case rolesData s of
        JArr rs \<Rightarrow>
          if index < length rs \<and> rs ! index \<noteq> JNull then
            (let item = rs ! index; a = json_get item ''address'' in
             Inr (s\<lparr>addressSearchValue := a, selectedAddress := a,
                    selectedAddressRole := json_get item ''role''\<rparr>))
          else Inl type_error
      | _ \<Rightarrow> Inl type_error)"

definition rm_onOpenAddModal :: "roles_mgr \<Rightarrow> roles_mgr" where
  "rm_onOpenAddModal s =
     s\<lparr>modalData := \<lparr>isEdit = False, m_address = JStr [], m_name = JStr [], m_role = JStr []\<rparr>,
       isModalOpen := True\<rparr>"

text \<open>\<open>x || ''\<close> on a JSON value or \<open>undefined\<close>\<close>

definition or_empty :: "json option \<Rightarrow> json" where
  "or_empty v = (case v of Some x \<Rightarrow> if json_truthy v then x else JStr [] | None \<Rightarrow> JStr [])"

definition rm_onOpenEditModal :: "roles_mgr \<Rightarrow> roles_mgr" where
  "rm_onOpenEditModal s =
     s\<lparr>modalData := \<lparr>isEdit = True, m_address = or_empty (selectedAddress s),
                      m_name = (if json_truthy (Some (accountMetadata s))
                                then or_empty (json_get (accountMetadata s) ''name'') else JStr []),
                      m_role = or_empty (selectedAddressRole s)\<rparr>,
       isModalOpen := True\<rparr>"

text \<open>\<open>{...modalData, [field]: value}\<close> for the three fields the inputs edit.\<close>

definition set_modal_field :: "string \<Rightarrow> json \<Rightarrow> roles_modal \<Rightarrow> roles_modal" where
  "set_modal_field field v md =
     (if field = ''address'' then md\<lparr>m_address := v\<rparr>
      else if field = ''name'' then md\<lparr>m_name := v\<rparr>
      else if field = ''role'' then md\<lparr>m_role := v\<rparr>
      else md)"

definition onChangeModalData :: "string \<Rightarrow> string \<Rightarrow> roles_mgr \<Rightarrow> roles_mgr" where
  "onChangeModalData field v s = s\<lparr>modalData := set_modal_field field (JStr v) (modalData s)\<rparr>"

text \<open>
  \<open>onModalFinish\<close> up to its \<open>setTimeout\<close>: the loading flag is raised first, then the
  table is updated; the updated table is what the later \<open>updateRoles\<close> sends. The
  Update button is disabled unless the modal's role and address are truthy.
\<close>

definition modalFinish_start :: "roles_mgr \<Rightarrow> roles_mgr \<times> (js_error + json)" where
  "modalFinish_start s =
     (let s1 = s\<lparr>isRolesDataLoading := True\<rparr> in
      case rolesData s of
        JArr rs \<Rightarrow>
          (case roles_upsert rs (modalData s) of
             Inl e \<Rightarrow> (s1, Inl e)
           | Inr rs' \<Rightarrow> (s1\<lparr>rolesData := JArr rs'\<rparr>, Inr (JArr rs')))
      | _ \<Rightarrow> (s1, Inl (Error ''TypeError: rolesData.findIndex is not a function'')))"

text \<open>
  The \<open>setTimeout\<close> callback of \<open>onModalFinish\<close> after \<open>updateRoles\<close> settles: a
  rejection lowers the flag and returns with the modal open; success runs
  \<open>getRolesOnContractReady\<close> up to its own \<open>await\<close> (the flag says whether it did);
  when that returns at once, the flag is lowered and the modal closed.
\<close>

definition modalFinish_updated :: "status option \<Rightarrow> bool promise \<Rightarrow> roles_mgr \<Rightarrow> roles_mgr \<times> bool" where
  "modalFinish_updated tcs upd s =
     (case upd of
        Pending \<Rightarrow> (s, False)
      | Rejected e \<Rightarrow> (s\<lparr>isRolesDataLoading := False\<rparr>, False)
      | Fulfilled b \<Rightarrow>
          (case roles_fetch_start tcs s of
             (s1, True) \<Rightarrow> (s1, True)
           | (s1, False) \<Rightarrow> (s1\<lparr>isRolesDataLoading := False, isModalOpen := False\<rparr>, False)))"

text \<open>The rest of the callback once the refetch's \<open>getRoles\<close> settles.\<close>

definition modalFinish_refetched :: "json promise \<Rightarrow> roles_mgr \<Rightarrow> roles_mgr" where
  "modalFinish_refetched p s =
     (case p of
        Pending \<Rightarrow> s
      | _ \<Rightarrow> (roles_fetch_done p s)\<lparr>isRolesDataLoading := False, isModalOpen := False\<rparr>)"

text \<open>
  \<open>onSearchAddress\<close>: the searched address becomes the selected one; the role is
  replaced only when the table has an entry for it.
\<close>

definition onSearchAddress :: "roles_mgr \<Rightarrow> roles_mgr \<times> js_error option" where
  "onSearchAddress s =
     (let s1 = s\<lparr>selectedAddress := addressSearchValue s\<rparr> in
      case rolesData s of
        JArr rs \<Rightarrow>
          (case js_find_address (addressSearchValue s) rs of
             Inl e \<Rightarrow> (s1, Some e)
           | Inr None \<Rightarrow> (s1, None)
           | Inr (Some item) \<Rightarrow> (s1\<lparr>selectedAddressRole := json_get item ''role''\<rparr>, None))
      | _ \<Rightarrow> (s1, Some (Error ''TypeError: rolesData.find is not a function'')))"

text \<open>
  The modal's \<open>onClose\<close> is \<open>() => !setRolesDataLoading && setModalOpen(false)\<close>:
  \<open>setRolesDataLoading\<close> is a function, hence truthy, so the handler never closes the
  modal.
\<close>

definition onModalClose :: "roles_mgr \<Rightarrow> roles_mgr" where
  "onModalClose s = s"

subsection \<open>The component over time\<close>

text \<open>
  The calls under way: the effect's \<open>getRoles\<close>, a \<open>getAccountMetadata\<close> for an
  address, the \<open>updateRoles\<close> of \<open>onModalFinish\<close> with the table it sends, and that
  callback's refetch. \<open>rm_step\<close> lets the user act and any call under way settle, in
  any order; the metadata effect (\<open>meta\<close>) runs after a render that changed
  \<open>selectedAddress\<close>. A button that is disabled has no rule while it is: Edit needs a
  selected address and no metadata load, Update a truthy role and address, Cancel no
  roles load. An \<open>onModalFinish\<close> that throws has already raised the flag and starts
  no timer.
\<close>

datatype rm_call = RolesFetch | MetaFetch "json option" | UpdateCall json | ModalRefetch

record rm_world =
  rm :: roles_mgr
  rm_calls :: "rm_call list"

inductive rm_step :: "status option \<Rightarrow> rm_world \<Rightarrow> rm_world \<Rightarrow> bool" for tcs :: "status option" where
  fetch:
    "roles_fetch_start tcs (rm w) = (s', True) \<Longrightarrow>
     rm_step tcs w (w\<lparr>rm := s', rm_calls := RolesFetch # rm_calls w\<rparr>)"
| fetched:
    "RolesFetch \<in> set (rm_calls w) \<Longrightarrow> p \<noteq> Pending \<Longrightarrow>
     rm_step tcs w (w\<lparr>rm := roles_fetch_done p (rm w), rm_calls := remove1 RolesFetch (rm_calls w)\<rparr>)"
| meta:
    "rm_step tcs w (w\<lparr>rm := metadata_start (rm w),
                       rm_calls := MetaFetch (selectedAddress (rm w)) # rm_calls w\<rparr>)"
| meta_done:
    "MetaFetch a \<in> set (rm_calls w) \<Longrightarrow> p \<noteq> Pending \<Longrightarrow>
     rm_step tcs w (w\<lparr>rm := metadata_done p (rm w), rm_calls := remove1 (MetaFetch a) (rm_calls w)\<rparr>)"
| view: "rm_onViewDetails i (rm w) = Inr s' \<Longrightarrow> rm_step tcs w (w\<lparr>rm := s'\<rparr>)"
| search_input: "rm_step tcs w (w\<lparr>rm := (rm w)\<lparr>addressSearchValue := Some (JStr v)\<rparr>\<rparr>)"
| search: "onSearchAddress (rm w) = (s', r) \<Longrightarrow> rm_step tcs w (w\<lparr>rm := s'\<rparr>)"
| open_add: "rm_step tcs w (w\<lparr>rm := rm_onOpenAddModal (rm w)\<rparr>)"
| open_edit:
    "json_truthy (selectedAddress (rm w)) \<Longrightarrow> isAccountMetadataLoading (rm w) \<noteq> Some True \<Longrightarrow>
     rm_step tcs w (w\<lparr>rm := rm_onOpenEditModal (rm w)\<rparr>)"
| change: "rm_step tcs w (w\<lparr>rm := onChangeModalData field v (rm w)\<rparr>)"
| finish:
    "json_truthy (Some (m_role (modalData (rm w)))) \<Longrightarrow> json_truthy (Some (m_address (modalData (rm w)))) \<Longrightarrow>
     modalFinish_start (rm w) = (s', Inr d) \<Longrightarrow>
     rm_step tcs w (w\<lparr>rm := s', rm_calls := UpdateCall d # rm_calls w\<rparr>)"
| finish_throws:
    "json_truthy (Some (m_role (modalData (rm w)))) \<Longrightarrow> json_truthy (Some (m_address (modalData (rm w)))) \<Longrightarrow>
     modalFinish_start (rm w) = (s', Inl e) \<Longrightarrow> rm_step tcs w (w\<lparr>rm := s'\<rparr>)"
| updated:
    "UpdateCall d \<in> set (rm_calls w) \<Longrightarrow> p \<noteq> Pending \<Longrightarrow> modalFinish_updated tcs p (rm w) = (s', b) \<Longrightarrow>
     rm_step tcs w (w\<lparr>rm := s', rm_calls := (if b then [ModalRefetch] else []) @ remove1 (UpdateCall d) (rm_calls w)\<rparr>)"
| refetched:
    "ModalRefetch \<in> set (rm_calls w) \<Longrightarrow> p \<noteq> Pending \<Longrightarrow>
     rm_step tcs w (w\<lparr>rm := modalFinish_refetched p (rm w), rm_calls := remove1 ModalRefetch (rm_calls w)\<rparr>)"
| cancel:
    "\<not> isRolesDataLoading (rm w) \<Longrightarrow> rm_step tcs w (w\<lparr>rm := (rm w)\<lparr>isModalOpen := False\<rparr>\<rparr>)"
| close: "rm_step tcs w (w\<lparr>rm := onModalClose (rm w)\<rparr>)"

inductive rm_reachable :: "status option \<Rightarrow> rm_world \<Rightarrow> bool" for tcs :: "status option" where
  init: "rm_reachable tcs \<lparr>rm = rm_init, rm_calls = []\<rparr>"
| step: "rm_reachable tcs w \<Longrightarrow> rm_step tcs w w' \<Longrightarrow> rm_reachable tcs w'"

text \<open>The metadata flag is up only while a metadata request is under way.\<close>

definition rm_meta_inv :: "rm_world \<Rightarrow> bool" where
  "rm_meta_inv w \<longleftrightarrow> (isAccountMetadataLoading (rm w) = Some True \<longrightarrow> (\<exists>a. MetaFetch a \<in> set (rm_calls w)))"

subsection \<open>Lemmas\<close>

lemma roles_map_role_key: "roles_map rs = map_of (concat (map (\<lambda>item. map (\<lambda>a. (a, item)) (role_key item)) rs))"
  by (simp add: roles_map_def role_key_def)

lemma roles_map_Nil [simp]: "roles_map [] = Map.empty"
  by (simp add: roles_map_def)

lemma role_key_address: "js_primitive v \<Longrightarrow> (role_key item = [v]) = address_is (Some v) item"
  by (auto simp: role_key_def address_is_def split: option.split)

lemma role_key_cases: "role_key item = [] \<or> (\<exists>v. js_primitive v \<and> role_key item = [v])"
  by (auto simp: role_key_def split: option.split)

lemma roles_map_Cons:
  "roles_map (item # rs) v = (if js_primitive v \<and> address_is (Some v) item then Some item else roles_map rs v)"
proof -
  have "map_of (map (\<lambda>a. (a, item)) (role_key item) @ X) v =
          (if js_primitive v \<and> address_is (Some v) item then Some item else map_of X v)" for X
    using role_key_cases [of item] role_key_address [of _ item]
    by (auto simp: address_is_def role_key_def split: option.splits if_splits)
  then show ?thesis by (simp add: roles_map_role_key)
qed

lemma roles_map_snoc:
  "roles_map (rs @ [item]) v = (case roles_map rs v of None \<Rightarrow> roles_map [item] v | Some x \<Rightarrow> Some x)"
  by (induction rs) (simp_all add: roles_map_Cons split: option.split)

lemma findIndex_Some:
  "js_findIndex_address a rs = Inr (Some i) \<Longrightarrow>
     i < length rs \<and> address_is a (rs ! i) \<and> (\<forall>j<i. \<not> address_is a (rs ! j))"
proof (induction rs arbitrary: i)
  case (Cons item rest)
  then show ?case
    by (auto simp: nth_Cons' less_Suc_eq_0_disj split: if_splits sum.splits)
qed simp

lemma findIndex_None:
  "js_findIndex_address a rs = Inr None \<Longrightarrow> \<forall>x\<in>set rs. \<not> address_is a x"
  by (induction rs) (auto split: if_splits sum.splits)

lemma address_is_entry: "js_primitive (m_address md) \<Longrightarrow> address_is (Some (m_address md)) (role_entry md)"
  by (simp add: address_is_def role_entry_def)

lemma roles_map_update_first:
  assumes "i < length rs" and "address_is (Some a) (rs ! i)" and "\<forall>j<i. \<not> address_is (Some a) (rs ! j)"
    and "address_is (Some a) e" and "js_primitive a"
  shows "roles_map (rs[i := e]) = (roles_map rs)(a \<mapsto> e)"
  using assms
proof (induction rs arbitrary: i)
  case (Cons item rest)
  show ?case
  proof (cases i)
    case 0
    with Cons.prems show ?thesis
      by (auto simp: roles_map_Cons address_is_def fun_eq_iff split: option.splits)
  next
    case (Suc k)
    with Cons.prems have "\<not> address_is (Some a) item" by auto
    moreover have "roles_map (rest[k := e]) = (roles_map rest)(a \<mapsto> e)"
      using Cons.prems Suc by (intro Cons.IH) auto
    ultimately show ?thesis using Suc
      by (auto simp: roles_map_Cons fun_eq_iff)
  qed
qed simp

lemma roles_map_append_new:
  assumes "\<forall>x\<in>set rs. \<not> address_is (Some a) x" and "address_is (Some a) e" and "js_primitive a"
  shows "roles_map (rs @ [e]) = (roles_map rs)(a \<mapsto> e)"
  using assms
  by (induction rs) (auto simp: roles_map_Cons address_is_def fun_eq_iff split: option.splits)

text \<open>
  C11: the table update of \<open>onModalFinish\<close> refines map update: when it succeeds for a
  primitive address, the new table maps that address to the modal's entry and every
  other address to what it mapped to before.
\<close>

theorem roles_upsert_refines:
  assumes "roles_upsert rs md = Inr rs'" and "js_primitive (m_address md)"
  shows "roles_map rs' = (roles_map rs)(m_address md \<mapsto> role_entry md)"
proof (cases "js_findIndex_address (Some (m_address md)) rs")
  case (Inl e)
  with assms(1) show ?thesis by (simp add: roles_upsert_def)
next
  case (Inr r)
  show ?thesis
  proof (cases r)
    case None
    with Inr assms(1) have rs': "rs' = rs @ [role_entry md]" by (simp add: roles_upsert_def)
    from Inr None have "\<forall>x\<in>set rs. \<not> address_is (Some (m_address md)) x" by (simp add: findIndex_None)
    then show ?thesis unfolding rs'
      by (rule roles_map_append_new [OF _ address_is_entry [OF assms(2)] assms(2)])
  next
    case (Some i)
    with Inr assms(1) have rs': "rs' = rs[i := role_entry md]" by (simp add: roles_upsert_def)
    from Inr Some have "i < length rs \<and> address_is (Some (m_address md)) (rs ! i) \<and>
        (\<forall>j<i. \<not> address_is (Some (m_address md)) (rs ! j))" by (simp add: findIndex_Some)
    then show ?thesis unfolding rs'
      using roles_map_update_first address_is_entry [OF assms(2)] assms(2) by blast
  qed
qed

lemma roles_upsert_refines_witness:
  "roles_map [JObj [(''address'', JStr ''5F''), (''name'', JStr ''Mill''), (''role'', JStr ''farmer'')]]
     (JStr ''5F'') = Some (JObj [(''address'', JStr ''5F''), (''name'', JStr ''Mill''), (''role'', JStr ''farmer'')])"
proof -
  let ?md = "\<lparr>isEdit = False, m_address = JStr ''5F'', m_name = JStr ''Mill'', m_role = JStr ''farmer''\<rparr>"
  have "roles_upsert [] ?md = Inr [role_entry ?md]" by (simp add: roles_upsert_def)
  from roles_upsert_refines [OF this] show ?thesis by (simp add: role_entry_def)
qed

lemma role_keys_update:
  "i < length rs \<Longrightarrow> role_key e = role_key (rs ! i) \<Longrightarrow> role_keys (rs[i := e]) = role_keys rs"
  by (induction rs arbitrary: i) (auto simp: role_keys_def nth_Cons' split: nat.split)

lemma not_in_role_keys:
  "\<forall>x\<in>set rs. \<not> address_is (Some a) x \<Longrightarrow> js_primitive a \<Longrightarrow> a \<notin> set (role_keys rs)"
  by (induction rs) (auto simp: role_keys_def role_key_def address_is_def split: option.splits if_splits)

text \<open>
  C20: the table update keeps the addresses of the table distinct: if no primitive
  address had two entries before, none has two after.
\<close>

theorem roles_upsert_distinct:
  assumes "distinct (role_keys rs)" and "roles_upsert rs md = Inr rs'" and "js_primitive (m_address md)"
  shows "distinct (role_keys rs')"
proof (cases "js_findIndex_address (Some (m_address md)) rs")
  case (Inl e)
  with assms(2) show ?thesis by (simp add: roles_upsert_def)
next
  case (Inr r)
  have ke: "role_key (role_entry md) = [m_address md]"
    using role_key_address [OF assms(3)] address_is_entry [OF assms(3)] by blast
  show ?thesis
  proof (cases r)
    case None
    with Inr assms(2) have rs': "rs' = rs @ [role_entry md]" by (simp add: roles_upsert_def)
    from Inr None have "\<forall>x\<in>set rs. \<not> address_is (Some (m_address md)) x" by (simp add: findIndex_None)
    then have "m_address md \<notin> set (role_keys rs)" using not_in_role_keys assms(3) by blast
    with assms(1) ke show ?thesis by (simp add: rs' role_keys_def)
  next
    case (Some i)
    with Inr assms(2) have rs': "rs' = rs[i := role_entry md]" by (simp add: roles_upsert_def)
    from Inr Some have "i < length rs" "address_is (Some (m_address md)) (rs ! i)"
      by (simp_all add: findIndex_Some)
    moreover have "role_key (rs ! i) = [m_address md]"
      using role_key_address [OF assms(3)] \<open>address_is (Some (m_address md)) (rs ! i)\<close> by blast
    ultimately have "role_keys rs' = role_keys rs"
      using ke by (simp add: rs' role_keys_update)
    with assms(1) show ?thesis by simp
  qed
qed

lemma roles_upsert_distinct_witness:
  "distinct (role_keys [JObj [(''address'', JStr ''5F''), (''name'', JStr ''Mill''), (''role'', JStr ''miller'')]])"
proof -
  let ?md = "\<lparr>isEdit = True, m_address = JStr ''5F'', m_name = JStr ''Mill'', m_role = JStr ''miller''\<rparr>"
  let ?old = "[JObj [(''address'', JStr ''5F''), (''name'', JStr ''Mill''), (''role'', JStr ''farmer'')]]"
  have "distinct (role_keys ?old)" by (simp add: role_keys_def role_key_def)
  moreover have "roles_upsert ?old ?md = Inr [role_entry ?md]"
    by (simp add: roles_upsert_def address_is_def)
  ultimately show ?thesis
    using roles_upsert_distinct [of ?old ?md "[role_entry ?md]"] by (simp add: role_entry_def)
qed

text \<open>
  Searching an address the table has no entry for selects the address but keeps
  the role shown for the previous selection.
\<close>

theorem search_keeps_stale_role:
  assumes "rolesData s = JArr rs" and "js_find_address (addressSearchValue s) rs = Inr None"
  shows "onSearchAddress s = (s\<lparr>selectedAddress := addressSearchValue s\<rparr>, None)"
  using assms by (simp add: onSearchAddress_def)

lemma search_keeps_stale_role_witness:
  "selectedAddressRole (fst (onSearchAddress
     (rm_init\<lparr>rolesData := JArr [JObj [(''address'', JStr ''5F''), (''role'', JStr ''farmer'')]],
              selectedAddress := Some (JStr ''5F''), selectedAddressRole := Some (JStr ''farmer''),
              addressSearchValue := Some (JStr ''5G'')\<rparr>))) = Some (JStr ''farmer'')"
proof -
  let ?s = "rm_init\<lparr>rolesData := JArr [JObj [(''address'', JStr ''5F''), (''role'', JStr ''farmer'')]],
              selectedAddress := Some (JStr ''5F''), selectedAddressRole := Some (JStr ''farmer''),
              addressSearchValue := Some (JStr ''5G'')\<rparr>"
  have "js_find_address (addressSearchValue ?s) [JObj [(''address'', JStr ''5F''), (''role'', JStr ''farmer'')]] = Inr None"
    by (simp add: js_find_address_def address_is_def)
  from search_keeps_stale_role [OF _ this] show ?thesis by simp
qed

lemma rm_handlers_keep_meta_flag:
  "rm_onViewDetails i s = Inr s' \<Longrightarrow> isAccountMetadataLoading s' = isAccountMetadataLoading s"
  "onSearchAddress s = (s', r) \<Longrightarrow> isAccountMetadataLoading s' = isAccountMetadataLoading s"
  "modalFinish_start s = (s', x) \<Longrightarrow> isAccountMetadataLoading s' = isAccountMetadataLoading s"
  "modalFinish_updated tcs p s = (s', b) \<Longrightarrow> isAccountMetadataLoading s' = isAccountMetadataLoading s"
  "roles_fetch_start tcs s = (s', b) \<Longrightarrow> isAccountMetadataLoading s' = isAccountMetadataLoading s"
  "isAccountMetadataLoading (modalFinish_refetched q s) = isAccountMetadataLoading s"
  "isAccountMetadataLoading (roles_fetch_done q s) = isAccountMetadataLoading s"
  "isAccountMetadataLoading (rm_onOpenAddModal s) = isAccountMetadataLoading s"
  "isAccountMetadataLoading (rm_onOpenEditModal s) = isAccountMetadataLoading s"
  "isAccountMetadataLoading (onChangeModalData f v s) = isAccountMetadataLoading s"
  "isAccountMetadataLoading (onModalClose s) = isAccountMetadataLoading s"
  by (auto simp: rm_onViewDetails_def onSearchAddress_def modalFinish_start_def modalFinish_updated_def
      roles_fetch_start_def modalFinish_refetched_def roles_fetch_done_def rm_onOpenAddModal_def rm_onOpenEditModal_def
      onChangeModalData_def onModalClose_def Let_def
      split: json.splits sum.splits option.splits promise.splits if_splits prod.splits bool.splits)

lemma rm_step_meta_inv:
  assumes "rm_step tcs w w'" and "rm_meta_inv w" shows "rm_meta_inv w'"
  using assms
proof induction
  case (meta_done a w p)
  then show ?case by (cases p) (auto simp: rm_meta_inv_def metadata_done_def)
qed (auto simp: rm_meta_inv_def metadata_start_def rm_handlers_keep_meta_flag)

lemma rm_reachable_meta_inv: "rm_reachable tcs w \<Longrightarrow> rm_meta_inv w"
proof (induction rule: rm_reachable.induct)
  case init
  then show ?case by (simp add: rm_meta_inv_def rm_init_def)
next
  case (step w w')
  then show ?case using rm_step_meta_inv by blast
qed

lemma rm_reachable_step_to:
  "rm_reachable tcs w \<Longrightarrow> rm_step tcs w w' \<Longrightarrow> w' = w'' \<Longrightarrow> rm_reachable tcs w''"
  using rm_reachable.step by blast

lemma rm_search_reachable:
  assumes "rm_reachable tcs w" and "rolesData (rm w) = JArr []"
  shows "rm_reachable tcs (w\<lparr>rm := (rm w)\<lparr>addressSearchValue := Some (JStr v), selectedAddress := Some (JStr v),
                                  isAccountMetadataLoading := Some True\<rparr>,
                             rm_calls := MetaFetch (Some (JStr v)) # rm_calls w\<rparr>)"
proof -
  let ?w1 = "w\<lparr>rm := (rm w)\<lparr>addressSearchValue := Some (JStr v)\<rparr>\<rparr>"
  let ?s2 = "(rm w)\<lparr>addressSearchValue := Some (JStr v), selectedAddress := Some (JStr v)\<rparr>"
  have r1: "rm_reachable tcs ?w1" by (rule rm_reachable.step [OF assms(1) rm_step.search_input])
  have "onSearchAddress (rm ?w1) = (?s2, None)"
    using assms(2) by (simp add: onSearchAddress_def js_find_address_def)
  from rm_reachable.step [OF r1 rm_step.search [OF this]]
  have r2: "rm_reachable tcs (w\<lparr>rm := ?s2\<rparr>)" by simp
  show ?thesis
    by (rule rm_reachable_step_to [OF r2 rm_step.meta]) (simp add: metadata_start_def)
qed

text \<open>
  C21: the metadata shown may belong to another address than the selected one: after
  two searches, the answer for the second address can arrive first and lower the
  loading flag (Edit is enabled), and the answer for the first address, arriving
  last, replaces the metadata while the second address stays selected.
\<close>

theorem metadata_answer_for_other_address:
  "\<exists>w. rm_reachable tcs w \<and> rm_calls w = [MetaFetch (Some (JStr ''5F''))] \<and>
       selectedAddress (rm w) = Some (JStr ''5G'') \<and> isAccountMetadataLoading (rm w) = Some False \<and>
       rm_step tcs w (w\<lparr>rm := (rm w)\<lparr>accountMetadata := m, isAccountMetadataLoading := Some False\<rparr>,
                         rm_calls := []\<rparr>)"
proof -
  let ?w0 = "\<lparr>rm = rm_init, rm_calls = []\<rparr>"
  have "rm_reachable tcs (?w0\<lparr>rm := rm_init\<lparr>addressSearchValue := Some (JStr ''5F''), selectedAddress := Some (JStr ''5F''),
                                  isAccountMetadataLoading := Some True\<rparr>,
                             rm_calls := [MetaFetch (Some (JStr ''5F''))]\<rparr>)" (is "rm_reachable tcs ?w1")
    using rm_search_reachable [OF rm_reachable.init, of tcs "''5F''"] by (simp add: rm_init_def)
  from rm_search_reachable [OF this, of "''5G''"]
  have r2: "rm_reachable tcs (?w1\<lparr>rm := (rm ?w1)\<lparr>addressSearchValue := Some (JStr ''5G''), selectedAddress := Some (JStr ''5G'')\<rparr>,
                             rm_calls := [MetaFetch (Some (JStr ''5G'')), MetaFetch (Some (JStr ''5F''))]\<rparr>)"
      (is "rm_reachable tcs ?w2") by (simp add: rm_init_def)
  let ?w3 = "?w2\<lparr>rm := (rm ?w2)\<lparr>accountMetadata := JObj [], isAccountMetadataLoading := Some False\<rparr>,
                   rm_calls := [MetaFetch (Some (JStr ''5F''))]\<rparr>"
  have r3: "rm_reachable tcs ?w3"
    by (rule rm_reachable_step_to [OF r2 rm_step.meta_done [of "Some (JStr ''5G'')" _ "Fulfilled (JObj [])"]])
       (simp_all add: metadata_done_def)
  have "rm_step tcs ?w3 (?w3\<lparr>rm := (rm ?w3)\<lparr>accountMetadata := m, isAccountMetadataLoading := Some False\<rparr>,
                              rm_calls := []\<rparr>)"
    using rm_step.meta_done [of "Some (JStr ''5F'')" ?w3 "Fulfilled m" tcs] by (simp add: metadata_done_def)
  with r3 show ?thesis by (intro exI [of _ ?w3]) simp
qed

text \<open>
  C22: when the role table holds a \<open>null\<close> entry, Update in the modal throws in
  \<open>findIndex\<close> after raising the loading flag: the flag stays raised with no call
  under way, so Cancel is disabled and the modal stays open.
\<close>

theorem finish_throw_leaves_loading:
  "\<exists>w. rm_reachable (Some READY) w \<and> rolesData (rm w) = JArr [JNull] \<and>
       isRolesDataLoading (rm w) \<and> isModalOpen (rm w) \<and> rm_calls w = []"
proof -
  let ?s1 = "rm_init\<lparr>rolesData := JArr [JNull]\<rparr>"
  have r1: "rm_reachable (Some READY) \<lparr>rm = ?s1, rm_calls = []\<rparr>"
  proof -
    have "rm_reachable (Some READY) \<lparr>rm = rm_init\<lparr>isRolesDataLoading := True\<rparr>, rm_calls = [RolesFetch]\<rparr>"
      by (rule rm_reachable_step_to [OF rm_reachable.init rm_step.fetch]) (simp_all add: roles_fetch_start_def)
    then show ?thesis
      by (rule rm_reachable_step_to [OF _ rm_step.fetched [of _ "Fulfilled (JArr [JNull])"]])
         (simp_all add: roles_fetch_done_def rm_init_def)
  qed
  let ?md = "\<lparr>isEdit = False, m_address = JStr ''5F'', m_name = JStr [], m_role = JStr ''farmer''\<rparr>"
  let ?s2 = "?s1\<lparr>modalData := ?md, isModalOpen := True\<rparr>"
  have r2: "rm_reachable (Some READY) \<lparr>rm = ?s2, rm_calls = []\<rparr>"
  proof -
    have "rm_reachable (Some READY) \<lparr>rm = rm_onOpenAddModal ?s1, rm_calls = []\<rparr>"
      by (rule rm_reachable_step_to [OF r1 rm_step.open_add]) simp
    then have "rm_reachable (Some READY) \<lparr>rm = onChangeModalData ''address'' ''5F'' (rm_onOpenAddModal ?s1), rm_calls = []\<rparr>"
      by (rule rm_reachable_step_to [OF _ rm_step.change]) simp
    then show ?thesis
      by (rule rm_reachable_step_to [OF _ rm_step.change [of _ _ "''role''" "''farmer''"]])
         (simp add: onChangeModalData_def rm_onOpenAddModal_def set_modal_field_def)
  qed
  have "rm_reachable (Some READY) \<lparr>rm = ?s2\<lparr>isRolesDataLoading := True\<rparr>, rm_calls = []\<rparr>"
    by (rule rm_reachable_step_to [OF r2 rm_step.finish_throws [where s' = "?s2\<lparr>isRolesDataLoading := True\<rparr>" and e = type_error]])
       (simp_all add: modalFinish_start_def roles_upsert_def)
  then show ?thesis by (intro exI [of _ "\<lparr>rm = ?s2\<lparr>isRolesDataLoading := True\<rparr>, rm_calls = []\<rparr>"]) (simp add: rm_init_def)
qed

end
