(* ===== verification/TokenEditor.thy ===== *)
theory TokenEditor
  imports ContractCalls SubstrateState
begin

text \<open>
  Model of \<^verbatim>\<open>src/src/components/TokenEditor/index.js\<close>. The component lists the
  token ids of the contract, shows the metadata, owner and map position of a selected
  token, mints a new token, and edits a token's metadata and owner through two modals.
  Its \<open>useState\<close> hooks are the record \<open>token_editor\<close>. The asynchronous handlers are
  split at their \<open>await\<close>s: the list effect (\<open>list_fetch_start\<close>, \<open>list_fetch_done\<close>),
  the metadata effect, which awaits the metadata and then the owner
  (\<open>tm_start\<close>, \<open>tm_metadata\<close>, \<open>tm_owner\<close>), \<open>onAddNewToken\<close>
  (\<open>mint_start\<close>, \<open>mint_done\<close>, \<open>mint_refetched\<close>), \<open>onSaveEditModalData\<close>
  (\<open>save_edit_start\<close>, \<open>save_edit_updated\<close>, then the metadata effect's body, then
  \<open>save_edit_finish\<close>) and \<open>onFinishTransferModal\<close> (\<open>transfer_start\<close>,
  \<open>transfer_done\<close>). \<open>te_step\<close> interleaves them with the user's other handlers.

  \<open>selectedToken\<close> starts as the number \<open>-1\<close> and becomes the string the list shows,
  so it is a JSON value. The list holds the strings \<open>listAllTokens\<close> prints.
\<close>

record token_editor =
  tokensList :: "string list"
  isTokensListLoading :: bool
  selectedToken :: json
  tokenMetadata :: json
  isTokenMetadataLoading :: bool
  tokenOwner :: string
  mapPosition :: "json \<times> json"
  isEditModalOpen :: bool
  editModalData :: json
  isEditModalLoading :: bool
  isTransferModalOpen :: bool
  transferModalData :: json
  isTransferModalLoading :: bool

definition te_init :: token_editor where
  "te_init =
     \<lparr>tokensList = [], isTokensListLoading = False, selectedToken = JNum (-1), tokenMetadata = JNull,
      isTokenMetadataLoading = False, tokenOwner = [], mapPosition = (JNum 0, JNum 0),
      isEditModalOpen = False,
      editModalData = JObj [(''remarks'', JStr []), (''requiredConditions'', JStr []), (''sensors'', JStr []),
                            (''movements'', JStr []), (''photo'', JStr []), (''lat'', JNum 0), (''long'', JNum 0)],
      isEditModalLoading = False, isTransferModalOpen = False,
      transferModalData = JObj [(''targetAddress'', JStr [])], isTransferModalLoading = False\<rparr>"

subsection \<open>Effects\<close>

text \<open>
  \<open>getListOfTokensOnContractReady\<close>: nothing unless the contract is \<open>READY\<close>; then the
  list is fetched, replaced by the answer (emptied on a rejection), and the flag lowered.
\<close>

definition list_fetch_start :: "status option \<Rightarrow> token_editor \<Rightarrow> token_editor \<times> bool" where
  "list_fetch_start tcs s =
     (if tcs = Some READY then (s\<lparr>isTokensListLoading := True\<rparr>, True) else (s, False))"

definition list_fetch_done :: "string list promise \<Rightarrow> token_editor \<Rightarrow> token_editor" where
  "list_fetch_done p s =
     (case p of
        Pending \<Rightarrow> s
      | Fulfilled l \<Rightarrow> s\<lparr>tokensList := l, isTokensListLoading := False\<rparr>
      | Rejected e \<Rightarrow> s\<lparr>tokensList := [], isTokensListLoading := False\<rparr>)"

text \<open>
  \<open>getTokenMetadataOnSelect\<close>, run on mount and whenever \<open>selectedToken\<close> changes:
  the flag is raised and \<open>getTokenMetadata(selectedToken)\<close> awaited; its answer is
  stored and \<open>getTokenOwner(selectedToken)\<close> awaited (\<open>True\<close>: a second call is under
  way). The owner's answer is stored with the map position read from the metadata. A
  rejection of either call stores \<open>null\<close> as the metadata; the flag is lowered at the end.
\<close>

definition tm_start :: "token_editor \<Rightarrow> token_editor" where
  "tm_start s = s\<lparr>isTokenMetadataLoading := True\<rparr>"

definition tm_metadata :: "json promise \<Rightarrow> token_editor \<Rightarrow> token_editor \<times> bool" where
  "tm_metadata p s =
     (case p of
        Pending \<Rightarrow> (s, False)
      | Fulfilled m \<Rightarrow> (s\<lparr>tokenMetadata := m\<rparr>, True)
      | Rejected e \<Rightarrow> (s\<lparr>tokenMetadata := JNull, isTokenMetadataLoading := False\<rparr>, False))"

text \<open>\<open>(metadata && metadata[k]) || 0\<close>\<close>

definition coord :: "json \<Rightarrow> string \<Rightarrow> json" where
  "coord m k =
     (case json_get m k of
        Some v \<Rightarrow> if json_truthy (Some m) \<and> json_truthy (Some v) then v else JNum 0
      | None \<Rightarrow> JNum 0)"

definition tm_owner :: "json \<Rightarrow> string promise \<Rightarrow> token_editor \<Rightarrow> token_editor" where
  "tm_owner m p s =
     (case p of
        Pending \<Rightarrow> s
      | Fulfilled owner \<Rightarrow>
          s\<lparr>tokenOwner := owner, mapPosition := (coord m ''lat'', coord m ''long''),
            isTokenMetadataLoading := False\<rparr>
      | Rejected e \<Rightarrow> s\<lparr>tokenMetadata := JNull, isTokenMetadataLoading := False\<rparr>)"

subsection \<open>Handlers\<close>

text \<open>
  \<open>onAddNewToken\<close>: the flag is raised and \<open>mintToken(tokensList.length + 2)\<close>
  awaited (the id is returned beside the state). On success the list effect's body
  runs (\<open>True\<close>: its fetch is under way); the flag is lowered when it is done, and at
  once on a rejection.
\<close>

definition mint_start :: "token_editor \<Rightarrow> token_editor \<times> nat" where
  "mint_start s = (s\<lparr>isTokensListLoading := True\<rparr>, length (tokensList s) + 2)"

definition mint_done :: "status option \<Rightarrow> bool promise \<Rightarrow> token_editor \<Rightarrow> token_editor \<times> bool" where
  "mint_done tcs p s =
     (case p of
        Pending \<Rightarrow> (s, False)
      | Rejected e \<Rightarrow> (s\<lparr>isTokensListLoading := False\<rparr>, False)
      | Fulfilled b \<Rightarrow>
          (case list_fetch_start tcs s of
             (s1, True) \<Rightarrow> (s1, True)
           | (s1, False) \<Rightarrow> (s1\<lparr>isTokensListLoading := False\<rparr>, False)))"

definition mint_refetched :: "string list promise \<Rightarrow> token_editor \<Rightarrow> token_editor" where
  "mint_refetched p s =
     (case p of Pending \<Rightarrow> s | _ \<Rightarrow> (list_fetch_done p s)\<lparr>isTokensListLoading := False\<rparr>)"

definition te_onViewDetails :: "string \<Rightarrow> token_editor \<Rightarrow> token_editor" where
  "te_onViewDetails token s = s\<lparr>selectedToken := JStr token\<rparr>"

text \<open>
  \<open>onOpenEditMetadataModal\<close>: the defaults, then \<open>...tokenMetadata\<close>, whose entries
  win. The default position \<open>51.505, -0.09\<close> are decimal literals.
\<close>

definition edit_defaults :: "(string \<times> json) list" where
  "edit_defaults =
     [(''remarks'', JStr []), (''requiredConditions'', JStr []), (''sensors'', JStr []),
      (''movements'', JStr []), (''photo'', JStr []), (''lat'', JDec 51505 3), (''long'', JDec (-9) 2)]"

definition onOpenEditMetadataModal :: "token_editor \<Rightarrow> token_editor" where
  "onOpenEditMetadataModal s =
     s\<lparr>editModalData := JObj (spread_props (Some (tokenMetadata s)) @ edit_defaults), isEditModalOpen := True\<rparr>"

definition te_onChangeEditModalData :: "string \<Rightarrow> string \<Rightarrow> token_editor \<Rightarrow> token_editor" where
  "te_onChangeEditModalData field v s =
     s\<lparr>editModalData := JObj ((field, JStr v) # spread_props (Some (editModalData s)))\<rparr>"

text \<open>
  \<open>onSaveEditModalData\<close>: the flag is raised and
  \<open>updateTokenMetadata(selectedToken, editModalData)\<close> awaited. A rejection lowers the
  flag and keeps the modal open; success runs the metadata effect's body
  (\<open>tm_start\<close>, then its two calls) and then \<open>save_edit_finish\<close>.
\<close>

definition save_edit_start :: "token_editor \<Rightarrow> token_editor" where
  "save_edit_start s = s\<lparr>isEditModalLoading := True\<rparr>"

definition save_edit_updated :: "bool promise \<Rightarrow> token_editor \<Rightarrow> token_editor \<times> bool" where
  "save_edit_updated p s =
     (case p of
        Pending \<Rightarrow> (s, False)
      | Fulfilled b \<Rightarrow> (tm_start s, True)
      | Rejected e \<Rightarrow> (s\<lparr>isEditModalLoading := False\<rparr>, False))"

definition save_edit_finish :: "token_editor \<Rightarrow> token_editor" where
  "save_edit_finish s = s\<lparr>isEditModalLoading := False, isEditModalOpen := False\<rparr>"

definition onOpenTransferModal :: "token_editor \<Rightarrow> token_editor" where
  "onOpenTransferModal s =
     s\<lparr>transferModalData := JObj [(''targetAddress'', JStr [])], isTransferModalOpen := True\<rparr>"

definition onChangeTransferModalData :: "string \<Rightarrow> string \<Rightarrow> token_editor \<Rightarrow> token_editor" where
  "onChangeTransferModalData field v s =
     s\<lparr>transferModalData := JObj ((field, JStr v) # spread_props (Some (transferModalData s)))\<rparr>"

definition transfer_start :: "token_editor \<Rightarrow> token_editor" where
  "transfer_start s = s\<lparr>isTransferModalLoading := True\<rparr>"

definition transfer_done :: "bool promise \<Rightarrow> token_editor \<Rightarrow> token_editor" where
  "transfer_done p s =
     (case p of
        Pending \<Rightarrow> s
      | Fulfilled b \<Rightarrow> s\<lparr>isTransferModalLoading := False, isTransferModalOpen := False\<rparr>
      | Rejected e \<Rightarrow> s\<lparr>isTransferModalLoading := False\<rparr>)"

text \<open>
  \<open>onUploadFinish(error, result)\<close>, the upload widget's callback: the error is only
  logged; reading \<open>result.event\<close> throws when there is no result, and on
  \<open>'success'\<close> the modal data becomes \<open>{photo: result.info.secure_url}\<close> (an
  undefined URL leaves no entry a read or \<open>JSON.stringify\<close> could see).
\<close>

definition onUploadFinish :: "json option \<Rightarrow> json option \<Rightarrow> token_editor \<Rightarrow> js_error + token_editor" where
  "onUploadFinish error result s =
     (if nullish result then Inl type_error
      else if js_get result ''event'' = Some (JStr ''success'') then
        (let info = js_get result ''info'' in
         if nullish info then Inl type_error
         else Inr (s\<lparr>editModalData := JObj (case js_get info ''secure_url'' of
                                               Some u \<Rightarrow> [(''photo'', u)] | None \<Rightarrow> [])\<rparr>))
      else Inr s)"

subsection \<open>The component over time\<close>

text \<open>
  The calls under way: the list fetch, the metadata and owner fetches of the metadata
  effect for a token (flagged when they run inside \<open>onSaveEditModalData\<close>), the mint
  with its id and its refetch, the metadata update and the transfer. A disabled
  button has no rule while it is, and a row's view button exists only for a listed
  token: New needs no list load; Edit and Transfer a selected
  token (not \<open>-1\<close>) and no metadata load, Transfer also no transfer under way; Update,
  Cancel and the modal's \<open>onClose\<close> no load of their modal.
\<close>

datatype te_call =
    ListFetch | TokMeta json bool | TokOwner json json bool | MintTx nat | MintRefetch
  | MetaTx json json | TransferTx json json

record te_world =
  te :: token_editor
  te_calls :: "te_call list"

inductive te_step :: "status option \<Rightarrow> te_world \<Rightarrow> te_world \<Rightarrow> bool" for tcs :: "status option" where
  list_fetch:
    "list_fetch_start tcs (te w) = (s', True) \<Longrightarrow> te_step tcs w (w\<lparr>te := s', te_calls := ListFetch # te_calls w\<rparr>)"
| list_fetched:
    "ListFetch \<in> set (te_calls w) \<Longrightarrow> p \<noteq> Pending \<Longrightarrow>
     te_step tcs w (w\<lparr>te := list_fetch_done p (te w), te_calls := remove1 ListFetch (te_calls w)\<rparr>)"
| meta_fetch:
    "te_step tcs w (w\<lparr>te := tm_start (te w), te_calls := TokMeta (selectedToken (te w)) False # te_calls w\<rparr>)"
| meta_fetched:
    "TokMeta t b \<in> set (te_calls w) \<Longrightarrow> p \<noteq> Pending \<Longrightarrow> tm_metadata p (te w) = (s', cont) \<Longrightarrow>
     te_step tcs w (w\<lparr>te := (if \<not> cont \<and> b then save_edit_finish s' else s'),
                      te_calls := (if cont then [TokOwner t (case p of Fulfilled m \<Rightarrow> m | _ \<Rightarrow> JNull) b] else [])
                                  @ remove1 (TokMeta t b) (te_calls w)\<rparr>)"
| owner_fetched:
    "TokOwner t m b \<in> set (te_calls w) \<Longrightarrow> p \<noteq> Pending \<Longrightarrow>
     te_step tcs w (w\<lparr>te := (if b then save_edit_finish (tm_owner m p (te w)) else tm_owner m p (te w)),
                      te_calls := remove1 (TokOwner t m b) (te_calls w)\<rparr>)"
| new:
    "\<not> isTokensListLoading (te w) \<Longrightarrow> mint_start (te w) = (s', n) \<Longrightarrow>
     te_step tcs w (w\<lparr>te := s', te_calls := MintTx n # te_calls w\<rparr>)"
| minted:
    "MintTx n \<in> set (te_calls w) \<Longrightarrow> p \<noteq> Pending \<Longrightarrow> mint_done tcs p (te w) = (s', cont) \<Longrightarrow>
     te_step tcs w (w\<lparr>te := s', te_calls := (if cont then [MintRefetch] else []) @ remove1 (MintTx n) (te_calls w)\<rparr>)"
| mint_refetched:
    "MintRefetch \<in> set (te_calls w) \<Longrightarrow> p \<noteq> Pending \<Longrightarrow>
     te_step tcs w (w\<lparr>te := mint_refetched p (te w), te_calls := remove1 MintRefetch (te_calls w)\<rparr>)"
| view: "token \<in> set (tokensList (te w)) \<Longrightarrow> te_step tcs w (w\<lparr>te := te_onViewDetails token (te w)\<rparr>)"
| open_edit:
    "selectedToken (te w) \<noteq> JNum (-1) \<Longrightarrow> \<not> isTokenMetadataLoading (te w) \<Longrightarrow>
     te_step tcs w (w\<lparr>te := onOpenEditMetadataModal (te w)\<rparr>)"
| change_edit: "te_step tcs w (w\<lparr>te := te_onChangeEditModalData field v (te w)\<rparr>)"
| upload: "onUploadFinish error result (te w) = Inr s' \<Longrightarrow> te_step tcs w (w\<lparr>te := s'\<rparr>)"
| save_edit:
    "\<not> isEditModalLoading (te w) \<Longrightarrow>
     te_step tcs w (w\<lparr>te := save_edit_start (te w),
                      te_calls := MetaTx (selectedToken (te w)) (editModalData (te w)) # te_calls w\<rparr>)"
| edit_updated:
    "MetaTx t d \<in> set (te_calls w) \<Longrightarrow> p \<noteq> Pending \<Longrightarrow> save_edit_updated p (te w) = (s', cont) \<Longrightarrow>
     te_step tcs w (w\<lparr>te := s', te_calls := (if cont then [TokMeta t True] else []) @ remove1 (MetaTx t d) (te_calls w)\<rparr>)"
| cancel_edit:
    "\<not> isEditModalLoading (te w) \<Longrightarrow> te_step tcs w (w\<lparr>te := (te w)\<lparr>isEditModalOpen := False\<rparr>\<rparr>)"
| open_transfer:
    "selectedToken (te w) \<noteq> JNum (-1) \<Longrightarrow> \<not> isTokenMetadataLoading (te w) \<Longrightarrow> \<not> isTransferModalLoading (te w) \<Longrightarrow>
     te_step tcs w (w\<lparr>te := onOpenTransferModal (te w)\<rparr>)"
| change_transfer: "te_step tcs w (w\<lparr>te := onChangeTransferModalData field v (te w)\<rparr>)"
| transfer:
    "\<not> isTransferModalLoading (te w) \<Longrightarrow>
     te_step tcs w (w\<lparr>te := transfer_start (te w),
                      te_calls := TransferTx (case json_get (transferModalData (te w)) ''targetAddress'' of
                                                Some a \<Rightarrow> a | None \<Rightarrow> JNull) (selectedToken (te w)) # te_calls w\<rparr>)"
| transferred:
    "TransferTx a t \<in> set (te_calls w) \<Longrightarrow> p \<noteq> Pending \<Longrightarrow>
     te_step tcs w (w\<lparr>te := transfer_done p (te w), te_calls := remove1 (TransferTx a t) (te_calls w)\<rparr>)"
| cancel_transfer:
    "\<not> isTransferModalLoading (te w) \<Longrightarrow> te_step tcs w (w\<lparr>te := (te w)\<lparr>isTransferModalOpen := False\<rparr>\<rparr>)"

inductive te_reachable :: "status option \<Rightarrow> te_world \<Rightarrow> bool" for tcs :: "status option" where
  init: "te_reachable tcs \<lparr>te = te_init, te_calls = []\<rparr>"
| step: "te_reachable tcs w \<Longrightarrow> te_step tcs w w' \<Longrightarrow> te_reachable tcs w'"

text \<open>
  Each loading flag is up only while a call that lowers it is under way: the list flag
  with the list fetch, a mint or its refetch; the metadata flag with a metadata or
  owner fetch; the edit modal's flag with its update or the metadata fetches that run
  inside it; the transfer flag with a transfer.
\<close>

definition te_list_inv :: "te_world \<Rightarrow> bool" where
  "te_list_inv w \<longleftrightarrow>
     (isTokensListLoading (te w) \<longrightarrow>
        ListFetch \<in> set (te_calls w) \<or> MintRefetch \<in> set (te_calls w) \<or> (\<exists>n. MintTx n \<in> set (te_calls w)))"

definition te_meta_inv :: "te_world \<Rightarrow> bool" where
  "te_meta_inv w \<longleftrightarrow>
     (isTokenMetadataLoading (te w) \<longrightarrow>
        (\<exists>t b. TokMeta t b \<in> set (te_calls w)) \<or> (\<exists>t m b. TokOwner t m b \<in> set (te_calls w)))"

definition te_edit_inv :: "te_world \<Rightarrow> bool" where
  "te_edit_inv w \<longleftrightarrow>
     (isEditModalLoading (te w) \<longrightarrow>
        (\<exists>t d. MetaTx t d \<in> set (te_calls w)) \<or> (\<exists>t. TokMeta t True \<in> set (te_calls w)) \<or>
        (\<exists>t m. TokOwner t m True \<in> set (te_calls w)))"

definition te_transfer_inv :: "te_world \<Rightarrow> bool" where
  "te_transfer_inv w \<longleftrightarrow> (isTransferModalLoading (te w) \<longrightarrow> (\<exists>a t. TransferTx a t \<in> set (te_calls w)))"

definition te_loading_inv :: "te_world \<Rightarrow> bool" where
  "te_loading_inv w \<longleftrightarrow> te_list_inv w \<and> te_meta_inv w \<and> te_edit_inv w \<and> te_transfer_inv w"

subsection \<open>Lemmas\<close>

lemma te_reachable_step_to:
  "te_reachable tcs w \<Longrightarrow> te_step tcs w w' \<Longrightarrow> w' = w'' \<Longrightarrow> te_reachable tcs w''"
  using te_reachable.step by blast

lemmas te_handler_defs = list_fetch_start_def list_fetch_done_def mint_start_def mint_done_def
  mint_refetched_def tm_start_def tm_metadata_def tm_owner_def save_edit_finish_def te_onViewDetails_def
  onOpenEditMetadataModal_def te_onChangeEditModalData_def onUploadFinish_def save_edit_start_def
  save_edit_updated_def onOpenTransferModal_def onChangeTransferModalData_def transfer_start_def
  transfer_done_def

lemma te_list_step: "te_step tcs w w' \<Longrightarrow> te_list_inv w \<Longrightarrow> te_list_inv w'"
proof (induction rule: te_step.induct)
  case (minted n w p s' cont)
  then show ?case
    by (cases p) (auto simp: te_list_inv_def mint_done_def list_fetch_start_def split: if_splits)
qed (auto simp: te_list_inv_def te_handler_defs Let_def split: if_splits promise.splits)

lemma te_meta_step: "te_step tcs w w' \<Longrightarrow> te_meta_inv w \<Longrightarrow> te_meta_inv w'"
proof (induction rule: te_step.induct)
  case (meta_fetched t b w p s' cont)
  then show ?case by (cases p) (force simp: te_meta_inv_def te_handler_defs)+
next
  case (owner_fetched t m b w p)
  then show ?case by (cases p) (auto simp: te_meta_inv_def te_handler_defs)
next
  case (edit_updated t d w p s' cont)
  then show ?case by (cases p) (auto simp: te_meta_inv_def te_handler_defs)
next
  case (minted n w p s' cont)
  then show ?case by (cases p) (auto simp: te_meta_inv_def te_handler_defs split: if_splits)
qed (auto simp: te_meta_inv_def te_handler_defs Let_def split: if_splits promise.splits)

lemma te_edit_step: "te_step tcs w w' \<Longrightarrow> te_edit_inv w \<Longrightarrow> te_edit_inv w'"
proof (induction rule: te_step.induct)
  case (meta_fetched t b w p s' cont)
  then show ?case by (cases p; cases b) (auto simp: te_edit_inv_def te_handler_defs)
next
  case (owner_fetched t m b w p)
  then show ?case by (cases p; cases b) (auto simp: te_edit_inv_def te_handler_defs)
next
  case (edit_updated t d w p s' cont)
  then show ?case by (cases p) (auto simp: te_edit_inv_def te_handler_defs)
next
  case (minted n w p s' cont)
  then show ?case by (cases p) (auto simp: te_edit_inv_def te_handler_defs split: if_splits)
qed (auto simp: te_edit_inv_def te_handler_defs Let_def split: if_splits promise.splits)

lemma te_transfer_step: "te_step tcs w w' \<Longrightarrow> te_transfer_inv w \<Longrightarrow> te_transfer_inv w'"
proof (induction rule: te_step.induct)
  case (meta_fetched t b w p s' cont)
  then show ?case by (cases p) (auto simp: te_transfer_inv_def te_handler_defs)
next
  case (minted n w p s' cont)
  then show ?case by (cases p) (auto simp: te_transfer_inv_def te_handler_defs split: if_splits)
qed (auto simp: te_transfer_inv_def te_handler_defs Let_def split: if_splits promise.splits)

lemma te_reachable_loading_inv: "te_reachable tcs w \<Longrightarrow> te_loading_inv w"
proof (induction rule: te_reachable.induct)
  case init
  then show ?case
    by (simp add: te_loading_inv_def te_list_inv_def te_meta_inv_def te_edit_inv_def te_transfer_inv_def te_init_def)
next
  case (step w w')
  then show ?case
    by (simp add: te_loading_inv_def te_list_step te_meta_step te_edit_step te_transfer_step)
qed

text \<open>
  C24: the id \<open>onAddNewToken\<close> mints is the list's length plus two, which need not be
  free: when the contract holds the single token 3, the list shows it and New mints id
  3 again.
\<close>

theorem mint_id_already_listed:
  "\<exists>w w'. te_reachable (Some READY) w \<and> listAllTokens (Inr (Some [3])) = Fulfilled (tokensList (te w)) \<and>
          te_step (Some READY) w w' \<and> MintTx 3 \<in> set (te_calls w')"
proof -
  let ?s1 = "te_init\<lparr>isTokensListLoading := True\<rparr>"
  have r1: "te_reachable (Some READY) \<lparr>te = ?s1, te_calls = [ListFetch]\<rparr>"
    by (rule te_reachable_step_to [OF te_reachable.init te_step.list_fetch]) (simp_all add: list_fetch_start_def)
  let ?s2 = "te_init\<lparr>tokensList := [decimal 3]\<rparr>"
  have r2: "te_reachable (Some READY) \<lparr>te = ?s2, te_calls = []\<rparr>"
    by (rule te_reachable_step_to [OF r1 te_step.list_fetched [of _ "Fulfilled [decimal 3]"]])
       (simp_all add: list_fetch_done_def te_init_def)
  have "te_step (Some READY) \<lparr>te = ?s2, te_calls = []\<rparr> \<lparr>te = ?s2\<lparr>isTokensListLoading := True\<rparr>, te_calls = [MintTx 3]\<rparr>"
    using te_step.new [of "\<lparr>te = ?s2, te_calls = []\<rparr>" "?s2\<lparr>isTokensListLoading := True\<rparr>" 3 "Some READY"]
    by (simp add: mint_start_def te_init_def)
  with r2 show ?thesis
    by (intro exI [of _ "\<lparr>te = ?s2, te_calls = []\<rparr>"] exI [of _ "\<lparr>te = ?s2\<lparr>isTokensListLoading := True\<rparr>, te_calls = [MintTx 3]\<rparr>"])
       (simp add: listAllTokens_def)
qed

text \<open>
  C26: a successful upload replaces the whole edit form by \<open>{photo}\<close>: every other
  field the user entered or the token's metadata supplied is gone, and Update sends the
  metadata without them.
\<close>

theorem upload_drops_edits:
  assumes "onUploadFinish error result s = Inr s'" and "js_get result ''event'' = Some (JStr ''success'')"
  shows "\<forall>k. k \<noteq> ''photo'' \<longrightarrow> json_get (editModalData s') k = None"
  using assms by (auto simp: onUploadFinish_def Let_def split: if_splits option.splits)

lemma upload_drops_edits_witness:
  "json_get (editModalData (te_init\<lparr>editModalData := JObj [(''photo'', JStr ''u.png'')]\<rparr>)) ''remarks'' = None"
proof -
  let ?r = "Some (JObj [(''event'', JStr ''success''), (''info'', JObj [(''secure_url'', JStr ''u.png'')])])"
  have "onUploadFinish None ?r te_init = Inr (te_init\<lparr>editModalData := JObj [(''photo'', JStr ''u.png'')]\<rparr>)"
    by (simp add: onUploadFinish_def nullish_def)
  from upload_drops_edits [OF this] show ?thesis by simp
qed

text \<open>
  C10: in every reachable state of the token editor each loading flag is up only while
  a call that lowers it is under way, so no dimmer or button stays blocked without
  a pending call.
\<close>

theorem te_loading_only_with_call:
  "te_reachable tcs w \<Longrightarrow> te_loading_inv w"
  by (rule te_reachable_loading_inv)

lemma te_loading_only_with_call_witness: "te_loading_inv \<lparr>te = te_init, te_calls = []\<rparr>"
  by (rule te_loading_only_with_call [OF te_reachable.init [of "Some READY"]])

text \<open>
  C25: the list effect can run while a mint is under way (it re-runs when
  \<open>listAllTokens\<close> changes, which depends on \<open>accountAddress\<close>); its answer lowers
  the list flag, which enables New again, and a second click mints the same id while
  the first mint is still under way.
\<close>

theorem refetch_during_mint_mints_twice:
  "\<exists>w w'. te_reachable (Some READY) w \<and> MintTx 2 \<in> set (te_calls w) \<and> \<not> isTokensListLoading (te w) \<and>
          te_step (Some READY) w w' \<and> te_calls w' = [MintTx 2, MintTx 2]"
proof -
  let ?s1 = "te_init\<lparr>isTokensListLoading := True\<rparr>"
  have r1: "te_reachable (Some READY) \<lparr>te = ?s1, te_calls = [MintTx 2]\<rparr>"
    by (rule te_reachable_step_to [OF te_reachable.init te_step.new])
       (simp_all add: mint_start_def te_init_def)
  have r2: "te_reachable (Some READY) \<lparr>te = ?s1, te_calls = [ListFetch, MintTx 2]\<rparr>"
    by (rule te_reachable_step_to [OF r1 te_step.list_fetch]) (simp_all add: list_fetch_start_def)
  have r3: "te_reachable (Some READY) \<lparr>te = te_init, te_calls = [MintTx 2]\<rparr>"
    by (rule te_reachable_step_to [OF r2 te_step.list_fetched [where p = "Fulfilled []"]])
       (simp_all add: list_fetch_done_def te_init_def)
  let ?w3 = "\<lparr>te = te_init, te_calls = [MintTx 2]\<rparr>"
  have "te_step (Some READY) ?w3 (?w3\<lparr>te := te_init\<lparr>isTokensListLoading := True\<rparr>, te_calls := MintTx 2 # te_calls ?w3\<rparr>)"
    by (rule te_step.new) (simp_all add: mint_start_def te_init_def)
  then have s: "te_step (Some READY) ?w3
      \<lparr>te = te_init\<lparr>isTokensListLoading := True\<rparr>, te_calls = [MintTx 2, MintTx 2]\<rparr>" by simp
  have "MintTx 2 \<in> set (te_calls ?w3)" "\<not> isTokensListLoading (te ?w3)" by (simp_all add: te_init_def)
  moreover have "te_calls \<lparr>te = te_init\<lparr>isTokensListLoading := True\<rparr>, te_calls = [MintTx 2, MintTx 2]\<rparr> =
      [MintTx 2, MintTx 2]" by simp
  ultimately show ?thesis using r3 s by blast
qed

end
