(* ===== verification/AccountMetadata.thy ===== *)
theory AccountMetadata
  imports ContractCalls
begin

text \<open>
  Model of the account metadata store (\<^verbatim>\<open>src/src/store/StoreContext.js\<close>,
  \<^verbatim>\<open>src/src/store/useStore.js\<close>) and of the profile editor that uses it
  (\<^verbatim>\<open>src/src/components/AccountMetadata/index.js\<close>). The store is a one-action
  reducer; \<open>setAccountMetadata\<close> dispatches its action. The editor's state hooks are
  the record \<open>am_editor\<close>; its metadata effect and \<open>onSaveEditModalData\<close> are split
  at their \<open>await\<close>s, and \<open>am_step\<close> interleaves them with the user's handlers and the
  selection of another account in the connection hook.
\<close>

subsection \<open>The store\<close>

record store_state =
  accountMetadata :: "json option"

record store_action =
  stype :: string
  spayload :: "json option"

definition STORE_INIT_STATE :: store_state where
  "STORE_INIT_STATE = \<lparr>accountMetadata = Some JNull\<rparr>"

definition store_reducer :: "store_state \<Rightarrow> store_action \<Rightarrow> js_error + store_state" where
  "store_reducer state action =
     (if stype action = ''SET_ACCOUNT_METADATA'' then Inr (state\<lparr>accountMetadata := spayload action\<rparr>)
      else Inl (Error (''Unknown type: '' @ stype action)))"

definition setAccountMetadata :: "json \<Rightarrow> store_state \<Rightarrow> js_error + store_state" where
  "setAccountMetadata m st = store_reducer st \<lparr>stype = ''SET_ACCOUNT_METADATA'', spayload = Some m\<rparr>"

subsection \<open>The profile editor\<close>

record am_editor =
  isEditModalOpen :: bool
  isEditModalLoading :: bool
  editModalData :: json

definition am_init :: am_editor where
  "am_init =
     \<lparr>isEditModalOpen = False, isEditModalLoading = False,
      editModalData = JObj [(''name'', JStr []), (''location'', JStr []), (''phone'', JStr []), (''email'', JStr [])]\<rparr>"

text \<open>
  \<open>getMetadataOnAccountSelect\<close> after its \<open>await getAccountMetadata(accountAddress)\<close>:
  the answer, or \<open>null\<close> on a rejection, goes to the store.
\<close>

definition am_fetch_done :: "json promise \<Rightarrow> store_state \<Rightarrow> js_error + store_state" where
  "am_fetch_done p st =
     (case p of
        Pending \<Rightarrow> Inr st
      | Fulfilled m \<Rightarrow> setAccountMetadata m st
      | Rejected e \<Rightarrow> setAccountMetadata JNull st)"

text \<open>\<open>{...editModalData, ...accountMetadata}\<close>: the metadata's entries win.\<close>

definition onOpenEditModal :: "store_state \<Rightarrow> am_editor \<Rightarrow> am_editor" where
  "onOpenEditModal st s =
     s\<lparr>editModalData := JObj (spread_props (accountMetadata st) @ spread_props (Some (editModalData s))),
       isEditModalOpen := True\<rparr>"

definition onChangeEditModalData :: "string \<Rightarrow> string \<Rightarrow> am_editor \<Rightarrow> am_editor" where
  "onChangeEditModalData field v s =
     s\<lparr>editModalData := JObj ((field, JStr v) # spread_props (Some (editModalData s)))\<rparr>"

text \<open>
  \<open>onSaveEditModalData\<close>: the flag is raised and
  \<open>updateAccountMetadata(accountAddress, editModalData)\<close> awaited; a rejection lowers
  the flag and keeps the modal open; success awaits the metadata effect's body again
  (\<open>True\<close>) and then \<open>am_save_finish\<close> lowers the flag and closes the modal.
\<close>

definition am_save_start :: "am_editor \<Rightarrow> am_editor" where
  "am_save_start s = s\<lparr>isEditModalLoading := True\<rparr>"

definition am_save_updated :: "bool promise \<Rightarrow> am_editor \<Rightarrow> am_editor \<times> bool" where
  "am_save_updated p s =
     (case p of
        Pending \<Rightarrow> (s, False)
      | Fulfilled b \<Rightarrow> (s, True)
      | Rejected e \<Rightarrow> (s\<lparr>isEditModalLoading := False\<rparr>, False))"

definition am_save_finish :: "am_editor \<Rightarrow> am_editor" where
  "am_save_finish s = s\<lparr>isEditModalLoading := False, isEditModalOpen := False\<rparr>"

subsection \<open>The editor over time\<close>

text \<open>
  The calls under way: a metadata fetch for an address (flagged when it runs inside
  \<open>onSaveEditModalData\<close>) and a metadata update with the address and data it sends.
  The effect runs on mount and after the hook selects another account
  (\<open>select_account\<close>, \<^verbatim>\<open>useSubstrate.js\<close> \<open>setAccountAddress\<close>). Update,
  Cancel and the modal's \<open>onClose\<close> are disabled while the modal loads.
\<close>

datatype am_call = AmFetch "string option" bool | AmUpdate "string option" json

record am_world =
  am :: am_editor
  am_store :: store_state
  am_account :: "string option"
  am_calls :: "am_call list"

inductive am_step :: "am_world \<Rightarrow> am_world \<Rightarrow> bool" where
  fetch: "am_step w (w\<lparr>am_calls := AmFetch (am_account w) False # am_calls w\<rparr>)"
| fetched:
    "AmFetch a b \<in> set (am_calls w) \<Longrightarrow> p \<noteq> Pending \<Longrightarrow> am_fetch_done p (am_store w) = Inr st \<Longrightarrow>
     am_step w (w\<lparr>am := (if b then am_save_finish (am w) else am w), am_store := st,
                  am_calls := remove1 (AmFetch a b) (am_calls w)\<rparr>)"
| select_account:
    "am_step w (w\<lparr>am_account := Some a, am_calls := AmFetch (Some a) False # am_calls w\<rparr>)"
| open_edit: "am_step w (w\<lparr>am := onOpenEditModal (am_store w) (am w)\<rparr>)"
| change: "am_step w (w\<lparr>am := onChangeEditModalData field v (am w)\<rparr>)"
| save:
    "\<not> isEditModalLoading (am w) \<Longrightarrow>
     am_step w (w\<lparr>am := am_save_start (am w), am_calls := AmUpdate (am_account w) (editModalData (am w)) # am_calls w\<rparr>)"
| updated:
    "AmUpdate a d \<in> set (am_calls w) \<Longrightarrow> p \<noteq> Pending \<Longrightarrow> am_save_updated p (am w) = (s', cont) \<Longrightarrow>
     am_step w (w\<lparr>am := s', am_calls := (if cont then [AmFetch a True] else []) @ remove1 (AmUpdate a d) (am_calls w)\<rparr>)"
| cancel: "\<not> isEditModalLoading (am w) \<Longrightarrow> am_step w (w\<lparr>am := (am w)\<lparr>isEditModalOpen := False\<rparr>\<rparr>)"

inductive am_reachable :: "string option \<Rightarrow> am_world \<Rightarrow> bool" for acct :: "string option" where
  init: "am_reachable acct \<lparr>am = am_init, am_store = STORE_INIT_STATE, am_account = acct, am_calls = [AmFetch acct False]\<rparr>"
| step: "am_reachable acct w \<Longrightarrow> am_step w w' \<Longrightarrow> am_reachable acct w'"

subsection \<open>Lemmas\<close>

lemma am_reachable_step_to:
  "am_reachable acct w \<Longrightarrow> am_step w w' \<Longrightarrow> w' = w'' \<Longrightarrow> am_reachable acct w''"
  using am_reachable.step by blast

text \<open>
  C27: the profile form keeps what was typed for another account: a phone number entered
  for account A stays in the form after switching to account B, whose metadata has no
  phone, so B's Edit shows, and Update would write, A's phone.
\<close>

theorem edit_form_keeps_other_account_field:
  "\<exists>w. am_reachable (Some ''A'') w \<and> am_account w = Some ''B'' \<and>
       accountMetadata (am_store w) = Some (JObj [(''name'', JStr ''Bob'')]) \<and>
       isEditModalOpen (am w) \<and> json_get (editModalData (am w)) ''phone'' = Some (JStr ''555'')"
proof -
  let ?w0 = "\<lparr>am = am_init, am_store = STORE_INIT_STATE, am_account = Some ''A'', am_calls = [AmFetch (Some ''A'') False]\<rparr>"
  let ?e1 = "onChangeEditModalData ''phone'' ''555'' (onOpenEditModal STORE_INIT_STATE am_init)"
  have r1: "am_reachable (Some ''A'') (?w0\<lparr>am := ?e1\<rparr>)"
  proof -
    have "am_reachable (Some ''A'') (?w0\<lparr>am := onOpenEditModal STORE_INIT_STATE am_init\<rparr>)"
      by (rule am_reachable_step_to [OF am_reachable.init am_step.open_edit]) simp
    then show ?thesis by (rule am_reachable_step_to [OF _ am_step.change]) simp
  qed
  let ?w2 = "?w0\<lparr>am := ?e1, am_account := Some ''B'', am_calls := [AmFetch (Some ''B'') False, AmFetch (Some ''A'') False]\<rparr>"
  have r2: "am_reachable (Some ''A'') ?w2"
    by (rule am_reachable_step_to [OF r1 am_step.select_account]) simp
  let ?st = "\<lparr>accountMetadata = Some (JObj [(''name'', JStr ''Bob'')])\<rparr>"
  have "am_fetch_done (Fulfilled (JObj [(''name'', JStr ''Bob'')])) (am_store ?w2) = Inr ?st"
    by (simp add: am_fetch_done_def setAccountMetadata_def store_reducer_def STORE_INIT_STATE_def)
  from am_step.fetched [OF _ _ this, of "Some ''B''" False]
  have "am_step ?w2 (?w2\<lparr>am_store := ?st, am_calls := [AmFetch (Some ''A'') False]\<rparr>)" by simp
  from am_reachable.step [OF r2 this]
  have r3: "am_reachable (Some ''A'') (?w2\<lparr>am_store := ?st, am_calls := [AmFetch (Some ''A'') False]\<rparr>)" .
  let ?w4 = "?w2\<lparr>am_store := ?st, am_calls := [AmFetch (Some ''A'') False], am := onOpenEditModal ?st ?e1\<rparr>"
  have r4: "am_reachable (Some ''A'') ?w4"
    by (rule am_reachable_step_to [OF r3 am_step.open_edit]) simp
  then show ?thesis
    by (intro exI [of _ ?w4]) (simp add: onOpenEditModal_def onChangeEditModalData_def am_init_def STORE_INIT_STATE_def)
qed

end
