(* ===== verification/AuthPages.thy ===== *)
theory AuthPages
  imports AuthSession
begin

text \<open>
  Model of the three auth pages: \<^verbatim>\<open>containers/Pages/Auth/Signup/index.js\<close>,
  \<^verbatim>\<open>containers/Pages/AssetHandler/index.js\<close> (the login page) and
  \<^verbatim>\<open>containers/Pages/Auth/ResetPassword/index.js\<close>. Each page is a class component
  whose \<open>this.state\<close> is a record. A handler that calls a thunk of
  \<^verbatim>\<open>redux/actions/auth.js\<close> runs its synchronous part on the auth system
  (\<open>call_thunk\<close>, through \<open>thunk_start\<close>) and returns the page state, the auth
  system, the notifications it showed and either an exception it threw or the thunk's
  promise: settled at once (\<open>Some\<close>) or with a call under way (\<open>None\<close>). The
  \<open>.then\<close>/\<open>.catch\<close> continuation (\<open>*_settled\<close>) runs on the \<open>thunk_ret\<close> the
  thunk's promise settles with; an exception it throws is an unhandled rejection,
  returned beside the state updates made before it. The form validator
  \<^verbatim>\<open>utils/validator\<close> is not part of the repository: its three functions are the
  parameter \<open>J\<close>.
\<close>

subsection \<open>Shared vocabulary\<close>

record joi =
  validate :: "string list \<Rightarrow> json \<Rightarrow> json"
  validate_value :: "string \<Rightarrow> json \<Rightarrow> json"
  has_error :: "json \<Rightarrow> bool"

text \<open>
  What a handler's thunk call gave: no call, a call under way, a promise that settled at
  once, or a synchronous exception.
\<close>

datatype call_res = NoCall | Underway | SettledAt thunk_ret | Threw js_error

type_synonym 'p page_out = "('p \<times> auth_sys) \<times> notification list \<times> call_res"

type_synonym 'p page_cont = "'p \<times> notification list \<times> js_error option"

text \<open>
  Calling a request thunk: a dispatch Redux refuses throws in the handler; the guard's
  \<open>Promise.reject()\<close> is a promise already rejected with \<open>undefined\<close>; otherwise the
  call is under way.
\<close>

definition call_thunk :: "types_table \<Rightarrow> auth_flag \<Rightarrow> auth_sys \<Rightarrow> auth_sys \<times> call_res" where
  "call_thunk tys f S =
     (case thunk_start tys f (env S) of
        Inl x \<Rightarrow> (S, Threw x)
      | Inr (e', False) \<Rightarrow> (S\<lparr>env := e'\<rparr>, SettledAt (Rejects None))
      | Inr (e', True) \<Rightarrow> (S\<lparr>env := e', inflight := f # inflight S\<rparr>, Underway))"

text \<open>\<open>err.response && err.response.data && err.response.data.errors\<close>, when truthy.\<close>

definition response_errors :: "json option \<Rightarrow> json option" where
  "response_errors err =
     (let r = js_get err ''response''; d = js_get r ''data''; es = js_get d ''errors'' in
      if json_truthy r \<and> json_truthy d \<and> json_truthy es then es else None)"

text \<open>\<open>err.response && err.response.status && err.response.status === 401\<close>\<close>

definition response_401 :: "json option \<Rightarrow> bool" where
  "response_401 err = (let r = js_get err ''response'' in json_truthy r \<and> js_get r ''status'' = Some (JNum 401))"

text \<open>
  The value a \<open>.catch\<close> handler receives: the rejection value, or the exception object
  of a handler that threw.
\<close>

fun caught :: "thunk_ret \<Rightarrow> json option" where
  "caught (Rejects v) = v"
| "caught (RejectsErr x) = error_obj x"
| "caught _ = None"

text \<open>
  The \<open>.catch\<close> handler every page uses: \<open>notifier.error(err.msg)\<close>, which throws
  when there is no \<open>err\<close>, then the server's field errors if there are any.
\<close>

definition page_catch :: "json option \<Rightarrow> js_error + notification \<times> json option" where
  "page_catch err = (if nullish err then Inl type_error else Inr (notifier_error (js_get err ''msg''), response_errors err))"

text \<open>\<open>{...obj, [key]: val}\<close> on the form and error objects.\<close>

definition with_entry :: "string \<Rightarrow> json \<Rightarrow> json \<Rightarrow> json" where
  "with_entry key v obj = JObj ((key, v) # spread_props (Some obj))"

subsection \<open>Signup page\<close>

record signup_page =
  formData :: json
  emailSent :: bool
  emailSentMsg :: string
  retryCounter :: int
  errors :: json

definition DEFAULT_EMAIL_RESEND_COUNTER :: int where
  "DEFAULT_EMAIL_RESEND_COUNTER = 30"

definition signup_init :: signup_page where
  "signup_init =
     \<lparr>formData = JObj [(''firstName'', JStr []), (''lastName'', JStr []), (''username'', JStr []),
                       (''email'', JStr []), (''password'', JStr [])],
      emailSent = False, emailSentMsg = [], retryCounter = 0, errors = JObj []\<rparr>"

definition signup_keys :: "string list" where
  "signup_keys = [''firstName'', ''lastName'', ''username'', ''email'', ''password'']"

definition sg_handleChange :: "joi \<Rightarrow> string \<Rightarrow> string \<Rightarrow> signup_page \<Rightarrow> signup_page" where
  "sg_handleChange J v key s =
     s\<lparr>formData := with_entry key (JStr v) (formData s),
       errors := with_entry key (validate_value J key (JStr v)) (errors s)\<rparr>"

text \<open>
  \<open>handleSignupButton\<close>: validate the whole form; with errors, notify and return;
  otherwise call \<open>signup\<close>.
\<close>

definition handleSignupButton :: "joi \<Rightarrow> types_table \<Rightarrow> signup_page \<Rightarrow> auth_sys \<Rightarrow> signup_page page_out" where
  "handleSignupButton J tys s S =
     (let errs = validate J signup_keys (formData s); s1 = s\<lparr>errors := errs\<rparr> in
      if has_error J errs then ((s1, S), [notifier_error (Some (JStr ''Please fix errors''))], NoCall)
      else let (S', r) = call_thunk tys FSignup S in ((s1, S'), [], r))"

text \<open>
  The \<open>.then\<close>/\<open>.catch\<close> of \<open>signup\<close>: success notifies \<open>res.msg\<close> and shows the
  email-sent card; reading \<open>res.msg\<close> of nothing throws into the \<open>.catch\<close>, whose
  \<open>err\<close> is then an exception object without \<open>msg\<close>.
\<close>

definition signup_settled :: "thunk_ret \<Rightarrow> signup_page \<Rightarrow> signup_page page_cont" where
  "signup_settled r s =
     (case r of
        Fulfills res \<Rightarrow>
          if nullish res then (s, [notifier_error None], None)
          else (s\<lparr>emailSent := True\<rparr>, [notifier_success (js_get res ''msg'')], None)
      | _ \<Rightarrow>
          (case page_catch (caught r) of
             Inl x \<Rightarrow> (s, [], Some x)
           | Inr (n, es) \<Rightarrow> (case es of Some v \<Rightarrow> s\<lparr>errors := v\<rparr> | None \<Rightarrow> s, [n], None)))"

text \<open>
  \<open>handleResendVerificationEmail\<close>: validate the email; on an error notify
  \<open>Invalid email address: ${email}\<close>; otherwise call
  \<open>requestResendVerificationEmail\<close>, whose success notifies and restarts the countdown.
\<close>

definition handleResendVerificationEmail :: "joi \<Rightarrow> types_table \<Rightarrow> signup_page \<Rightarrow> auth_sys \<Rightarrow> signup_page page_out" where
  "handleResendVerificationEmail J tys s S =
     (let email = json_get (formData s) ''email'' in
      if has_error J (validate J [''email''] (JObj (case email of Some v \<Rightarrow> [(''email'', v)] | None \<Rightarrow> [])))
      then ((s, S), [notifier_error (Some (JStr (''Invalid email address: '' @ js_String_opt email)))], NoCall)
      else let (S', r) = call_thunk tys FResend S in ((s, S'), [], r))"

definition resend_settled :: "thunk_ret \<Rightarrow> signup_page \<Rightarrow> signup_page page_cont" where
  "resend_settled r s =
     (case r of
        Fulfills res \<Rightarrow>
          if nullish res then (s, [notifier_error None], None)
          else (s\<lparr>retryCounter := DEFAULT_EMAIL_RESEND_COUNTER\<rparr>, [notifier_success (js_get res ''msg'')], None)
      | _ \<Rightarrow> (case page_catch (caught r) of Inl x \<Rightarrow> (s, [], Some x) | Inr (n, es) \<Rightarrow> (s, [n], None)))"

text \<open>
  One tick of the \<open>setInterval\<close> of \<open>startResendCountDown\<close>: decrement a positive
  counter, reset a negative one.
\<close>

definition tick :: "signup_page \<Rightarrow> signup_page" where
  "tick s =
     (let s1 = (if retryCounter s > 0 then s\<lparr>retryCounter := retryCounter s - 1\<rparr> else s) in
      if retryCounter s1 < 0 then s1\<lparr>retryCounter := 0\<rparr> else s1)"

text \<open>
  The interval's ticks until the resend button is enabled (\<open>retryCounter > 0\<close> disables
  it), counted; \<open>None\<close> would be a countdown that never ends.
\<close>

partial_function (option) ticks_to_enable :: "signup_page \<Rightarrow> nat option" where
  "ticks_to_enable s = (if retryCounter s > 0 then Option.bind (ticks_to_enable (tick s)) (\<lambda>k. Some (Suc k)) else Some 0)"

subsection \<open>Login page\<close>

record login_page =
  lg_formData :: json
  lg_errors :: json
  activeTab :: string
  lg_msg :: string
  lg_from :: "json option"

definition TAB_LOGIN :: string where "TAB_LOGIN = ''1''"
definition TAB_RESEND_VERIFICATION :: string where "TAB_RESEND_VERIFICATION = ''2''"
definition TAB_FORGOT_PASSWORD :: string where "TAB_FORGOT_PASSWORD = ''3''"

definition login_init :: login_page where
  "login_init =
     \<lparr>lg_formData = JObj [(''email'', JStr []), (''password'', JStr [])], lg_errors = JObj [],
      activeTab = TAB_LOGIN, lg_msg = [], lg_from = Some JNull\<rparr>"

definition lg_handleChange :: "joi \<Rightarrow> string \<Rightarrow> string \<Rightarrow> login_page \<Rightarrow> login_page" where
  "lg_handleChange J v key s =
     s\<lparr>lg_formData := with_entry key (JStr v) (lg_formData s),
       lg_errors := with_entry key (validate_value J key (JStr v)) (lg_errors s)\<rparr>"

text \<open>
  The three buttons that call a thunk share one shape: validate (the whole form, or the
  email alone), notify and return on errors, otherwise call the thunk.
\<close>

definition lg_call ::
  "joi \<Rightarrow> types_table \<Rightarrow> string list \<Rightarrow> json \<Rightarrow> auth_flag \<Rightarrow> login_page \<Rightarrow> auth_sys \<Rightarrow> login_page page_out" where
  "lg_call J tys keys data f s S =
     (let errs = validate J keys data; s1 = s\<lparr>lg_errors := errs\<rparr> in
      if has_error J errs then ((s1, S), [notifier_error (Some (JStr ''Please fix errors''))], NoCall)
      else let (S', r) = call_thunk tys f S in ((s1, S'), [], r))"

definition email_only :: "login_page \<Rightarrow> json" where
  "email_only s = JObj (case json_get (lg_formData s) ''email'' of Some v \<Rightarrow> [(''email'', v)] | None \<Rightarrow> [])"

definition handleLoginButton :: "joi \<Rightarrow> types_table \<Rightarrow> login_page \<Rightarrow> auth_sys \<Rightarrow> login_page page_out" where
  "handleLoginButton J tys s S = lg_call J tys [''email'', ''password''] (lg_formData s) FLogin s S"

definition handleResetPwdButton :: "joi \<Rightarrow> types_table \<Rightarrow> login_page \<Rightarrow> auth_sys \<Rightarrow> login_page page_out" where
  "handleResetPwdButton J tys s S = lg_call J tys [''email''] (email_only s) FPwdResetRequest s S"

definition handleResendVerificationButton :: "joi \<Rightarrow> types_table \<Rightarrow> login_page \<Rightarrow> auth_sys \<Rightarrow> login_page page_out" where
  "handleResendVerificationButton J tys s S = lg_call J tys [''email''] (email_only s) FResend s S"

text \<open>
  The \<open>.catch\<close> of the login and reset-request calls: notify, show the server's field
  errors, and switch to the resend-verification tab on a 401 answer.
\<close>

definition lg_catch :: "bool \<Rightarrow> thunk_ret \<Rightarrow> login_page \<Rightarrow> login_page page_cont" where
  "lg_catch tab401 r s =
     (case page_catch (caught r) of
        Inl x \<Rightarrow> (s, [], Some x)
      | Inr (n, es) \<Rightarrow>
          (let s1 = (case es of Some v \<Rightarrow> s\<lparr>lg_errors := v\<rparr> | None \<Rightarrow> s) in
           (if tab401 \<and> response_401 (caught r) then s1\<lparr>activeTab := TAB_RESEND_VERIFICATION\<rparr> else s1, [n], None)))"

text \<open>
  After \<open>login\<close> succeeds the page notifies \<open>res.msg\<close> and calls \<open>getMe()\<close> inside
  the \<open>.then\<close>; an exception there (no \<open>res\<close>, or Redux refusing the dispatch) goes to
  the \<open>.catch\<close>. The \<open>getMe\<close> promise has no \<open>.catch\<close> of its own: its success
  pushes the redirect (\<open>login_redirected\<close>).
\<close>

definition login_settled :: "types_table \<Rightarrow> thunk_ret \<Rightarrow> login_page \<Rightarrow> auth_sys \<Rightarrow> login_page page_out" where
  "login_settled tys r s S =
     (case r of
        Fulfills res \<Rightarrow>
          if nullish res then ((s, S), [notifier_error None], NoCall)
          else (case call_thunk tys FGetMe S of
                  (S', Threw x) \<Rightarrow>
                    (let (s', ns, ex) = lg_catch True (RejectsErr x) s in
                     ((s', S'), notifier_success (js_get res ''msg'') # ns, case ex of Some y \<Rightarrow> Threw y | None \<Rightarrow> NoCall))
                | (S', g) \<Rightarrow> ((s, S'), [notifier_success (js_get res ''msg'')], g))
      | _ \<Rightarrow> (let (s', ns, ex) = lg_catch True r s in ((s', S), ns, case ex of Some y \<Rightarrow> Threw y | None \<Rightarrow> NoCall)))"

text \<open>\<open>(location && location.state && location.state.from) || '/'\<close>\<close>

definition redirect_of :: "json option \<Rightarrow> json" where
  "redirect_of location =
     (let st = js_get location ''state''; fr = js_get st ''from'' in
      if json_truthy location \<and> json_truthy st \<and> json_truthy fr then (case fr of Some v \<Rightarrow> v | None \<Rightarrow> JStr ''/'')
      else JStr ''/'')"

text \<open>
  \<open>history.push(redirect)\<close>: a path string is pushed as it is, a location object
  (what the router stores in \<open>state.from\<close>) as its \<open>pathname\<close>.
\<close>

definition push_path :: "json \<Rightarrow> string" where
  "push_path v = (case v of JObj kvs \<Rightarrow> (case map_of kvs ''pathname'' of Some p \<Rightarrow> js_String p | None \<Rightarrow> [])
                  | _ \<Rightarrow> js_String v)"

definition login_redirected :: "json option \<Rightarrow> thunk_ret \<Rightarrow> string list \<Rightarrow> string list" where
  "login_redirected location r hist =
     (case r of Fulfills v \<Rightarrow> hist @ [push_path (redirect_of location)] | _ \<Rightarrow> hist)"

definition pwd_reset_request_settled :: "thunk_ret \<Rightarrow> login_page \<Rightarrow> login_page page_cont" where
  "pwd_reset_request_settled r s =
     (case r of
        Fulfills res \<Rightarrow> if nullish res then (s, [notifier_error None], None) else (s, [notifier_success (js_get res ''msg'')], None)
      | _ \<Rightarrow> lg_catch True r s)"

definition lg_resend_settled :: "thunk_ret \<Rightarrow> login_page \<Rightarrow> login_page page_cont" where
  "lg_resend_settled r s =
     (case r of
        Fulfills res \<Rightarrow> if nullish res then (s, [notifier_error None], None) else (s, [notifier_success (js_get res ''msg'')], None)
      | _ \<Rightarrow> lg_catch False r s)"

definition handleForgotPasswordButton :: "login_page \<Rightarrow> login_page" where
  "handleForgotPasswordButton s = s\<lparr>activeTab := TAB_FORGOT_PASSWORD\<rparr>"

definition handleTabChange :: "string \<Rightarrow> login_page \<Rightarrow> login_page" where
  "handleTabChange tab s = s\<lparr>activeTab := tab\<rparr>"

subsection \<open>Reset password page\<close>

record reset_page =
  token :: string
  hasCheckedToken :: bool
  isTokenValid :: bool
  hasFinishedResetPassword :: bool
  isSuccessful :: bool
  password :: string
  passwordConfirmation :: string
  rp_errors :: json
  rp_msg :: "json option"

definition reset_init :: reset_page where
  "reset_init =
     \<lparr>token = [], hasCheckedToken = False, isTokenValid = False, hasFinishedResetPassword = False,
      isSuccessful = False, password = [], passwordConfirmation = [], rp_errors = JObj [],
      rp_msg = Some (JStr [])\<rparr>"

text \<open>
  \<open>componentDidMount\<close>: without a code in the URL the page shows \<open>Invalid request!\<close>;
  otherwise it stores the code and awaits \<open>to(verifyPwdResetToken(code))\<close>.
\<close>

definition reset_mount :: "types_table \<Rightarrow> string option \<Rightarrow> reset_page \<Rightarrow> auth_sys \<Rightarrow> reset_page page_out" where
  "reset_mount tys code s S =
     (case code of
        Some c \<Rightarrow>
          if c \<noteq> [] then let (S', r) = call_thunk tys FVerifyToken S in ((s\<lparr>token := c\<rparr>, S'), [], r)
          else ((s\<lparr>hasCheckedToken := True, isTokenValid := False, rp_msg := Some (JStr ''Invalid request!'')\<rparr>, S), [], NoCall)
      | None \<Rightarrow>
          ((s\<lparr>hasCheckedToken := True, isTokenValid := False, rp_msg := Some (JStr ''Invalid request!'')\<rparr>, S), [], NoCall))"

text \<open>
  After the \<open>await\<close>: \<open>to\<close> turns the promise into \<open>[err, res]\<close>. A truthy \<open>err\<close>
  marks the token invalid with \<open>err.msg\<close>; otherwise the token is valid with
  \<open>res.msg\<close>, which throws when the promise was rejected with nothing (or fulfilled
  with nothing): the page then stays on its unchecked screen.
\<close>

definition reset_verified :: "thunk_ret \<Rightarrow> reset_page \<Rightarrow> reset_page page_cont" where
  "reset_verified r s =
     (let (err, res) = (case r of Fulfills v \<Rightarrow> (None, v) | _ \<Rightarrow> (caught r, None)) in
      if json_truthy err then (s\<lparr>hasCheckedToken := True, isTokenValid := False, rp_msg := js_get err ''msg''\<rparr>, [], None)
      else if nullish res then (s, [], Some type_error)
      else (s\<lparr>hasCheckedToken := True, isTokenValid := True, rp_msg := js_get res ''msg''\<rparr>, [], None))"

definition rp_handleChange :: "joi \<Rightarrow> string \<Rightarrow> string \<Rightarrow> reset_page \<Rightarrow> reset_page" where
  "rp_handleChange J v key s =
     (let s1 = (if key = ''password'' then s\<lparr>password := v\<rparr>
                else if key = ''passwordConfirmation'' then s\<lparr>passwordConfirmation := v\<rparr> else s) in
      s1\<lparr>rp_errors := with_entry key (validate_value J key (JStr v)) (rp_errors s)\<rparr>)"

text \<open>
  \<open>errors[k] = v\<close> on the validator's result, in the class body's strict mode: an
  object gets the entry; \<open>null\<close>, \<open>undefined\<close> and primitives throw.
\<close>

definition js_set_prop :: "string \<Rightarrow> json \<Rightarrow> json \<Rightarrow> js_error + json" where
  "js_set_prop k v obj =
     (case obj of JObj kvs \<Rightarrow> Inr (JObj ((k, v) # kvs)) | JArr xs \<Rightarrow> Inr obj | _ \<Rightarrow> Inl type_error)"

text \<open>
  \<open>handleResetButton\<close>: validate both fields, add the mismatch error by hand, notify
  and return on errors, otherwise call \<open>resetPwd\<close>.
\<close>

definition handleResetButton :: "joi \<Rightarrow> types_table \<Rightarrow> reset_page \<Rightarrow> auth_sys \<Rightarrow> reset_page page_out" where
  "handleResetButton J tys s S =
     (let errs0 = validate J [''password'', ''passwordConfirmation'']
                    (JObj [(''password'', JStr (password s)), (''passwordConfirmation'', JStr (passwordConfirmation s))]);
          errs1 = (if password s \<noteq> passwordConfirmation s
                   then js_set_prop ''passwordConfirmation'' (JStr ''Password Confirmation does not match to password.'') errs0
                   else Inr errs0)
      in case errs1 of
           Inl x \<Rightarrow> ((s, S), [], Threw x)
         | Inr errs \<Rightarrow>
             (let s1 = s\<lparr>rp_errors := errs\<rparr> in
              if has_error J errs then ((s1, S), [notifier_error (Some (JStr ''Please fix errors''))], NoCall)
              else let (S', r) = call_thunk tys FPwdReset S in ((s1, S'), [], r)))"

definition reset_settled :: "thunk_ret \<Rightarrow> reset_page \<Rightarrow> reset_page page_cont" where
  "reset_settled r s =
     (case r of
        Fulfills res \<Rightarrow>
          if nullish res then (s\<lparr>hasFinishedResetPassword := True, isSuccessful := False, rp_msg := None\<rparr>, [], None)
          else (s\<lparr>hasFinishedResetPassword := True, isSuccessful := True, rp_msg := js_get res ''msg''\<rparr>, [], None)
      | _ \<Rightarrow>
          (let err = caught r in
           if nullish err then (s, [], Some type_error)
           else (s\<lparr>hasFinishedResetPassword := True, isSuccessful := False, rp_msg := js_get err ''msg''\<rparr>, [], None)))"

subsection \<open>The signup page over time\<close>

text \<open>
  The signup page beside the auth system: the user edits the form and presses the
  buttons (Resend only while it is shown, after the email was sent, and enabled,
  \<open>retryCounter \<le> 0\<close>), the interval ticks, and a call under way settles through the
  thunk's \<open>settle\<close> and then the page's continuation. The page awaits at most the calls
  it started (\<open>sg_waits\<close>).
\<close>

record sg_world =
  sg :: signup_page
  sg_sys :: auth_sys
  sg_waits :: "auth_flag list"

text \<open>The pages and the thunks share the notifier: the notifications go to one list.\<close>

definition show_notes :: "notification list \<Rightarrow> auth_sys \<Rightarrow> auth_sys" where
  "show_notes ns S = S\<lparr>env := (env S)\<lparr>notices := notices (env S) @ ns\<rparr>\<rparr>"

definition sg_cont :: "auth_flag \<Rightarrow> thunk_ret \<Rightarrow> signup_page \<Rightarrow> signup_page page_cont" where
  "sg_cont f r s = (if f = FSignup then signup_settled r s else resend_settled r s)"

definition sg_click :: "sg_world \<Rightarrow> auth_flag \<Rightarrow> signup_page page_out \<Rightarrow> sg_world" where
  "sg_click w f out =
     (case out of
        ((s', S'), ns, Underway) \<Rightarrow>
          w\<lparr>sg := s', sg_sys := show_notes ns S', sg_waits := f # sg_waits w\<rparr>
      | ((s', S'), ns, SettledAt r) \<Rightarrow>
          (case sg_cont f r s' of (s'', ns', ex) \<Rightarrow> w\<lparr>sg := s'', sg_sys := show_notes (ns @ ns') S'\<rparr>)
      | ((s', S'), ns, _) \<Rightarrow> w\<lparr>sg := s', sg_sys := show_notes ns S'\<rparr>)"

inductive sg_step :: "joi \<Rightarrow> types_table \<Rightarrow> (json \<Rightarrow> string) \<Rightarrow> sg_world \<Rightarrow> sg_world \<Rightarrow> bool"
  for J tys stringify where
  change: "sg_step J tys stringify w (w\<lparr>sg := sg_handleChange J v key (sg w)\<rparr>)"
| signup: "\<not> emailSent (sg w) \<Longrightarrow> sg_step J tys stringify w (sg_click w FSignup (handleSignupButton J tys (sg w) (sg_sys w)))"
| resend:
    "emailSent (sg w) \<Longrightarrow> \<not> retryCounter (sg w) > 0 \<Longrightarrow>
     sg_step J tys stringify w (sg_click w FResend (handleResendVerificationEmail J tys (sg w) (sg_sys w)))"
| tick: "sg_step J tys stringify w (w\<lparr>sg := tick (sg w)\<rparr>)"
| settled:
    "f \<in> set (sg_waits w) \<Longrightarrow> f \<in> set (inflight (sg_sys w)) \<Longrightarrow> axios_outcome r \<Longrightarrow>
     settle tys stringify f r (env (sg_sys w)) = (e', ret) \<Longrightarrow> sg_cont f ret (sg w) = (s', ns, ex) \<Longrightarrow>
     sg_step J tys stringify w
       (w\<lparr>sg := s', sg_sys := show_notes ns ((sg_sys w)\<lparr>env := e', inflight := remove1 f (inflight (sg_sys w))\<rparr>),
          sg_waits := remove1 f (sg_waits w)\<rparr>)"

inductive sg_reachable :: "joi \<Rightarrow> types_table \<Rightarrow> (json \<Rightarrow> string) \<Rightarrow> sg_world \<Rightarrow> bool"
  for J tys stringify where
  init: "sg_reachable J tys stringify \<lparr>sg = signup_init, sg_sys = page_start st h, sg_waits = []\<rparr>"
| step: "sg_reachable J tys stringify w \<Longrightarrow> sg_step J tys stringify w w' \<Longrightarrow> sg_reachable J tys stringify w'"

definition sg_bounds :: "sg_world \<Rightarrow> bool" where
  "sg_bounds w \<longleftrightarrow> 0 \<le> retryCounter (sg w) \<and> retryCounter (sg w) \<le> DEFAULT_EMAIL_RESEND_COUNTER"

subsection \<open>Lemmas\<close>

lemma tick_counter: "retryCounter (tick s) = (if retryCounter s > 0 then retryCounter s - 1 else max (retryCounter s) 0)"
  by (simp add: tick_def Let_def)

lemma tick_positive: "retryCounter s > 0 \<Longrightarrow> retryCounter (tick s) = retryCounter s - 1"
  by (simp add: tick_counter)

text \<open>
  C14: the resend countdown ends: from any state the interval enables the resend button
  after exactly \<open>retryCounter\<close> ticks (none when it is not positive).
\<close>

theorem countdown_terminates: "ticks_to_enable s = Some (nat (retryCounter s))"
proof (induction "nat (retryCounter s)" arbitrary: s)
  case 0
  then show ?case by (subst ticks_to_enable.simps) simp
next
  case (Suc n)
  then have "nat (retryCounter (tick s)) = n" "retryCounter s > 0" by (simp_all add: tick_positive)
  with Suc.hyps(1) [of "tick s"] Suc.hyps(2) show ?case
    by (subst ticks_to_enable.simps) simp
qed



lemma sg_cont_counter:
  "sg_cont f r s = (s', ns, ex) \<Longrightarrow> retryCounter s' = retryCounter s \<or> retryCounter s' = DEFAULT_EMAIL_RESEND_COUNTER"
  by (auto simp: sg_cont_def signup_settled_def resend_settled_def
           split: thunk_ret.splits if_splits sum.splits prod.splits option.splits)

lemma page_out_counter:
  "fst (fst (handleSignupButton J tys s S)) = s\<lparr>errors := validate J signup_keys (formData s)\<rparr>"
  "fst (fst (handleResendVerificationEmail J tys s S)) = s"
  by (auto simp: handleSignupButton_def handleResendVerificationEmail_def Let_def split: prod.split)

lemma sg_click_counter:
  assumes "fst (fst out) = s1" and "retryCounter s1 = retryCounter (sg w)"
  shows "retryCounter (sg (sg_click w f out)) = retryCounter (sg w) \<or>
         retryCounter (sg (sg_click w f out)) = DEFAULT_EMAIL_RESEND_COUNTER"
  using assms by (auto simp: sg_click_def split: prod.splits call_res.splits dest: sg_cont_counter)

lemma sg_click_handler_counter:
  "retryCounter (sg (sg_click w f (handleSignupButton J tys (sg w) S))) = retryCounter (sg w) \<or>
   retryCounter (sg (sg_click w f (handleSignupButton J tys (sg w) S))) = DEFAULT_EMAIL_RESEND_COUNTER"
  "retryCounter (sg (sg_click w f (handleResendVerificationEmail J tys (sg w) S))) = retryCounter (sg w) \<or>
   retryCounter (sg (sg_click w f (handleResendVerificationEmail J tys (sg w) S))) = DEFAULT_EMAIL_RESEND_COUNTER"
  by (rule sg_click_counter [OF page_out_counter(1)], simp) (rule sg_click_counter [OF page_out_counter(2)], simp)

lemma sg_step_bounds: "sg_step J tys stringify w w' \<Longrightarrow> sg_bounds w \<Longrightarrow> sg_bounds w'"
proof (induction rule: sg_step.induct)
  case (signup w)
  then show ?case
    using sg_click_handler_counter(1) [of w FSignup J tys "sg_sys w"]
    by (auto simp: sg_bounds_def DEFAULT_EMAIL_RESEND_COUNTER_def)
next
  case (resend w)
  then show ?case
    using sg_click_handler_counter(2) [of w FResend J tys "sg_sys w"]
    by (auto simp: sg_bounds_def DEFAULT_EMAIL_RESEND_COUNTER_def)
next
  case (tick w)
  then show ?case by (auto simp: sg_bounds_def tick_counter)
next
  case (settled f w r e' ret s' ns ex)
  then show ?case using sg_cont_counter [OF settled(5)]
    by (auto simp: sg_bounds_def DEFAULT_EMAIL_RESEND_COUNTER_def)
qed (simp add: sg_bounds_def sg_handleChange_def)

text \<open>
  C15: the resend countdown stays within its bounds: in every reachable state of the
  signup page, \<open>0 \<le> retryCounter \<le> DEFAULT_EMAIL_RESEND_COUNTER\<close>.
\<close>

theorem retry_counter_bounds:
  assumes "sg_reachable J tys stringify w"
  shows "0 \<le> retryCounter (sg w) \<and> retryCounter (sg w) \<le> DEFAULT_EMAIL_RESEND_COUNTER"
proof -
  have "sg_bounds w" using assms
  proof induction
    case init
    then show ?case by (simp add: sg_bounds_def signup_init_def DEFAULT_EMAIL_RESEND_COUNTER_def)
  next
    case (step w w')
    then show ?case using sg_step_bounds by blast
  qed
  then show ?thesis by (simp add: sg_bounds_def)
qed

lemma retry_counter_bounds_witness:
  "0 \<le> retryCounter signup_init \<and> retryCounter signup_init \<le> DEFAULT_EMAIL_RESEND_COUNTER"
  using retry_counter_bounds [OF sg_reachable.init [of J tys stringify Map.empty None]]
  by simp

lemma call_thunk_guard:
  "flag f (auth (env S)) \<Longrightarrow> call_thunk tys f S = (S, SettledAt (Rejects None))"
  by (simp add: call_thunk_def thunk_start_def)

text \<open>
  C28: pressing Login while a login is under way makes the page's \<open>.catch\<close> throw:
  the thunk's guard rejects with \<open>undefined\<close> and the handler reads \<open>err.msg\<close> of it.
\<close>

theorem login_click_while_posting_throws:
  assumes "flag FLogin (auth (env S))" and "\<not> has_error J (validate J [''email'', ''password''] (lg_formData s))"
  shows "\<exists>s'. handleLoginButton J tys s S = ((s', S), [], SettledAt (Rejects None)) \<and>
              login_settled tys (Rejects None) s' S = ((s', S), [], Threw type_error)"
  using assms
  by (simp add: handleLoginButton_def lg_call_def call_thunk_guard login_settled_def lg_catch_def page_catch_def Let_def)

lemma login_click_while_posting_throws_witness:
  "\<exists>s'. handleLoginButton \<lparr>validate = \<lambda>ks d. JObj [], validate_value = \<lambda>k v. JObj [], has_error = \<lambda>e. False\<rparr>
          (types Development) login_init
          \<lparr>env = \<lparr>auth = INITIAL_STATE\<lparr>isPostingLogin := True\<rparr>, storage = Map.empty, authHeader = None,
                  notices = [], history = []\<rparr>, inflight = [FLogin]\<rparr> =
          ((s', \<lparr>env = \<lparr>auth = INITIAL_STATE\<lparr>isPostingLogin := True\<rparr>, storage = Map.empty, authHeader = None,
                  notices = [], history = []\<rparr>, inflight = [FLogin]\<rparr>), [], SettledAt (Rejects None)) \<and>
        login_settled (types Development) (Rejects None) s'
          \<lparr>env = \<lparr>auth = INITIAL_STATE\<lparr>isPostingLogin := True\<rparr>, storage = Map.empty, authHeader = None,
                  notices = [], history = []\<rparr>, inflight = [FLogin]\<rparr> =
          ((s', \<lparr>env = \<lparr>auth = INITIAL_STATE\<lparr>isPostingLogin := True\<rparr>, storage = Map.empty, authHeader = None,
                  notices = [], history = []\<rparr>, inflight = [FLogin]\<rparr>), [], Threw type_error)"
  by (rule login_click_while_posting_throws) simp_all

text \<open>
  C29: when the token check is refused by the thunk's guard, the reset page's
  \<open>componentDidMount\<close> throws reading \<open>res.msg\<close> of nothing and the page never leaves
  its unchecked state.
\<close>

theorem reset_mount_guard_throws:
  assumes "flag FVerifyToken (auth (env S))" and "c \<noteq> []"
  shows "reset_mount tys (Some c) s S = ((s\<lparr>token := c\<rparr>, S), [], SettledAt (Rejects None)) \<and>
         reset_verified (Rejects None) (s\<lparr>token := c\<rparr>) = (s\<lparr>token := c\<rparr>, [], Some type_error)"
  using assms by (simp add: reset_mount_def call_thunk_guard reset_verified_def)

lemma reset_mount_guard_throws_witness:
  "reset_mount (types Development) (Some ''c0de'') reset_init
     \<lparr>env = \<lparr>auth = INITIAL_STATE\<lparr>isPostingVerifyPwdResetToken := True\<rparr>, storage = Map.empty, authHeader = None,
             notices = [], history = []\<rparr>, inflight = [FVerifyToken]\<rparr> =
     ((reset_init\<lparr>token := ''c0de''\<rparr>,
       \<lparr>env = \<lparr>auth = INITIAL_STATE\<lparr>isPostingVerifyPwdResetToken := True\<rparr>, storage = Map.empty, authHeader = None,
               notices = [], history = []\<rparr>, inflight = [FVerifyToken]\<rparr>), [], SettledAt (Rejects None)) \<and>
   reset_verified (Rejects None) (reset_init\<lparr>token := ''c0de''\<rparr>) = (reset_init\<lparr>token := ''c0de''\<rparr>, [], Some type_error)"
  by (rule reset_mount_guard_throws) simp_all

end
