(* ===== verification/App.thy ===== *)
theory App
  imports SubstrateHook SupplyChainEditor RolesManager TokenEditor AccountMetadata
begin

text \<open>
  Model of \<^verbatim>\<open>src/src/App.js\<close>: what \<open>Main\<close> renders for a connection state, and
  the application \<open>App\<close> composes: the connection hook's provider
  (\<open>SubstrateContextProvider\<close>) around the metadata store's provider
  (\<open>StoreContextProvider\<close>) around \<open>Main\<close>, which mounts the four editors only while it
  renders the dashboard. \<open>app_step\<close> interleaves the hook's lifecycle steps, the editors'
  steps and the settlement of the metadata requests that outlive an unmounted editor.
\<close>

subsection \<open>What Main renders\<close>

text \<open>The content of an error message: a fixed text, or \<open>`${apiError}`\<close>.\<close>

datatype msg_content = MsgText string | MsgError "obj_ref option"

datatype panel =
    AccountSelectorPanel | AccountMetadataPanel | SupplyChainEditorPanel | RolesManagerPanel
  | TokenEditorPanel | BlockchainInfoHeader | NodeInfoPanel | MetadataPanel
  | BlockNumberPanel bool | DeveloperConsolePanel

datatype screen = Dimmed string | ErrorGrid string msg_content | Dashboard "panel list"

definition loader :: "string \<Rightarrow> screen" where
  "loader text = Dimmed text"

definition message :: "msg_content \<Rightarrow> screen" where
  "message err = ErrorGrid ''Error Connecting to Blockchain'' err"

text \<open>The dashboard's components in the order of the JSX; \<open>BlockNumberPanel True\<close> is \<open>finalized\<close>.\<close>

definition dashboard_panels :: "panel list" where
  "dashboard_panels =
     [AccountSelectorPanel, AccountMetadataPanel, SupplyChainEditorPanel, RolesManagerPanel,
      TokenEditorPanel, BlockchainInfoHeader, NodeInfoPanel, MetadataPanel,
      BlockNumberPanel False, BlockNumberPanel True, DeveloperConsolePanel]"

text \<open>
  The value each \<open>return\<close> of \<open>Main\<close> renders, for the branch \<open>main_view\<close> selects
  (\<^verbatim>\<open>SubstrateState.thy\<close>).
\<close>

fun view_screen :: "substrate_state \<Rightarrow> main_view \<Rightarrow> screen" where
  "view_screen s ApiErrorMessage = message (MsgError (apiError s))"
| "view_screen s ConnectingLoader = loader ''Connecting to Substrate''"
| "view_screen s KeyringErrorMessage = message (MsgText ''Could not initialize keyring'')"
| "view_screen s NoAccountsMessage =
     message (MsgText ''No accounts available to use, please install Polkadot js extension and create new account.'')"
| "view_screen s AccountsLoader =
     loader ''Loading accounts (please review any extension's authorization)''"
| "view_screen s ContractErrorMessage = message (MsgText ''Could not connect to smart contract!'')"
| "view_screen s ContractLoader = loader ''Connecting to SmartContract''"
| "view_screen s Editors = Dashboard dashboard_panels"

definition render_main :: "substrate_state \<Rightarrow> screen" where
  "render_main s = view_screen s (main_view s)"

definition mounts_editors :: "screen \<Rightarrow> bool" where
  "mounts_editors scr = (case scr of Dashboard ps \<Rightarrow> SupplyChainEditorPanel \<in> set ps | _ \<Rightarrow> False)"

subsection \<open>The composed application\<close>

text \<open>
  The hook's world, the metadata store with the profile editor and its requests (the
  store's provider sits above \<open>Main\<close>, so it and the requests outlive the editor), the
  three other editors' worlds, and whether \<open>Main\<close> has the editors mounted.
\<close>

record app_world =
  hk :: hook_world
  amw :: am_world
  scw :: sc_world
  rmw :: rm_world
  tew :: te_world
  mounted :: bool

definition sc_mount :: sc_world where "sc_mount = \<lparr>ed = sc_init, calls = []\<rparr>"
definition rm_mount :: rm_world where "rm_mount = \<lparr>rm = rm_init, rm_calls = []\<rparr>"
definition te_mount :: te_world where "te_mount = \<lparr>te = te_init, te_calls = []\<rparr>"

text \<open>
  After a lifecycle step \<open>Main\<close> renders again: a dashboard that appears mounts the
  editors with their initial state and runs the profile editor's effect; one that stays
  re-runs that effect when \<open>accountAddress\<close> changed (its dependency); one that goes
  away unmounts them, and what their pending calls would set is lost with them.
\<close>

definition remount :: "app_world \<Rightarrow> hook_world \<Rightarrow> app_world" where
  "remount w h' =
     (let s' = substrate h'; acct = accountAddress s' in
      if mounts_editors (render_main s') then
        if mounted w then
          (if acct = am_account (amw w) then w\<lparr>hk := h'\<rparr>
           else w\<lparr>hk := h', amw := (amw w)\<lparr>am_account := acct,
                                        am_calls := AmFetch acct False # am_calls (amw w)\<rparr>\<rparr>)
        else w\<lparr>hk := h', mounted := True, scw := sc_mount, rmw := rm_mount, tew := te_mount,
               amw := (amw w)\<lparr>am := am_init, am_account := acct,
                              am_calls := AmFetch acct False # am_calls (amw w)\<rparr>\<rparr>
      else w\<lparr>hk := h', mounted := False\<rparr>)"

inductive app_step :: "keyring_getPair \<Rightarrow> obj_ref \<Rightarrow> app_world \<Rightarrow> app_world \<Rightarrow> bool"
  for getPair :: keyring_getPair and kr :: obj_ref where
  hook: "hook_step getPair kr (hk w) h' \<Longrightarrow> app_step getPair kr w (remount w h')"
| supply_chain:
    "mounted w \<Longrightarrow>
     sc_step (tokenContractState (substrate (hk w))) (accountAddress (substrate (hk w))) (scw w) x \<Longrightarrow>
     app_step getPair kr w (w\<lparr>scw := x\<rparr>)"
| roles: "mounted w \<Longrightarrow> rm_step (tokenContractState (substrate (hk w))) (rmw w) x \<Longrightarrow>
     app_step getPair kr w (w\<lparr>rmw := x\<rparr>)"
| tokens: "mounted w \<Longrightarrow> te_step (tokenContractState (substrate (hk w))) (tew w) x \<Longrightarrow>
     app_step getPair kr w (w\<lparr>tew := x\<rparr>)"
| profile: "mounted w \<Longrightarrow> am_step (amw w) x \<Longrightarrow> am_account x = am_account (amw w) \<Longrightarrow>
     app_step getPair kr w (w\<lparr>amw := x\<rparr>)"
| late_fetch:
    "\<not> mounted w \<Longrightarrow> AmFetch a b \<in> set (am_calls (amw w)) \<Longrightarrow> p \<noteq> Pending \<Longrightarrow>
     am_fetch_done p (am_store (amw w)) = Inr st \<Longrightarrow>
     app_step getPair kr w (w\<lparr>amw := (amw w)\<lparr>am_store := st, am_calls := remove1 (AmFetch a b) (am_calls (amw w))\<rparr>\<rparr>)"
| late_update:
    "\<not> mounted w \<Longrightarrow> AmUpdate a d \<in> set (am_calls (amw w)) \<Longrightarrow> p \<noteq> Pending \<Longrightarrow>
     am_save_updated p (am (amw w)) = (s', cont) \<Longrightarrow>
     app_step getPair kr w (w\<lparr>amw := (amw w)\<lparr>am_calls := (if cont then [AmFetch a True] else []) @
                                                     remove1 (AmUpdate a d) (am_calls (amw w))\<rparr>\<rparr>)"

definition app_init :: "substrate_state \<Rightarrow> app_world" where
  "app_init s0 =
     \<lparr>hk = init_world s0,
      amw = \<lparr>am = am_init, am_store = STORE_INIT_STATE, am_account = None, am_calls = []\<rparr>,
      scw = sc_mount, rmw = rm_mount, tew = te_mount, mounted = False\<rparr>"

inductive app_reachable :: "keyring_getPair \<Rightarrow> obj_ref \<Rightarrow> app_world \<Rightarrow> bool"
  for getPair :: keyring_getPair and kr :: obj_ref where
  init: "app_reachable getPair kr (app_init (INIT_STATE sock rpcs customTypes))"
| step: "app_reachable getPair kr w \<Longrightarrow> app_step getPair kr w w' \<Longrightarrow> app_reachable getPair kr w'"

definition app_inv :: "app_world \<Rightarrow> bool" where
  "app_inv w \<longleftrightarrow>
     hook_inv (hk w) \<and>
     (mounted w \<longleftrightarrow> main_view (substrate (hk w)) = Editors) \<and>
     (mounted w \<longrightarrow> am_account (amw w) = accountAddress (substrate (hk w))) \<and>
     sc_loading_inv (scw w) \<and> rm_meta_inv (rmw w)"

subsection \<open>Lemmas\<close>

lemma mounts_editors_render: "mounts_editors (render_main s) \<longleftrightarrow> main_view s = Editors"
  by (cases "main_view s")
     (simp_all add: render_main_def mounts_editors_def loader_def message_def dashboard_panels_def)

lemma hk_remount [simp]: "hk (remount w h') = h'"
  by (simp add: remount_def Let_def)

lemma mounted_remount [simp]: "mounted (remount w h') \<longleftrightarrow> main_view (substrate h') = Editors"
  by (simp add: remount_def Let_def mounts_editors_render)

lemma app_inv_init: "app_inv (app_init (INIT_STATE sock rpcs customTypes))"
  using hook_inv_init [of sock rpcs customTypes]
  by (simp add: app_inv_def app_init_def init_world_def main_view_Editors INIT_STATE_def sc_mount_def
      rm_mount_def sc_loading_inv_def sc_init_def rm_meta_inv_def rm_init_def)

lemma app_inv_remount:
  assumes "app_inv w" and "hook_inv h'" shows "app_inv (remount w h')"
  using assms
  by (auto simp: app_inv_def remount_def Let_def mounts_editors_render sc_mount_def rm_mount_def
      sc_loading_inv_def sc_init_def rm_meta_inv_def rm_init_def)

lemma app_step_inv:
  assumes "app_step getPair kr w w'" and "app_inv w" shows "app_inv w'"
  using assms
proof induction
  case (hook w h')
  then have "hook_inv h'" using hook_step_inv by (auto simp: app_inv_def)
  with hook.prems show ?case by (rule app_inv_remount)
next
  case (supply_chain w x)
  then show ?case by (simp add: app_inv_def sc_step_loading_inv)
next
  case (roles w x)
  then show ?case by (simp add: app_inv_def rm_step_meta_inv)
qed (simp_all add: app_inv_def)

lemma app_reachable_inv: "app_reachable getPair kr w \<Longrightarrow> app_inv w"
  by (induction rule: app_reachable.induct) (simp_all add: app_inv_init app_step_inv)

lemma app_reachable_hook: "app_reachable getPair kr w \<Longrightarrow> reachable getPair kr (hk w)"
proof (induction rule: app_reachable.induct)
  case init
  then show ?case by (simp add: app_init_def reachable.init)
next
  case (step w w')
  from step.hyps(2) step.IH show ?case by cases (auto intro: reachable.step)
qed

lemma hook_run_lifts:
  "reachable getPair kr h \<Longrightarrow> \<exists>w. app_reachable getPair kr w \<and> hk w = h"
proof (induction rule: reachable.induct)
  case (init sock rpcs customTypes)
  have "app_reachable getPair kr (app_init (INIT_STATE sock rpcs customTypes))"
    by (rule app_reachable.init)
  moreover have "hk (app_init (INIT_STATE sock rpcs customTypes)) = init_world (INIT_STATE sock rpcs customTypes)"
    by (simp add: app_init_def)
  ultimately show ?case by blast
next
  case (step h h')
  then obtain w where "app_reachable getPair kr w" and "hk w = h" by blast
  with step.hyps(2) have "app_reachable getPair kr (remount w h')"
    by (auto intro: app_reachable.step app_step.hook)
  then show ?case by (intro exI [of _ "remount w h'"]) simp
qed

text \<open>
  C12: the composed application keeps every component's invariant: the hook's
  invariant holds, \<open>Main\<close> has the editors mounted exactly when it renders the dashboard,
  the profile editor follows the hook's account while mounted, the supply chain editor
  shows its dimmer only with a call under way and the roles manager its metadata flag
  only with a metadata request under way.
\<close>

theorem app_invariant: "app_reachable getPair kr w \<Longrightarrow> app_inv w"
  by (rule app_reachable_inv)

lemma app_invariant_witness: "app_inv (app_init (INIT_STATE ''ws://127.0.0.1:9944'' 0 0))"
  by (rule app_invariant [of demo_getPair 1, OF app_reachable.init])

text \<open>
  C16: \<open>Main\<close> mounts the editors exactly when the API, the keyring and the contract
  are all \<open>READY\<close>; otherwise it renders a loader or an error message.
\<close>

theorem main_mounts_editors_iff:
  "mounts_editors (render_main s) \<longleftrightarrow>
     apiState s = Some READY \<and> keyringState s = Some READY \<and> tokenContractState s = Some READY"
  by (simp add: mounts_editors_render main_view_Editors)

end
