(* ===== verification/PageViews.thy ===== *)
theory PageViews
  imports AuthPages
begin

text \<open>
  Model of the \<open>render\<close> methods and \<open>mapStateToProps\<close> of the three auth pages
  (\<^verbatim>\<open>containers/Pages/Auth/Signup/index.js\<close>, \<^verbatim>\<open>containers/Pages/AssetHandler/index.js\<close>,
  \<^verbatim>\<open>containers/Pages/Auth/ResetPassword/index.js\<close>). A page's view is a record of
  what it shows: the spinner, which is driven by the auth store's in-flight flags, the
  banner, the form items with their value and validation status, and the buttons.
  \<open>Joi.getFirstPlainError\<close> belongs to the missing \<^verbatim>\<open>utils/validator\<close> and is the
  parameter \<open>fpe\<close>.
\<close>

subsection \<open>Shared parts\<close>

type_synonym plain_error = "json \<Rightarrow> string \<Rightarrow> json option"

record field_view =
  fi_label :: string
  fi_value :: "json option"
  fi_status :: string
  fi_help :: "json option"
  fi_required :: bool

text \<open>
  A \<open>Form.Item\<close> for key \<open>k\<close>: \<open>validateStatus={Joi.getFirstPlainError(errors, k) ?
  'error' : ''}\<close> and \<open>help={Joi.getFirstPlainError(errors, k)}\<close> around an input
  showing \<open>v\<close>.
\<close>

definition form_item :: "plain_error \<Rightarrow> json \<Rightarrow> string \<Rightarrow> string \<Rightarrow> json option \<Rightarrow> bool \<Rightarrow> field_view" where
  "form_item fpe errs k lbl v req =
     \<lparr>fi_label = lbl, fi_value = v, fi_status = (if json_truthy (fpe errs k) then ''error'' else []),
      fi_help = fpe errs k, fi_required = req\<rparr>"

text \<open>\<open>(location.state && location.state.msg) || ''\<close>\<close>

definition location_msg :: "json option \<Rightarrow> json" where
  "location_msg loc =
     (let st = js_get loc ''state''; m = js_get st ''msg'' in
      if json_truthy st \<and> json_truthy m then the m else JStr [])"

text \<open>\<open>{!!msg && <h2>{msg}</h2>}\<close>\<close>

definition banner :: "json \<Rightarrow> json option" where
  "banner m = (if json_truthy (Some m) then Some m else None)"

subsection \<open>Signup page\<close>

text \<open>The resend button: \<open>disabled={retryCounter > 0}\<close> and its label.\<close>

record resend_button =
  rb_disabled :: bool
  rb_label :: string

datatype signup_card = SignupFormCard "field_view list" | EmailSentCard resend_button

record signup_view =
  sv_spinning :: bool
  sv_banner :: "json option"
  sv_card :: signup_card

definition resend_label :: "int \<Rightarrow> string" where
  "resend_label c =
     (if c > 0 then ''You can resend after '' @ decimal (nat c) @ ''s'' else ''Resend Verification Email'')"

definition signup_fields :: "plain_error \<Rightarrow> signup_page \<Rightarrow> field_view list" where
  "signup_fields fpe s =
     map (\<lambda>(k, lbl). form_item fpe (errors s) k lbl (js_get (Some (formData s)) k) True)
       [(''firstName'', ''First Name''), (''lastName'', ''Last Name''), (''username'', ''Username''),
        (''email'', ''Email''), (''password'', ''Password'')]"

definition signup_render :: "plain_error \<Rightarrow> json option \<Rightarrow> auth_state \<Rightarrow> signup_page \<Rightarrow> signup_view" where
  "signup_render fpe loc st s =
     \<lparr>sv_spinning = (isPostingSignup st \<or> isPostingRequestResendVerificationEmail st),
      sv_banner = banner (location_msg loc),
      sv_card = (if \<not> emailSent s then SignupFormCard (signup_fields fpe s)
                 else EmailSentCard \<lparr>rb_disabled = retryCounter s > 0, rb_label = resend_label (retryCounter s)\<rparr>)\<rparr>"

subsection \<open>Login page\<close>

datatype lg_button =
    LoginButton | ForgotPasswordButton | GoToSignupButton | ResetPasswordButton
  | ResendVerificationButton

record tab_pane =
  pane_tab :: string
  pane_key :: string
  pane_fields :: "field_view list"
  pane_buttons :: "lg_button list"

record login_view =
  lv_spinning :: bool
  lv_banner :: "json option"
  lv_activeKey :: string
  lv_panes :: "tab_pane list"

definition login_render :: "plain_error \<Rightarrow> json option \<Rightarrow> auth_state \<Rightarrow> login_page \<Rightarrow> login_view" where
  "login_render fpe loc st s =
     (let email = form_item fpe (lg_errors s) ''email'' ''Email'' (js_get (Some (lg_formData s)) ''email'') False;
          pwd = form_item fpe (lg_errors s) ''password'' ''Password'' (js_get (Some (lg_formData s)) ''password'') False in
      \<lparr>lv_spinning = (isPostingLogin st \<or> isPostingRequestResendVerificationEmail st \<or> isPostingPwdResetRequest st),
       lv_banner = banner (location_msg loc),
       lv_activeKey = activeTab s,
       lv_panes =
         [\<lparr>pane_tab = ''Login'', pane_key = TAB_LOGIN, pane_fields = [email, pwd],
           pane_buttons = [LoginButton, ForgotPasswordButton, GoToSignupButton]\<rparr>,
          \<lparr>pane_tab = ''Forgot Password'', pane_key = TAB_FORGOT_PASSWORD, pane_fields = [email],
           pane_buttons = [ResetPasswordButton]\<rparr>,
          \<lparr>pane_tab = ''Resend Verification'', pane_key = TAB_RESEND_VERIFICATION, pane_fields = [email],
           pane_buttons = [ResendVerificationButton]\<rparr>]\<rparr>)"

subsection \<open>Reset password page\<close>

datatype reset_card =
    VerifyingCard | InvalidRequestCard | ResetFormCard "field_view list"
  | ResetResultCard string "json option"

record reset_view =
  rv_spinning :: bool
  rv_card :: reset_card

definition reset_render :: "plain_error \<Rightarrow> auth_state \<Rightarrow> reset_page \<Rightarrow> reset_view" where
  "reset_render fpe st s =
     \<lparr>rv_spinning = (isPostingVerifyPwdResetToken st \<or> isPostingPwdReset st),
      rv_card =
        (if hasCheckedToken s then
           if isTokenValid s then
             if \<not> hasFinishedResetPassword s then
               ResetFormCard
                 [form_item fpe (rp_errors s) ''password'' ''Password'' (Some (JStr (password s))) True,
                  form_item fpe (rp_errors s) ''passwordConfirmation'' ''Password Confirmation''
                    (Some (JStr (passwordConfirmation s))) True]
             else ResetResultCard ((if isSuccessful s then ''success'' else ''fail'') @ '' email-verify'') (rp_msg s)
           else InvalidRequestCard
         else VerifyingCard)\<rparr>"

subsection \<open>Lemmas\<close>

lemma flag_iff_inflight:
  assumes "auth_reachable (types m) parse str S" and "f \<noteq> FLogin"
  shows "flag f (auth (env S)) \<longleftrightarrow> f \<in> set (inflight S)"
  using auth_reachable_inv [OF assms(1)] assms(2) by (auto simp: auth_inv_def)

lemma inflight_flag:
  "auth_reachable (types m) parse str S \<Longrightarrow> f \<in> set (inflight S) \<Longrightarrow> flag f (auth (env S))"
  using auth_reachable_inv by (auto simp: auth_inv_def)

text \<open>
  C13: on the signup and reset pages the spinner is on exactly while one of the page's
  own requests is under way; on the login page it is on whenever one of its three
  requests is under way.
\<close>

theorem pages_spin_iff_request:
  assumes "auth_reachable (types m) parse str S"
  shows "(sv_spinning (signup_render fpe loc (auth (env S)) sp) \<longleftrightarrow>
            FSignup \<in> set (inflight S) \<or> FResend \<in> set (inflight S)) \<and>
         (rv_spinning (reset_render fpe (auth (env S)) rp) \<longleftrightarrow>
            FVerifyToken \<in> set (inflight S) \<or> FPwdReset \<in> set (inflight S)) \<and>
         (FLogin \<in> set (inflight S) \<or> FResend \<in> set (inflight S) \<or> FPwdResetRequest \<in> set (inflight S) \<longrightarrow>
            lv_spinning (login_render fpe loc (auth (env S)) lp))"
  using flag_iff_inflight [OF assms, of FSignup] flag_iff_inflight [OF assms, of FResend]
    flag_iff_inflight [OF assms, of FVerifyToken] flag_iff_inflight [OF assms, of FPwdReset]
    flag_iff_inflight [OF assms, of FPwdResetRequest] inflight_flag [OF assms, of FLogin]
  by (auto simp: signup_render_def reset_render_def login_render_def Let_def)

lemma pages_spin_iff_request_witness:
  "\<not> sv_spinning (signup_render (\<lambda>_ _. None) None (auth (env (page_start Map.empty None))) signup_init) \<and>
   \<not> rv_spinning (reset_render (\<lambda>_ _. None) (auth (env (page_start Map.empty None))) reset_init)"
  using pages_spin_iff_request [OF auth_reachable.init [of "types Development" "\<lambda>_. None" "\<lambda>_. []" Map.empty None],
      where fpe = "\<lambda>_ _. None" and loc = None and sp = signup_init and rp = reset_init and lp = login_init]
  by (simp add: page_start_def)

end
