(* ===== verification/StoreConfig.thy ===== *)
theory StoreConfig
  imports Prelude
begin

text \<open>
  Model of \<^verbatim>\<open>src/store/configureStore.js\<close>. No module of the repository imports it,
  and it imports two modules the repository does not contain
  (\<^verbatim>\<open>../modules/auth/reducers/reducer\<close> for the login slice's initial state and
  \<^verbatim>\<open>./reducers\<close> for the reducers it combines), so the store it would build cannot be
  assembled. What the file itself decides is modelled: the persistence configuration
  as data, the redirect it runs when it is loaded, the logger's predicate and the order
  of the middleware. The library calls (\<open>createStore\<close>, \<open>persistReducer\<close>,
  \<open>combineReducers\<close>, \<open>createLogger\<close>) are not.
\<close>

subsection \<open>Configuration\<close>

text \<open>
  \<open>expireReducer("login", {expireSeconds: 10 * 60, expiredState, autoExpire: true})\<close>;
  \<open>expiredState\<close> comes from the missing module and is left out.
\<close>

record expire_config =
  ec_key :: string
  expireSeconds :: nat
  autoExpire :: bool

record persist_config =
  pc_key :: string
  whitelist :: "string list"
  transforms :: "expire_config list"

definition persistConfig :: persist_config where
  "persistConfig =
     \<lparr>pc_key = ''auth'', whitelist = [''login''],
      transforms = [\<lparr>ec_key = ''login'', expireSeconds = 10 * 60, autoExpire = True\<rparr>]\<rparr>"

datatype middleware = Thunk | Logger | RouterMiddleware

text \<open>\<open>applyMiddleware(thunk, logger, middleware)\<close>: an action passes them in this order.\<close>

definition middleware_chain :: "middleware list" where
  "middleware_chain = [Thunk, Logger, RouterMiddleware]"

text \<open>\<open>predicate: () => process.env.REACT_APP_ENV !== "prod"\<close>; an unset variable is \<open>None\<close>.\<close>

definition logger_predicate :: "string option \<Rightarrow> bool" where
  "logger_predicate env = (env \<noteq> Some ''prod'')"

subsection \<open>The redirect at load time\<close>

text \<open>
  \<open>localStorage.getItem("IS_FIRST_USAGE")\<close> is a string or \<open>null\<close> (\<open>None\<close>); on the
  root path with a truthy value the module pushes \<open>/home\<close> onto the history.
\<close>

definition first_usage_redirect :: "string \<Rightarrow> string option \<Rightarrow> string list \<Rightarrow> string list" where
  "first_usage_redirect pathname firstUsage hist =
     (if pathname = ''/'' \<and> truthy_str firstUsage then hist @ [''/home''] else hist)"

subsection \<open>Lemmas\<close>

lemma first_usage_redirect_iff:
  "first_usage_redirect p f h \<noteq> h \<longleftrightarrow> p = ''/'' \<and> (\<exists>v. f = Some v \<and> v \<noteq> [])"
  by (auto simp: first_usage_redirect_def truthy_str_def split: option.splits)

end
