(* ===== verification/Config.thy ===== *)
theory Config
  imports Prelude
begin

text \<open>
  Model of \<^verbatim>\<open>src/src/config/index.js\<close> and \<^verbatim>\<open>src/src/constants/index.js\<close>.
  The process environment is a map from variable names to strings; the two JSON files
  (\<^verbatim>\<open>common.json\<close> and the one named by \<open>NODE_ENV\<close>) are not in the repository and
  are parameters. Objects keep their newest entry first, as elsewhere in the
  development, so a later spread wins.
\<close>

subsection \<open>The configuration object\<close>

definition envVarNames :: "string list" where
  "envVarNames = [''REACT_APP_PROVIDER_SOCKET'', ''REACT_APP_DEVELOPMENT_KEYRING'']"

text \<open>
  \<open>envVarNames.reduce((mem, n) => { if (process.env[n] !== undefined)
  mem[n.slice(10)] = process.env[n]; return mem; }, {})\<close>
\<close>

definition envVars :: "(string \<rightharpoonup> string) \<Rightarrow> (string \<times> json) list" where
  "envVars penv =
     foldl (\<lambda>mem n. case penv n of Some v \<Rightarrow> (drop 10 n, JStr v) # mem | None \<Rightarrow> mem) [] envVarNames"

text \<open>\<open>new BN('1000000000000000')\<close> and \<open>new BN('1000000000000')\<close>\<close>

definition callParams :: json where
  "callParams = JObj [(''endowment'', JNum 1000000000000000), (''weight'', JNum 1000000000000)]"

text \<open>\<open>{ ...configCommon, ...configEnv, ...envVars, callParams: { endowment, weight } }\<close>\<close>

definition config :: "json \<Rightarrow> json \<Rightarrow> (string \<rightharpoonup> string) \<Rightarrow> json" where
  "config configCommon configEnv penv =
     JObj ((''callParams'', callParams) # envVars penv @ spread_props (Some configEnv) @
           spread_props (Some configCommon))"

subsection \<open>Constants\<close>

text \<open>\<open>String(v)\<close> of a string or \<open>undefined\<close>, as \<open>+\<close> with a string computes it.\<close>

definition js_str :: "string option \<Rightarrow> string" where
  "js_str v = (case v of Some s \<Rightarrow> s | None \<Rightarrow> ''undefined'')"

definition API_SERVER :: "(string \<rightharpoonup> string) \<Rightarrow> string option" where
  "API_SERVER penv = penv ''REACT_APP_API_SERVER''"

definition API_VERSION :: "(string \<rightharpoonup> string) \<Rightarrow> string option" where
  "API_VERSION penv = penv ''REACT_APP_API_VERSION''"

definition API_SERVER_URL :: "(string \<rightharpoonup> string) \<Rightarrow> string" where
  "API_SERVER_URL penv = js_str (API_SERVER penv) @ ''/'' @ js_str (API_VERSION penv)"

definition API_AUTH_HEADER_PREFIX :: "(string \<rightharpoonup> string) \<Rightarrow> string option" where
  "API_AUTH_HEADER_PREFIX penv = penv ''REACT_APP_API_AUTH_HEADER_PREFIX''"

definition DEFAULT_PAGINATION_PER_PAGE :: int where
  "DEFAULT_PAGINATION_PER_PAGE = 50"

subsection \<open>Lemmas\<close>

lemma map_of_envVars:
  "map_of (envVars penv) k =
     (if k = ''PROVIDER_SOCKET'' \<or> k = ''DEVELOPMENT_KEYRING'' then map_option JStr (penv (''REACT_APP_'' @ k))
      else None)"
  by (auto simp: envVars_def envVarNames_def split: option.splits)

text \<open>
  A setting is read from \<open>callParams\<close>, then from a set \<open>REACT_APP_\<close> variable, then
  from the environment's JSON file, then from the common one.
\<close>

lemma config_precedence:
  "json_get (config common env penv) k =
     (if k = ''callParams'' then Some callParams
      else case map_of (envVars penv) k of
             Some v \<Rightarrow> Some v
           | None \<Rightarrow> (case json_get env k of Some x \<Rightarrow> Some x | None \<Rightarrow> json_get common k))"
  by (cases env; cases common) (auto simp: config_def map_add_def split: option.splits)

lemma API_SERVER_URL_unset: "API_SERVER_URL Map.empty = ''undefined/undefined''"
  by (simp add: API_SERVER_URL_def API_SERVER_def API_VERSION_def js_str_def)

end
