(* ===== verification/Spec2Isabelle.thy ===== *)
theory Spec2Isabelle
  imports Strings SubstrateHook ContractCalls AuthSession SupplyChainEditor RolesManager TokenEditor AccountMetadata AuthPages App PageViews StoreConfig Config
begin

text \<open>
  Verification development of the Substrate supply-chain front end (a React application
  under \<^verbatim>\<open>src/src\<close>). The program has two halves that do not talk to each other:
  the blockchain side, a React context that connects to a Substrate node, loads the
  browser-extension accounts and a token contract, and wraps the contract's messages;
  and the account side, a Redux store with the signup, login and password-reset flows
  over a REST API. The editors and pages call into both. The development is a shallow
  embedding: each JavaScript function is a HOL function over explicit state, every
  \<open>throw\<close> and rejection is a value, library objects the code only passes around
  (API, keyring, contract handles) are references, and what external services answer
  is a parameter.

  \<^bold>\<open>Theories and the code they model\<close>
  \<^item> \<open>Prelude\<close>: the JavaScript semantics the code relies on: truthiness,
    \<open>a || b\<close>, \<open>String.prototype.substr\<close>, promise settlement (first settlement
    wins), JSON values and property reads (a read on \<open>undefined\<close>/\<open>null\<close> is a
    \<open>TypeError\<close>), and shared list and map lemmas.
  \<^item> \<open>Notifier\<close>: \<^verbatim>\<open>utils/notifier.js\<close>, the notification options its
    \<open>success\<close> and \<open>error\<close> build; thunks and pages append them to one list.
  \<^item> \<open>Strings\<close>: \<^verbatim>\<open>utils/strings.js\<close> \<open>trim\<close>, its two scanning loops as
    \<open>start_scan\<close> and \<open>end_scan\<close>.
  \<^item> \<open>JsNumber\<close>: \<open>Number.parseInt\<close> and decimal printing, used by the contract
    version check and the token ids.
  \<^item> \<open>SubstrateState\<close>: \<^verbatim>\<open>substrate-lib/SubstrateContext.js\<close>, the connection
    state (\<open>INIT_STATE\<close>, the reducer with its throw on unknown types) and the
    screen choice of \<open>Main\<close> in \<^verbatim>\<open>App.js\<close>.
  \<^item> \<open>SubstrateHook\<close>: the effects of \<^verbatim>\<open>contexts/useSubstrate.js\<close>
    (\<open>connect\<close>, \<open>loadAccounts\<close>, \<open>loadContract\<close>, \<open>setAccountAddress\<close>) as the
    inductive step relation \<open>hook_step\<close> over the state and the requests in flight;
    \<open>reachable\<close> is its closure from \<open>INIT_STATE\<close>.
  \<^item> \<open>ContractCalls\<close>: the query and transaction wrappers of \<open>useSubstrate\<close>
    (\<open>getAccountMetadata\<close>, \<open>getSupplyChain\<close>, \<open>getRoles\<close>, \<open>listAllTokens\<close>,
    \<open>getTokenOwner\<close>, \<open>getTokenMetadata\<close>, and the six \<open>update\<close>/\<open>mint\<close>/\<open>transfer\<close>
    transactions through the shared body \<open>send_tx\<close>, whose status callback is
    \<open>on_status\<close>).
  \<^item> \<open>AuthTypes\<close>: \<^verbatim>\<open>redux/types.js\<close>, the action-type table in the development
    build (names) and the production build (consecutive numbers from a start index).
  \<^item> \<open>AuthReducer\<close>: \<^verbatim>\<open>redux/reducers/auth.js\<close>, the switch with JavaScript's
    first-match semantics over the table values (\<open>auth_cases\<close>, \<open>auth_case_body\<close>,
    \<open>auth_reducer\<close>), and Redux's refusal of an undefined type (\<open>redux_dispatch\<close>).
  \<^item> \<open>AuthActions\<close>: \<^verbatim>\<open>redux/actions/auth.js\<close> and \<^verbatim>\<open>utils/setApiAuthHeader.js\<close>,
    each thunk over an environment of the store slice, \<open>localStorage\<close>, the axios
    header, notifications and history: the guard and \<open>_REQUEST\<close> dispatch
    (\<open>thunk_start\<close>), the \<open>.then\<close>/\<open>.catch\<close> chain per thunk (\<open>*_settle\<close>),
    \<open>loginWithToken\<close> and \<open>logout\<close>.
  \<^item> \<open>AuthSession\<close>: the interleaving of those thunks as the inductive relation
    \<open>auth_step\<close> (start a call, answer a call under way, \<open>loginWithToken\<close>,
    \<open>logout\<close>, in any order) and its closure \<open>auth_reachable\<close> from a fresh page.
  \<^item> \<open>SupplyChainEditor\<close>: \<^verbatim>\<open>components/SupplyChainEditor/index.js\<close>, the
    component's state hooks as the record \<open>sc_editor\<close>, each handler as a function on
    it (\<open>onAddNode\<close>, \<open>onRemoveNode\<close>, ...), the two async handlers split at their
    \<open>await\<close> (\<open>fetch_start\<close>/\<open>fetch_done\<close>, \<open>save_start\<close>/\<open>save_done\<close>),
    and their interleaving with the calls under way as \<open>sc_step\<close>.
  \<^item> \<open>RolesManager\<close>: \<^verbatim>\<open>components/RolesManager/index.js\<close>, likewise
    (\<open>roles_mgr\<close>, \<open>rm_step\<close>): the role table's lookups by address with
    JavaScript's \<open>===\<close> and the \<open>TypeError\<close> of a \<open>null\<close> entry, the upsert of
    \<open>onModalFinish\<close> and its timer callback, the roles and metadata effects, and
    \<open>roles_map\<close>, the abstract table (first entry per address) the upsert refines.
  \<^item> \<open>TokenEditor\<close>: \<^verbatim>\<open>components/TokenEditor/index.js\<close> (\<open>token_editor\<close>,
    \<open>te_step\<close>): the token list and metadata effects, minting, the metadata and
    transfer modals and the upload callback, each async handler split at its awaits.
  \<^item> \<open>AccountMetadata\<close>: the metadata store (\<^verbatim>\<open>store/StoreContext.js\<close>,
    \<^verbatim>\<open>store/useStore.js\<close>: \<open>store_reducer\<close>, \<open>setAccountMetadata\<close>) and the
    profile editor \<^verbatim>\<open>components/AccountMetadata/index.js\<close> over it, with account
    switches of the connection hook (\<open>am_step\<close>).
  \<^item> \<open>AuthPages\<close>: the signup, login (\<^verbatim>\<open>containers/Pages/AssetHandler\<close>) and
    reset-password pages: each handler calls a thunk through \<open>thunk_start\<close>
    (\<open>call_thunk\<close>) and continues in its \<open>.then\<close>/\<open>.catch\<close> on the thunk's result;
    the signup page runs beside the auth store as \<open>sg_step\<close>, with the resend
    countdown \<open>tick\<close> and its loop \<open>ticks_to_enable\<close>.
  \<^item> \<open>App\<close>: \<^verbatim>\<open>App.js\<close>: what \<open>Main\<close> renders (\<open>render_main\<close>: the
    loader and message texts of \<open>loader\<close> and \<open>message\<close>, or the dashboard's components
    in order) and the application \<open>App\<close> composes, as \<open>app_step\<close>: the hook's
    lifecycle (\<open>SubstrateContextProvider\<close>), the metadata store
    (\<open>StoreContextProvider\<close>, above \<open>Main\<close>) and the four editors, which exist only
    while \<open>Main\<close> renders the dashboard (\<open>remount\<close>): they mount with their initial
    state, the profile editor's effect re-runs when the hook's account changes, and on
    an unmount their pending calls are lost except the metadata requests, which still
    write the store.
  \<^item> \<open>PageViews\<close>: the \<open>render\<close> methods and \<open>mapStateToProps\<close> of the three auth
    pages (\<open>signup_render\<close>, \<open>login_render\<close>, \<open>reset_render\<close>): the spinner read from
    the store's in-flight flags, the banner from \<open>location.state.msg\<close>, the form items
    (\<open>form_item\<close>, with the missing validator's \<open>getFirstPlainError\<close> as a
    parameter), the login page's tabs and buttons, the resend button's label and
    disabled state, and the reset page's card for each state.
  \<^item> \<open>StoreConfig\<close>: \<^verbatim>\<open>src/store/configureStore.js\<close>, the persistence
    configuration (\<open>persistConfig\<close>: the \<open>login\<close> slice expires after 600 seconds),
    the redirect to \<open>/home\<close> it runs when loaded (\<open>first_usage_redirect\<close>), the
    logger's predicate and the middleware order. No module imports this file and it
    imports two modules the repository lacks, so the store it builds is not modelled.
  \<^item> \<open>Config\<close>: \<^verbatim>\<open>config/index.js\<close> and \<^verbatim>\<open>constants/index.js\<close> over the
    process environment: the configuration object and its precedence
    (\<open>config_precedence\<close>: \<open>callParams\<close>, then a set \<open>REACT_APP_\<close> variable, then the
    \<open>NODE_ENV\<close> file, then the common file; the two JSON files are parameters) and
    the API constants, which read \<open>undefined/undefined\<close> when the variables are unset.

  \<^bold>\<open>What the lemmas show\<close>
  \<^item> \<open>trim\<close> equals the reference \<open>trim_ref\<close> stated with \<open>dropWhile\<close>/\<open>takeWhile\<close>
    (\<open>trim_ref_correct\<close>); from it: \<open>trim\<close> extracts the bracketed JSON text from
    padding, is idempotent, returns a contiguous piece of its input, leaves JSON text
    unchanged, and returns the empty string when the matching closing bracket comes
    first.
  \<^item> The connection reducer throws exactly on unknown types; the hook's lifecycle keeps
    an invariant (a \<open>READY\<close> or \<open>LOADING\<close> contract has a handle with its ABI, an
    in-flight version query has a handle, a \<open>READY\<close> keyring has a keyring), so the
    editors are only shown with a contract and keyring; some run reaches the editors;
    a contract handle is never replaced; the version check accepts exactly a non-zero
    \<open>parseInt\<close>; without a polkadot-js account no default account is selected.
  \<^item> The metadata written by a transaction is read back by the query (round trip);
    queries tolerate padding and fall back to their defaults exactly on empty or
    unparsable text; a transaction's promise settles exactly on block inclusion, never
    when the extension lookup fails, and it unsubscribes exactly on finalisation.
  \<^item> The type table is injective on declared names and lacks the unsubscribe names;
    through the store each request kind's actions raise and lower exactly its flag;
    the unsubscribe actions are misrouted and refused; a failed login, logout and foreign
    actions do what the reducer's cases say.
  \<^item> Across any interleaving of the auth thunks: no kind has two calls under way and
    the flags mirror the calls under way (\<open>auth_session_invariant\<close>); a second call
    is refused; \<open>unsubscribe\<close> always throws; a \<open>loginWithToken\<close> whose user text does
    not parse blocks every later login for good; a login answer that arrives after
    \<open>logout\<close> restores the session; a login answer without token and a failed
    \<open>getMe\<close> end as the catch handlers say.
  \<^item> Editors: the supply chain dimmer is on only while a call is under way; removing
    a node keeps only that node (the \<open>splice\<close> result); a fetch can overwrite an
    unsaved edit. The roles upsert refines a map update and keeps addresses distinct; metadata
    of one address can be shown for another; a throwing Update leaves the loading
    flag set for good.
  \<^item> The token editor's loading flags are each up only while a call that lowers
    them is under way (\<open>te_loading_only_with_call\<close>); it can mint an id that is
    already listed, mint the same id twice when the list is refetched during a mint,
    and loses the form on an upload; the profile form carries fields typed for another account into the next
    account's edit.
  \<^item> Pages: the resend countdown ends after exactly \<open>retryCounter\<close> ticks
    (\<open>countdown_terminates\<close>) and the counter stays within
    \<open>[0, DEFAULT_EMAIL_RESEND_COUNTER]\<close> in every reachable state; a click while the
    same request is under way makes the page's \<open>.catch\<close> throw, and a refused token
    check leaves the reset page unchecked.
  \<^item> The composed application keeps the hook's and the editors' invariants and
    mounts the editors exactly when API, keyring and contract are \<open>READY\<close>, so a
    mounted editor always has a contract handle and a keyring and the profile editor
    follows the hook's account (\<open>app_invariant\<close>, \<open>main_mounts_editors_iff\<close>).
  \<^item> Page views: the signup and reset pages spin exactly while one of their requests
    is under way and the login page whenever one of its requests is
    (\<open>pages_spin_iff_request\<close>).

  \<^bold>\<open>Modelling choices\<close>
  \<^item> React effects and listeners run whenever their guards hold and in any order, so
    \<open>hook_step\<close> over-approximates the schedules React can produce; the properties
    proved for all reachable states hold for every real schedule. The API's
    \<open>ready\<close> event is the exception: it is emitted once, so its rule fires at most
    once (\<open>readyFired\<close>), and every reconnection reaches \<open>CONNECT_SUCCESS\<close> through
    the \<open>isReady\<close> callback its \<open>connected\<close> event queued.
  \<^item> The connection reducer's catch-all action \<open>UnknownAction t\<close> stands for an
    action whose type \<open>t\<close> is none of the ten labels of its cases; no code of the
    repository dispatches such an action.
  \<^item> The REST answers (\<open>api_outcome\<close>), \<open>JSON.parse\<close>, \<open>JSON.stringify\<close>, the
    keyring's \<open>getPair\<close> and the chain's RPC answers are parameters. The interleaving
    of the auth flows assumes the REST client rejects with error objects
    (\<open>axios_outcome\<close>), as axios does; with an undefined rejection the catch handlers
    would throw before their \<open>_FAIL\<close> dispatch.
  \<^item> No bound or fuel is needed: every loop of the modelled code is a structural
    recursion or a \<open>function\<close> with a measure (\<open>start_scan\<close>), and the reachable-state
    properties are proved by rule induction. The one loop that could run forever, the
    signup page's interval until the resend button is enabled, is a
    \<open>partial_function (option)\<close>, and its termination is proved as the value
    \<open>Some (nat retryCounter)\<close>.
  \<^item> Each component's asynchronous handler is split at its \<open>await\<close>s; the part after an
    \<open>await\<close> runs when a call under way settles, in any order with the user's handlers
    (\<open>sc_step\<close>, \<open>rm_step\<close>, \<open>te_step\<close>, \<open>am_step\<close>, \<open>sg_step\<close>). A disabled
    button has no step while it is disabled; effects may run at any time, which
    over-approximates React's schedules. The answers of the contract calls are
    promises given to the settle functions, so the lemmas hold for any chain.
  \<^item> JSON numbers are integers or decimals in lowest terms (\<open>JDec\<close>), enough for the
    two decimal literals of the token editor. The form validator of the pages is not
    in the repository and is a parameter (\<open>joi\<close>).
  \<^item> Objects built by the thunks keep their newest entry first (\<open>with_msg\<close>); the index
    entries that spreading a string or array would add are left out, since no code
    reads them.

  \<^bold>\<open>Not modelled\<close>
  \<^item> The JSX layout of the components and pages is not modelled beyond which handler
    a control calls and when it is disabled, and, for \<open>Main\<close> and the auth pages,
    which components, fields, labels and buttons they show; \<open>onUploadFile\<close> only opens the external upload widget, whose
    callback is modelled.
  \<^item> Rendering, styling and routing code (\<^verbatim>\<open>LoadingIndicator\<close>, \<^verbatim>\<open>ScrollToTop\<close>,
    \<^verbatim>\<open>Balance.tsx\<close>, \<^verbatim>\<open>contracts/*\<close>, \<^verbatim>\<open>themeContext.js\<close>) has no
    state transitions of its own; the Redux store \<^verbatim>\<open>configureStore.js\<close> would build
    needs the missing \<^verbatim>\<open>./reducers\<close> and the Redux, redux-persist and logger
    libraries, which are not modelled.
  \<^item> Modules the code imports but the repository does not contain
    (\<^verbatim>\<open>utils/validator\<close>, \<^verbatim>\<open>substrate-lib/components\<close>,
    \<^verbatim>\<open>components/meta/*\<close>, the REST module) are parameters or left out.
\<close>

end
